theory Spec2Isabelle
  imports Main "HOL-Library.Word"
begin

unbundle bit_operations_syntax

section \<open>EROFS mount path (fs/erofs/super.c): data model\<close>

text \<open>
  The development follows \<^verbatim>\<open>fs/erofs/super.c\<close>. C functions that return
  \<^verbatim>\<open>0\<close> or \<^verbatim>\<open>-errno\<close> and mutate the superblock return a pair here: the result
  (\<open>Inl\<close> the errno, \<open>Inr\<close> on \<^verbatim>\<open>0\<close>) and the state as the function leaves it, also
  on the error paths. Memory allocation and I/O are calls into the rest of the kernel:
  their outcomes come from an environment \<open>env\<close>, and every call is recorded
  in the state (\<open>nalloc\<close>, \<open>io_log\<close>).
\<close>

type_synonym u8 = "8 word"
type_synonym u16 = "16 word"
type_synonym u32 = "32 word"
type_synonym u64 = "64 word"
type_synonym bytes = "u8 list"

datatype errno = ENOENT | EIO | ENOMEM | EINVAL | ENOSPC | EBADMSG | EFSCORRUPTED

type_synonym 'a result = "errno + 'a"

text \<open>Handles of opened block devices, files and looked-up paths.\<close>

type_synonym handle = nat

subsection \<open>Compile-time configuration\<close>

text \<open>
  The \<^verbatim>\<open>#ifdef\<close> switches of the file, and the mask of incompatible features the
  build knows (the macro \<^verbatim>\<open>EROFS_ALL_FEATURE_INCOMPAT\<close> of erofs_fs.h), are
  parameters of the model.
\<close>

record kconfig =
  CONFIG_EROFS_FS_ZIP :: bool
  CONFIG_EROFS_FS_XATTR :: bool
  CONFIG_EROFS_FS_POSIX_ACL :: bool
  EROFS_ALL_FEATURE_INCOMPAT :: u32

subsection \<open>Constants of the included headers\<close>

text \<open>
  The values below are those of include/linux/fs.h, fs/erofs/erofs_fs.h and
  fs/erofs/internal.h. The magic number and the supported block size
  (\<open>blkszbits = 12\<close>) are also the ones the specification's scenarios use.
\<close>

definition SB_RDONLY :: "'a::len word" where "SB_RDONLY = 1"
definition SB_NOATIME :: "'a::len word" where "SB_NOATIME = 1024"
definition SB_POSIXACL :: "'a::len word" where "SB_POSIXACL = 65536"

definition EROFS_SUPER_MAGIC_V1 :: u32 where "EROFS_SUPER_MAGIC_V1 = 0xE0F5E1E2"
definition EROFS_SUPER_OFFSET :: nat where "EROFS_SUPER_OFFSET = 1024"
definition LOG_BLOCK_SIZE :: nat where "LOG_BLOCK_SIZE = 12"
definition EROFS_BLKSIZ :: nat where "EROFS_BLKSIZ = 2 ^ LOG_BLOCK_SIZE"
definition PAGE_SIZE :: u32 where "PAGE_SIZE = 4096"

definition EROFS_FEATURE_COMPAT_SB_CHKSUM :: u32 where
  "EROFS_FEATURE_COMPAT_SB_CHKSUM = 1"
definition EROFS_FEATURE_INCOMPAT_DEVICE_TABLE :: u32 where
  "EROFS_FEATURE_INCOMPAT_DEVICE_TABLE = 8"

definition EROFS_MOUNT_XATTR_USER :: u32 where "EROFS_MOUNT_XATTR_USER = 16"
definition EROFS_MOUNT_POSIX_ACL :: u32 where "EROFS_MOUNT_POSIX_ACL = 32"

datatype zip_cache_strategy =
  EROFS_ZIP_CACHE_DISABLED | EROFS_ZIP_CACHE_READAHEAD | EROFS_ZIP_CACHE_READAROUND

subsection \<open>In-memory state\<close>

text \<open>
  \<^verbatim>\<open>struct erofs_device_info\<close>. A pointer that may be \<^verbatim>\<open>NULL\<close> is an option.
\<close>

record erofs_device_info =
  path :: "string option"
  bdev :: "handle option"
  blobfile :: "handle option"
  blocks :: u32
  mapped_blkaddr :: u32

text \<open>
  \<^verbatim>\<open>struct erofs_dev_context\<close>. The file only ever calls
  \<^verbatim>\<open>idr_alloc(&tree, dif, 0, 0, ...)\<close>, which hands out the lowest free id, and
  never removes an entry before the context is destroyed, so the tree is the list of
  its entries by id: \<^verbatim>\<open>idr_alloc\<close> appends, \<^verbatim>\<open>idr_for_each_entry\<close> walks the list
  from its head. The counter \<^verbatim>\<open>extra_devices\<close> is a field of its own, as in the code.
\<close>

record erofs_dev_context =
  tree :: "erofs_device_info list"
  extra_devices :: nat

definition kzalloc_dif :: erofs_device_info where
  "kzalloc_dif = \<lparr>path = None, bdev = None, blobfile = None, blocks = 0, mapped_blkaddr = 0\<rparr>"

definition kzalloc_devs :: erofs_dev_context where
  "kzalloc_devs = \<lparr>tree = [], extra_devices = 0\<rparr>"

text \<open>\<^verbatim>\<open>struct erofs_sb_info\<close>, the fields super.c reads or writes.\<close>

record erofs_sb_info =
  mount_opt :: u32
  cache_strategy :: zip_cache_strategy
  max_sync_decompress_pages :: nat
  devs :: erofs_dev_context
  bootstrap_path :: "string option"
  blob_dir_path :: "string option"
  bootstrap :: "handle option"
  blob_dir :: "handle option"
  feature_compat :: u32
  feature_incompat :: u32
  total_blocks :: u64
  primarydevice_blocks :: u32
  device_id_mask :: u32
  meta_blkaddr :: u32
  xattr_blkaddr :: u32
  islotbits :: nat
  root_nid :: u16
  inos :: u64
  build_time :: u64
  build_time_nsec :: u32
  volume_name :: bytes
  managed_cache :: "handle option"

definition kzalloc_sbi :: erofs_sb_info where
  "kzalloc_sbi = \<lparr>mount_opt = 0, cache_strategy = EROFS_ZIP_CACHE_DISABLED,
     max_sync_decompress_pages = 0, devs = kzalloc_devs, bootstrap_path = None,
     blob_dir_path = None, bootstrap = None, blob_dir = None, feature_compat = 0,
     feature_incompat = 0, total_blocks = 0, primarydevice_blocks = 0,
     device_id_mask = 0, meta_blkaddr = 0, xattr_blkaddr = 0, islotbits = 0,
     root_nid = 0, inos = 0, build_time = 0, build_time_nsec = 0, volume_name = [],
     managed_cache = None\<rparr>"

text \<open>\<^verbatim>\<open>struct super_block\<close>, the fields super.c reads or writes.\<close>

record super_block =
  s_magic :: u64
  s_bdev :: "handle option"
  s_blocksize :: nat
  s_blocksize_bits :: nat
  s_flags :: u64
  s_uuid :: bytes
  s_root :: "handle option"
  s_fs_info :: erofs_sb_info

datatype io_event =
    IO_read_metabuf nat
  | IO_blkdev_get_by_path "string option"
  | IO_filp_open "string option"
  | IO_file_open_root "handle option" bytes
  | IO_kern_path string

text \<open>
  The state a function of the file runs in: the superblock, the number of allocation
  requests made so far, and the I/O requests made so far, oldest first.
\<close>

record kstate =
  sb :: super_block
  nalloc :: nat
  io_log :: "io_event list"

abbreviation EROFS_SB :: "kstate \<Rightarrow> erofs_sb_info" where
  "EROFS_SB s \<equiv> s_fs_info (sb s)"

definition SBI :: "(erofs_sb_info \<Rightarrow> erofs_sb_info) \<Rightarrow> kstate \<Rightarrow> kstate" where
  "SBI f s = s\<lparr>sb := (sb s)\<lparr>s_fs_info := f (s_fs_info (sb s))\<rparr>\<rparr>"

subsection \<open>The rest of the kernel\<close>

text \<open>
  What the callees outside the file answer. \<open>kmalloc_ok n\<close> tells whether the
  \<open>n\<close>-th allocation request succeeds (\<^verbatim>\<open>kzalloc\<close>, \<^verbatim>\<open>kmemdup\<close>, \<^verbatim>\<open>match_strdup\<close>,
  \<^verbatim>\<open>idr_alloc\<close>; a failed \<^verbatim>\<open>idr_alloc\<close> is taken to return \<^verbatim>\<open>-ENOMEM\<close>, its other error
  \<^verbatim>\<open>-ENOSPC\<close> needing a tree that holds every id); the other fields are the results of
  the I/O calls by argument
  (\<open>erofs_iget\<close> gives the inode and whether \<^verbatim>\<open>S_ISDIR\<close> holds of its mode), the
  CRC-32C routine of the kernel library, and the outcomes of \<^verbatim>\<open>sb_set_blocksize\<close>,
  \<^verbatim>\<open>d_make_root\<close> and \<^verbatim>\<open>new_inode\<close>.
\<close>

record env =
  kmalloc_ok :: "nat \<Rightarrow> bool"
  read_metabuf :: "nat \<Rightarrow> bytes result"
  blkdev_get_by_path :: "string option \<Rightarrow> handle result"
  filp_open :: "string option \<Rightarrow> handle result"
  file_open_root :: "handle option \<Rightarrow> bytes \<Rightarrow> handle result"
  kern_path :: "string \<Rightarrow> handle result"
  crc32c :: "u32 \<Rightarrow> bytes \<Rightarrow> u32"
  sb_set_blocksize :: "nat \<Rightarrow> bool"
  erofs_iget :: "u16 \<Rightarrow> (handle \<times> bool) result"
  d_make_root :: "handle \<Rightarrow> handle option"
  new_inode :: "handle option"

text \<open>One allocation request: its outcome, and the request counted.\<close>

definition kmalloc :: "env \<Rightarrow> kstate \<Rightarrow> bool \<times> kstate" where
  "kmalloc e s = (kmalloc_ok e (nalloc s), s\<lparr>nalloc := Suc (nalloc s)\<rparr>)"

definition io :: "io_event \<Rightarrow> kstate \<Rightarrow> kstate" where
  "io ev s = s\<lparr>io_log := io_log s @ [ev]\<rparr>"

section \<open>Mount options\<close>

subsection \<open>Tokenizing\<close>

text \<open>
  \<^verbatim>\<open>while ((p = strsep(&options, ",")))\<close> visits the pieces of the option string
  between commas, empty pieces included, in order; a string without comma is one
  piece. \<open>strsep_comma\<close> is the list of the values \<open>p\<close> takes.
\<close>

primrec strsep_comma :: "string \<Rightarrow> string list" where
  "strsep_comma [] = [[]]"
| "strsep_comma (c # cs) =
     (if c = CHR '','' then [] # strsep_comma cs
      else (case strsep_comma cs of
              [] \<Rightarrow> [[c]]
            | t # ts \<Rightarrow> (c # t) # ts))"

datatype opt =
    Opt_user_xattr
  | Opt_nouser_xattr
  | Opt_acl
  | Opt_noacl
  | Opt_cache_strategy
  | Opt_device
  | Opt_bootstrap_path
  | Opt_blob_dir_path
  | Opt_err

text \<open>
  \<^verbatim>\<open>erofs_tokens\<close>; its last entry \<^verbatim>\<open>{Opt_err, NULL}\<close> is the default of
  \<open>match_token\<close> below.
\<close>

definition erofs_tokens :: "(opt \<times> string) list" where
  "erofs_tokens =
     [(Opt_user_xattr, ''user_xattr''),
      (Opt_nouser_xattr, ''nouser_xattr''),
      (Opt_acl, ''acl''),
      (Opt_noacl, ''noacl''),
      (Opt_cache_strategy, ''cache_strategy=%s''),
      (Opt_device, ''device=%s''),
      (Opt_bootstrap_path, ''bootstrap_path=%s''),
      (Opt_blob_dir_path, ''blob_dir_path=%s'')]"

text \<open>
  Modelled from the spec: \<^verbatim>\<open>match_token\<close> (lib/parser.c) is not among the sources.
  The specification's grammar is "comma-separated \<^verbatim>\<open>key\<close> or \<^verbatim>\<open>key=value\<close> tokens", and
  "a recognized key missing its required value" is an error: a pattern without
  \<^verbatim>\<open>%\<close> matches the piece equal to it; a pattern \<^verbatim>\<open>key=%s\<close> matches a piece that starts
  with \<^verbatim>\<open>key=\<close> and goes on with a non-empty value, which becomes \<^verbatim>\<open>args[0]\<close>. The first
  matching entry of the table decides.
\<close>

definition match_one :: "string \<Rightarrow> string \<Rightarrow> string option option" where
  "match_one s p =
     (let pre = takeWhile (\<lambda>c. c \<noteq> CHR ''%'') p;
          meta = dropWhile (\<lambda>c. c \<noteq> CHR ''%'') p
      in if meta = [] then (if p = s then Some None else None)
         else if take (length pre) s \<noteq> pre then None
         else if meta = ''%s'' then
           (let v = drop (length pre) s in if v = [] then None else Some (Some v))
         else None)"

fun match_token :: "string \<Rightarrow> (opt \<times> string) list \<Rightarrow> opt \<times> string option" where
  "match_token s [] = (Opt_err, None)"
| "match_token s ((t, p) # tbl) =
     (case match_one s p of
        Some a \<Rightarrow> (t, a)
      | None \<Rightarrow> match_token s tbl)"

subsection \<open>Option flags\<close>

definition set_opt :: "u32 \<Rightarrow> erofs_sb_info \<Rightarrow> erofs_sb_info" where
  "set_opt option sbi = sbi\<lparr>mount_opt := mount_opt sbi OR option\<rparr>"

definition clear_opt :: "u32 \<Rightarrow> erofs_sb_info \<Rightarrow> erofs_sb_info" where
  "clear_opt option sbi = sbi\<lparr>mount_opt := mount_opt sbi AND NOT option\<rparr>"

definition test_opt :: "u32 \<Rightarrow> erofs_sb_info \<Rightarrow> bool" where
  "test_opt option sbi = (mount_opt sbi AND option \<noteq> 0)"

subsection \<open>\<^verbatim>\<open>erofs_build_cache_strategy\<close>\<close>

text \<open>
  \<open>args\<close> is \<^verbatim>\<open>args[0]\<close> of \<open>match_token\<close>: for \<^verbatim>\<open>Opt_cache_strategy\<close> the text after
  \<^verbatim>\<open>cache_strategy=\<close>. \<^verbatim>\<open>match_strdup\<close> of a \<^verbatim>\<open>NULL\<close> substring is the empty string.
  Without \<^verbatim>\<open>CONFIG_EROFS_FS_ZIP\<close> the function only prints a message.
\<close>

definition match_strdup :: "string option \<Rightarrow> string" where
  "match_strdup a = (case a of None \<Rightarrow> [] | Some v \<Rightarrow> v)"

definition erofs_build_cache_strategy ::
  "kconfig \<Rightarrow> env \<Rightarrow> string option \<Rightarrow> kstate \<Rightarrow> unit result \<times> kstate" where
  "erofs_build_cache_strategy k e args s =
     (if CONFIG_EROFS_FS_ZIP k then
        (case kmalloc e s of
           (False, s1) \<Rightarrow> (Inl ENOMEM, s1)
         | (True, s1) \<Rightarrow>
            (let cs = match_strdup args in
             if cs = ''disabled'' then
               (Inr (), SBI (\<lambda>i. i\<lparr>cache_strategy := EROFS_ZIP_CACHE_DISABLED\<rparr>) s1)
             else if cs = ''readahead'' then
               (Inr (), SBI (\<lambda>i. i\<lparr>cache_strategy := EROFS_ZIP_CACHE_READAHEAD\<rparr>) s1)
             else if cs = ''readaround'' then
               (Inr (), SBI (\<lambda>i. i\<lparr>cache_strategy := EROFS_ZIP_CACHE_READAROUND\<rparr>) s1)
             else (Inl EINVAL, s1)))
      else (Inr (), s))"

subsection \<open>\<^verbatim>\<open>erofs_default_options\<close>\<close>

definition erofs_default_options :: "kconfig \<Rightarrow> erofs_sb_info \<Rightarrow> erofs_sb_info" where
  "erofs_default_options k sbi =
     (let sbi1 = (if CONFIG_EROFS_FS_ZIP k
                  then sbi\<lparr>cache_strategy := EROFS_ZIP_CACHE_READAROUND,
                           max_sync_decompress_pages := 3\<rparr>
                  else sbi);
          sbi2 = (if CONFIG_EROFS_FS_XATTR k then set_opt EROFS_MOUNT_XATTR_USER sbi1 else sbi1)
      in if CONFIG_EROFS_FS_POSIX_ACL k then set_opt EROFS_MOUNT_POSIX_ACL sbi2 else sbi2)"

subsection \<open>\<^verbatim>\<open>erofs_parse_options\<close>\<close>

text \<open>
  \<^verbatim>\<open>case Opt_device\<close>: three allocation requests (\<^verbatim>\<open>kzalloc\<close>, \<^verbatim>\<open>match_strdup\<close>,
  \<^verbatim>\<open>idr_alloc\<close>), each of which ends the parse when it fails; then the new entry is in
  the tree and the counter is incremented.
\<close>

definition parse_device :: "env \<Rightarrow> string option \<Rightarrow> kstate \<Rightarrow> unit result \<times> kstate" where
  "parse_device e args s =
     (case kmalloc e s of
        (False, s1) \<Rightarrow> (Inl ENOMEM, s1)
      | (True, s1) \<Rightarrow>
         (case kmalloc e s1 of
            (False, s2) \<Rightarrow> (Inl ENOMEM, s2)
          | (True, s2) \<Rightarrow>
             (let dif = kzalloc_dif\<lparr>path := Some (match_strdup args)\<rparr> in
              case kmalloc e s2 of
                (False, s3) \<Rightarrow> (Inl ENOMEM, s3)
              | (True, s3) \<Rightarrow>
                 (Inr (), SBI (\<lambda>i. i\<lparr>devs := (devs i)\<lparr>tree := tree (devs i) @ [dif],
                       extra_devices := Suc (extra_devices (devs i))\<rparr>\<rparr>) s3))))"

text \<open>
  The body of the \<^verbatim>\<open>switch (token)\<close> for one non-empty piece \<open>p\<close>. The path options
  free the old string and store the copy of the new one, which is \<^verbatim>\<open>NULL\<close> when the
  copy fails.
\<close>

definition parse_option :: "kconfig \<Rightarrow> env \<Rightarrow> string \<Rightarrow> kstate \<Rightarrow> unit result \<times> kstate" where
  "parse_option k e p s =
     (case match_token p erofs_tokens of
        (Opt_user_xattr, args) \<Rightarrow>
          (Inr (), if CONFIG_EROFS_FS_XATTR k then SBI (set_opt EROFS_MOUNT_XATTR_USER) s else s)
      | (Opt_nouser_xattr, args) \<Rightarrow>
          (Inr (), if CONFIG_EROFS_FS_XATTR k then SBI (clear_opt EROFS_MOUNT_XATTR_USER) s else s)
      | (Opt_acl, args) \<Rightarrow>
          (Inr (), if CONFIG_EROFS_FS_POSIX_ACL k then SBI (set_opt EROFS_MOUNT_POSIX_ACL) s else s)
      | (Opt_noacl, args) \<Rightarrow>
          (Inr (), if CONFIG_EROFS_FS_POSIX_ACL k then SBI (clear_opt EROFS_MOUNT_POSIX_ACL) s else s)
      | (Opt_cache_strategy, args) \<Rightarrow> erofs_build_cache_strategy k e args s
      | (Opt_device, args) \<Rightarrow> parse_device e args s
      | (Opt_blob_dir_path, args) \<Rightarrow>
          (case kmalloc e s of
             (False, s1) \<Rightarrow> (Inl ENOMEM, SBI (\<lambda>i. i\<lparr>blob_dir_path := None\<rparr>) s1)
           | (True, s1) \<Rightarrow>
               (Inr (), SBI (\<lambda>i. i\<lparr>blob_dir_path := Some (match_strdup args)\<rparr>) s1))
      | (Opt_bootstrap_path, args) \<Rightarrow>
          (case kmalloc e s of
             (False, s1) \<Rightarrow> (Inl ENOMEM, SBI (\<lambda>i. i\<lparr>bootstrap_path := None\<rparr>) s1)
           | (True, s1) \<Rightarrow>
               (Inr (), SBI (\<lambda>i. i\<lparr>bootstrap_path := Some (match_strdup args)\<rparr>) s1))
      | (Opt_err, args) \<Rightarrow> (Inl EINVAL, s))"

text \<open>The loop over the pieces: an empty piece is skipped, an error ends the parse.\<close>

fun parse_pieces :: "kconfig \<Rightarrow> env \<Rightarrow> string list \<Rightarrow> kstate \<Rightarrow> unit result \<times> kstate" where
  "parse_pieces k e [] s = (Inr (), s)"
| "parse_pieces k e (p # ps) s =
     (if p = [] then parse_pieces k e ps s
      else (case parse_option k e p s of
              (Inl err, s1) \<Rightarrow> (Inl err, s1)
            | (Inr u, s1) \<Rightarrow> parse_pieces k e ps s1))"

definition erofs_parse_options ::
  "kconfig \<Rightarrow> env \<Rightarrow> string option \<Rightarrow> kstate \<Rightarrow> unit result \<times> kstate" where
  "erofs_parse_options k e options s =
     (case options of
        None \<Rightarrow> (Inr (), s)
      | Some str \<Rightarrow> parse_pieces k e (strsep_comma str) s)"

subsection \<open>\<^verbatim>\<open>erofs_remount\<close>\<close>

text \<open>
  \<open>flags\<close> is \<^verbatim>\<open>*flags\<close> on entry; the result carries \<^verbatim>\<open>*flags\<close> on return. The
  assertion \<^verbatim>\<open>DBG_BUGON(!sb_rdonly(sb))\<close> is compiled out unless the debug option of the
  file system is set, and is not a branch here.
\<close>

definition erofs_remount ::
  "kconfig \<Rightarrow> env \<Rightarrow> u32 \<Rightarrow> string option \<Rightarrow> kstate \<Rightarrow> unit result \<times> u32 \<times> kstate" where
  "erofs_remount k e flags data s =
     (let org_mnt_opt = mount_opt (EROFS_SB s) in
      case erofs_parse_options k e data s of
        (Inl err, s1) \<Rightarrow> (Inl err, flags, SBI (\<lambda>i. i\<lparr>mount_opt := org_mnt_opt\<rparr>) s1)
      | (Inr u, s1) \<Rightarrow>
          (let s2 = (if test_opt EROFS_MOUNT_POSIX_ACL (EROFS_SB s1)
                     then s1\<lparr>sb := (sb s1)\<lparr>s_flags := s_flags (sb s1) OR SB_POSIXACL\<rparr>\<rparr>
                     else s1\<lparr>sb := (sb s1)\<lparr>s_flags := s_flags (sb s1) AND NOT SB_POSIXACL\<rparr>\<rparr>)
           in (Inr (), flags OR SB_RDONLY, s2)))"

section \<open>The superblock\<close>

subsection \<open>On-disk layout\<close>

text \<open>
  A block is the list of its bytes, and a structure laid over memory is the list of
  bytes from its first one on. A field is the bytes at its offset; \<^verbatim>\<open>le16_to_cpu\<close>,
  \<^verbatim>\<open>le32_to_cpu\<close> and \<^verbatim>\<open>le64_to_cpu\<close> read a field as a little-endian number. The offsets
  are those of \<^verbatim>\<open>struct erofs_super_block\<close> and \<^verbatim>\<open>struct erofs_deviceslot\<close> in
  fs/erofs/erofs_fs.h; the fields and their widths are those of the specification's
  table of the on-disk superblock.
\<close>

fun le_word :: "bytes \<Rightarrow> 'a::len word" where
  "le_word [] = 0"
| "le_word (b # bs) = ucast b + 256 * le_word bs"

definition field :: "nat \<Rightarrow> nat \<Rightarrow> bytes \<Rightarrow> bytes" where
  "field off len m = take len (drop off m)"

definition store :: "nat \<Rightarrow> bytes \<Rightarrow> bytes \<Rightarrow> bytes" where
  "store off v m = take off m @ v @ drop (off + length v) m"

definition le16_to_cpu :: "bytes \<Rightarrow> u16" where "le16_to_cpu f = le_word (take 2 f)"
definition le32_to_cpu :: "bytes \<Rightarrow> u32" where "le32_to_cpu f = le_word (take 4 f)"
definition le64_to_cpu :: "bytes \<Rightarrow> u64" where "le64_to_cpu f = le_word (take 8 f)"

definition dsb_magic :: "bytes \<Rightarrow> bytes" where "dsb_magic = field 0 4"
definition dsb_checksum :: "bytes \<Rightarrow> bytes" where "dsb_checksum = field 4 4"
definition dsb_feature_compat :: "bytes \<Rightarrow> bytes" where "dsb_feature_compat = field 8 4"
definition dsb_blkszbits :: "bytes \<Rightarrow> bytes" where "dsb_blkszbits = field 12 1"
definition dsb_root_nid :: "bytes \<Rightarrow> bytes" where "dsb_root_nid = field 14 2"
definition dsb_inos :: "bytes \<Rightarrow> bytes" where "dsb_inos = field 16 8"
definition dsb_build_time :: "bytes \<Rightarrow> bytes" where "dsb_build_time = field 24 8"
definition dsb_build_time_nsec :: "bytes \<Rightarrow> bytes" where "dsb_build_time_nsec = field 32 4"
definition dsb_blocks :: "bytes \<Rightarrow> bytes" where "dsb_blocks = field 36 4"
definition dsb_meta_blkaddr :: "bytes \<Rightarrow> bytes" where "dsb_meta_blkaddr = field 40 4"
definition dsb_xattr_blkaddr :: "bytes \<Rightarrow> bytes" where "dsb_xattr_blkaddr = field 44 4"
definition dsb_uuid :: "bytes \<Rightarrow> bytes" where "dsb_uuid = field 48 16"
definition dsb_volume_name :: "bytes \<Rightarrow> bytes" where "dsb_volume_name = field 64 16"
definition dsb_feature_incompat :: "bytes \<Rightarrow> bytes" where "dsb_feature_incompat = field 80 4"
definition dsb_extra_devices :: "bytes \<Rightarrow> bytes" where "dsb_extra_devices = field 86 2"
definition dsb_devt_slotoff :: "bytes \<Rightarrow> bytes" where "dsb_devt_slotoff = field 88 2"

definition sizeof_userdata :: nat where "sizeof_userdata = 64"
definition dis_blocks :: "bytes \<Rightarrow> bytes" where "dis_blocks = field 64 4"
definition dis_mapped_blkaddr :: "bytes \<Rightarrow> bytes" where "dis_mapped_blkaddr = field 68 4"
definition EROFS_DEVT_SLOT_SIZE :: nat where "EROFS_DEVT_SLOT_SIZE = 128"

definition erofs_blknr :: "nat \<Rightarrow> nat" where "erofs_blknr addr = addr div EROFS_BLKSIZ"
definition erofs_blkoff :: "nat \<Rightarrow> nat" where "erofs_blkoff addr = addr mod EROFS_BLKSIZ"

definition erofs_sb_has_sb_chksum :: "erofs_sb_info \<Rightarrow> bool" where
  "erofs_sb_has_sb_chksum sbi = (feature_compat sbi AND EROFS_FEATURE_COMPAT_SB_CHKSUM \<noteq> 0)"

definition erofs_sb_has_device_table :: "erofs_sb_info \<Rightarrow> bool" where
  "erofs_sb_has_device_table sbi =
     (feature_incompat sbi AND EROFS_FEATURE_INCOMPAT_DEVICE_TABLE \<noteq> 0)"

text \<open>\<^verbatim>\<open>erofs_read_metabuf\<close>: the block, or the error of the read; the request is logged.\<close>

definition erofs_read_metabuf :: "env \<Rightarrow> nat \<Rightarrow> kstate \<Rightarrow> bytes result \<times> kstate" where
  "erofs_read_metabuf e blkaddr s = (read_metabuf e blkaddr, io (IO_read_metabuf blkaddr) s)"

subsection \<open>\<^verbatim>\<open>erofs_superblock_csum_verify\<close>\<close>

text \<open>
  \<open>sbdata\<close> is block zero. The copy \<open>dsb\<close> holds the bytes from \<^verbatim>\<open>EROFS_SUPER_OFFSET\<close> to
  the end of the block; the checksum field is read, then overwritten with zero, and the
  CRC-32C of the whole copy, seeded with \<^verbatim>\<open>~0\<close>, is compared with what was read.
\<close>

definition erofs_superblock_csum_verify ::
  "env \<Rightarrow> bytes \<Rightarrow> kstate \<Rightarrow> unit result \<times> kstate" where
  "erofs_superblock_csum_verify e sbdata s =
     (case kmalloc e s of
        (False, s1) \<Rightarrow> (Inl ENOMEM, s1)
      | (True, s1) \<Rightarrow>
         (let dsb = take (EROFS_BLKSIZ - EROFS_SUPER_OFFSET) (drop EROFS_SUPER_OFFSET sbdata);
              expected_crc = le32_to_cpu (dsb_checksum dsb);
              dsb0 = store 4 (replicate 4 0) dsb;
              crc = crc32c e (NOT 0) dsb0
          in if crc \<noteq> expected_crc then (Inl EBADMSG, s1) else (Inr (), s1)))"

subsection \<open>\<^verbatim>\<open>check_layout_compatibility\<close>\<close>

definition check_layout_compatibility :: "kconfig \<Rightarrow> bytes \<Rightarrow> kstate \<Rightarrow> bool \<times> kstate" where
  "check_layout_compatibility k dsb s =
     (let feature = le32_to_cpu (dsb_feature_incompat dsb);
          s1 = SBI (\<lambda>i. i\<lparr>feature_incompat := feature\<rparr>) s
      in if feature AND NOT (EROFS_ALL_FEATURE_INCOMPAT k) \<noteq> 0 then (False, s1)
         else (True, s1))"

section \<open>Devices\<close>

subsection \<open>The device-id mask\<close>

fun fls :: "nat \<Rightarrow> nat" where
  "fls n = (if n = 0 then 0 else Suc (fls (n div 2)))"

definition roundup_pow_of_two :: "nat \<Rightarrow> nat" where
  "roundup_pow_of_two n = 2 ^ fls (n - 1)"

subsection \<open>The devices of the mount options (\<^verbatim>\<open>idr_for_each_entry\<close>)\<close>

text \<open>
  How the body of a loop is left: to the next round, by \<^verbatim>\<open>break\<close> with \<^verbatim>\<open>err\<close> set,
  or by \<^verbatim>\<open>goto err_out\<close> with \<^verbatim>\<open>err\<close> set.
\<close>

datatype loop_exit = Next | Break errno | Goto_err_out errno

text \<open>
  One round for the entry \<open>dif\<close>, with the slot at \<open>pos\<close>: read the slot's block, open
  the device (a block device, or a file when the mount has a bootstrap file), then copy the
  slot's \<open>blocks\<close> and \<open>mapped_blkaddr\<close>, add the blocks to the total and move \<open>pos\<close> to the
  next slot. The result is the exit, the entry, \<open>pos\<close> and the state.
\<close>

definition init_device ::
  "env \<Rightarrow> erofs_device_info \<Rightarrow> nat \<Rightarrow> kstate
     \<Rightarrow> loop_exit \<times> erofs_device_info \<times> nat \<times> kstate" where
  "init_device e dif pos s =
     (case erofs_read_metabuf e (erofs_blknr pos) s of
        (Inl err, s1) \<Rightarrow> (Break err, dif, pos, s1)
      | (Inr ptr, s1) \<Rightarrow>
         (let dis = drop (erofs_blkoff pos) ptr;
              opened =
                (if bootstrap (EROFS_SB s1) = None
                 then (case blkdev_get_by_path e (path dif) of
                         Inl err \<Rightarrow> Inl err
                       | Inr b \<Rightarrow> Inr (dif\<lparr>bdev := Some b\<rparr>))
                 else (case filp_open e (path dif) of
                         Inl err \<Rightarrow> Inl err
                       | Inr f \<Rightarrow> Inr (dif\<lparr>blobfile := Some f\<rparr>)));
              s2 = io (if bootstrap (EROFS_SB s1) = None
                       then IO_blkdev_get_by_path (path dif)
                       else IO_filp_open (path dif)) s1
          in case opened of
               Inl err \<Rightarrow> (Goto_err_out err, dif, pos, s2)
             | Inr dif1 \<Rightarrow>
                (let dif2 = dif1\<lparr>blocks := le32_to_cpu (dis_blocks dis),
                                 mapped_blkaddr := le32_to_cpu (dis_mapped_blkaddr dis)\<rparr>
                 in (Next, dif2, pos + EROFS_DEVT_SLOT_SIZE,
                     SBI (\<lambda>i. i\<lparr>total_blocks := total_blocks i + ucast (blocks dif2)\<rparr>) s2))))"

text \<open>
  The loop over the entries of the tree, in the order of their ids. The entries come
  back as the loop leaves them: those before the exit updated, the others untouched.
\<close>

fun init_devices_loop ::
  "env \<Rightarrow> erofs_device_info list \<Rightarrow> nat \<Rightarrow> kstate
     \<Rightarrow> loop_exit \<times> erofs_device_info list \<times> nat \<times> kstate" where
  "init_devices_loop e [] pos s = (Next, [], pos, s)"
| "init_devices_loop e (dif # difs) pos s =
     (case init_device e dif pos s of
        (Next, dif1, pos1, s1) \<Rightarrow>
          (case init_devices_loop e difs pos1 s1 of
             (x, difs2, pos2, s2) \<Rightarrow> (x, dif1 # difs2, pos2, s2))
      | (x, dif1, pos1, s1) \<Rightarrow> (x, dif1 # difs, pos1, s1))"

subsection \<open>The blobs of the blob directory (the \<^verbatim>\<open>while\<close> loop)\<close>

text \<open>
  \<^verbatim>\<open>strncpy(dest, src, n)\<close> fills \<open>n\<close> bytes: the bytes of \<open>src\<close> up to its first NUL
  or up to \<open>n\<close> of them, then NULs. \<open>cstring\<close> is the string a buffer holds. The
  identifier is copied from the start of the slot into a buffer one byte longer than
  the \<^verbatim>\<open>userdata\<close> field, whose last byte is then set to NUL.
\<close>

definition strncpy :: "bytes \<Rightarrow> nat \<Rightarrow> bytes" where
  "strncpy src n =
     (let str = takeWhile (\<lambda>b. b \<noteq> 0) (take n src) in str @ replicate (n - length str) 0)"

definition cstring :: "bytes \<Rightarrow> bytes" where
  "cstring buf = takeWhile (\<lambda>b. b \<noteq> 0) buf"

definition blob_id_of :: "bytes \<Rightarrow> bytes" where
  "blob_id_of dis =
     (let n = sizeof_userdata + 1;
          blob_id = strncpy dis n
      in cstring (blob_id[n - 1 := 0]))"

text \<open>
  One round of the \<^verbatim>\<open>while\<close> loop for the slot at \<open>pos\<close>. A failed read returns at
  once; the later failures leave by \<^verbatim>\<open>goto err_out\<close>, which returns \<^verbatim>\<open>err\<close> as well. When
  the open fails the new entry is already in the tree and the counter is not incremented.
\<close>

definition add_blob :: "env \<Rightarrow> nat \<Rightarrow> kstate \<Rightarrow> unit result \<times> kstate" where
  "add_blob e pos s =
     (case erofs_read_metabuf e (erofs_blknr pos) s of
        (Inl err, s1) \<Rightarrow> (Inl err, s1)
      | (Inr ptr, s1) \<Rightarrow>
         (let dis = drop (erofs_blkoff pos) ptr in
          case kmalloc e s1 of
            (False, s2) \<Rightarrow> (Inl ENOMEM, s2)
          | (True, s2) \<Rightarrow>
             (case kmalloc e s2 of
                (False, s3) \<Rightarrow> (Inl ENOMEM, s3)
              | (True, s3) \<Rightarrow>
                 (let blob_id = blob_id_of dis;
                      s4 = io (IO_file_open_root (blob_dir (EROFS_SB s3)) blob_id) s3
                  in case file_open_root e (blob_dir (EROFS_SB s3)) blob_id of
                       Inl err \<Rightarrow>
                         (Inl err,
                          SBI (\<lambda>i. i\<lparr>devs := (devs i)\<lparr>tree := tree (devs i) @ [kzalloc_dif]\<rparr>\<rparr>) s4)
                     | Inr f \<Rightarrow>
                         (let dif = kzalloc_dif\<lparr>blobfile := Some f,
                                      blocks := le32_to_cpu (dis_blocks dis),
                                      mapped_blkaddr := le32_to_cpu (dis_mapped_blkaddr dis)\<rparr>
                          in (Inr (),
                              SBI (\<lambda>i. i\<lparr>devs := (devs i)\<lparr>tree := tree (devs i) @ [dif],
                                           extra_devices := Suc (extra_devices (devs i))\<rparr>,
                                         total_blocks := total_blocks i + ucast (blocks dif)\<rparr>)
                                s4))))))"

lemma add_blob_extra_devices:
  "add_blob e pos s = (Inr u, s1) \<Longrightarrow>
     extra_devices (devs (EROFS_SB s1)) = Suc (extra_devices (devs (EROFS_SB s)))"
  by (auto simp: add_blob_def erofs_read_metabuf_def kmalloc_def io_def SBI_def Let_def
      split: sum.splits prod.splits bool.splits)

text \<open>
  \<^verbatim>\<open>while (sbi->devs->extra_devices < ondisk_extradevs)\<close>. Every round that goes on has
  incremented the counter, so the loop ends.
\<close>

function blob_loop :: "env \<Rightarrow> nat \<Rightarrow> nat \<Rightarrow> kstate \<Rightarrow> unit result \<times> kstate" where
  "blob_loop e ondisk_extradevs pos s =
     (if extra_devices (devs (EROFS_SB s)) < ondisk_extradevs then
        (case add_blob e pos s of
           (Inl err, s1) \<Rightarrow> (Inl err, s1)
         | (Inr u, s1) \<Rightarrow> blob_loop e ondisk_extradevs (pos + EROFS_DEVT_SLOT_SIZE) s1)
      else (Inr (), s))"
  by pat_completeness auto
termination
  by (relation "measure (\<lambda>(e, n, pos, s). n - extra_devices (devs (EROFS_SB s)))")
     (auto dest!: add_blob_extra_devices [OF sym])

declare blob_loop.simps [simp del]

subsection \<open>\<^verbatim>\<open>erofs_init_devices\<close>\<close>

text \<open>
  \<open>dsb\<close> is the on-disk superblock, \<open>ondisk_extradevs_of\<close> the value of the local
  variable \<^verbatim>\<open>ondisk_extradevs\<close>. After the mismatch check and the early return for
  no device, the first loop runs over the entries of the tree and writes them back. Left
  by \<^verbatim>\<open>goto err_out\<close> it returns \<^verbatim>\<open>err\<close>; left by \<^verbatim>\<open>break\<close> or at its end, control
  reaches the \<^verbatim>\<open>while\<close> loop, after which \<^verbatim>\<open>err = 0\<close> is returned.
\<close>

definition ondisk_extradevs_of :: "erofs_sb_info \<Rightarrow> bytes \<Rightarrow> nat" where
  "ondisk_extradevs_of sbi dsb =
     (if \<not> erofs_sb_has_device_table sbi then 0
      else unat (le16_to_cpu (dsb_extra_devices dsb)))"

definition erofs_init_devices ::
  "env \<Rightarrow> bytes \<Rightarrow> kstate \<Rightarrow> unit result \<times> kstate" where
  "erofs_init_devices e dsb s =
     (let s1 = SBI (\<lambda>i. i\<lparr>total_blocks := ucast (primarydevice_blocks i)\<rparr>) s;
          ondisk_extradevs = ondisk_extradevs_of (EROFS_SB s1) dsb
      in if ondisk_extradevs \<noteq> extra_devices (devs (EROFS_SB s1))
            \<and> blob_dir_path (EROFS_SB s1) = None
         then (Inl EINVAL, s1)
         else if ondisk_extradevs = 0 then (Inr (), s1)
         else
           (let s2 = SBI (\<lambda>i. i\<lparr>device_id_mask :=
                         of_nat (roundup_pow_of_two (ondisk_extradevs + 1) - 1)\<rparr>) s1;
                pos = unat (le16_to_cpu (dsb_devt_slotoff dsb)) * EROFS_DEVT_SLOT_SIZE
            in case init_devices_loop e (tree (devs (EROFS_SB s2))) pos s2 of
                 (x, difs, pos1, s3) \<Rightarrow>
                   (let s4 = SBI (\<lambda>i. i\<lparr>devs := (devs i)\<lparr>tree := difs\<rparr>\<rparr>) s3 in
                    case x of
                      Goto_err_out err \<Rightarrow> (Inl err, s4)
                    | Break err \<Rightarrow> blob_loop e ondisk_extradevs pos1 s4
                    | Next \<Rightarrow> blob_loop e ondisk_extradevs pos1 s4)))"

subsection \<open>\<^verbatim>\<open>erofs_read_superblock\<close>\<close>

text \<open>
  \<^verbatim>\<open>strscpy(dest, src, count)\<close>: the string of \<open>src\<close> when it ends within \<open>count\<close>
  bytes; otherwise the first \<open>count - 1\<close> bytes are copied and the result is \<^verbatim>\<open>-E2BIG\<close>
  (\<open>None\<close>).
\<close>

definition strscpy :: "bytes \<Rightarrow> nat \<Rightarrow> nat option \<times> bytes" where
  "strscpy src count =
     (if 0 \<in> set (take count src)
      then (Some (length (cstring (take count src))), cstring (take count src))
      else (None, take (count - 1) src))"

definition erofs_read_superblock ::
  "kconfig \<Rightarrow> env \<Rightarrow> kstate \<Rightarrow> unit result \<times> kstate" where
  "erofs_read_superblock k e s =
     (case erofs_read_metabuf e 0 s of
        (Inl err, s1) \<Rightarrow> (Inl err, s1)
      | (Inr data, s1) \<Rightarrow>
         (let dsb = drop EROFS_SUPER_OFFSET data in
          if le32_to_cpu (dsb_magic dsb) \<noteq> EROFS_SUPER_MAGIC_V1 then (Inl EINVAL, s1)
          else
            (let s2 = SBI (\<lambda>i. i\<lparr>feature_compat := le32_to_cpu (dsb_feature_compat dsb)\<rparr>) s1
             in case (if erofs_sb_has_sb_chksum (EROFS_SB s2)
                      then erofs_superblock_csum_verify e data s2
                      else (Inr (), s2)) of
                  (Inl err, s3) \<Rightarrow> (Inl err, s3)
                | (Inr u, s3) \<Rightarrow>
                   (let blkszbits = (le_word (dsb_blkszbits dsb) :: u8) in
                    if unat blkszbits \<noteq> LOG_BLOCK_SIZE then (Inl EINVAL, s3)
                    else
                      (case check_layout_compatibility k dsb s3 of
                         (False, s4) \<Rightarrow> (Inl EINVAL, s4)
                       | (True, s4) \<Rightarrow>
                          (let s5 = SBI (\<lambda>i. i\<lparr>
                                  primarydevice_blocks := le32_to_cpu (dsb_blocks dsb),
                                  meta_blkaddr := le32_to_cpu (dsb_meta_blkaddr dsb),
                                  xattr_blkaddr :=
                                    (if CONFIG_EROFS_FS_XATTR k
                                     then le32_to_cpu (dsb_xattr_blkaddr dsb)
                                     else xattr_blkaddr i),
                                  islotbits := 5,
                                  root_nid := le16_to_cpu (dsb_root_nid dsb),
                                  inos := le64_to_cpu (dsb_inos dsb),
                                  build_time := le64_to_cpu (dsb_build_time dsb),
                                  build_time_nsec := le32_to_cpu (dsb_build_time_nsec dsb)\<rparr>) s4;
                               s6 = s5\<lparr>sb := (sb s5)\<lparr>s_uuid := dsb_uuid dsb\<rparr>\<rparr>
                           in case strscpy (dsb_volume_name dsb) 16 of
                                (None, name) \<Rightarrow>
                                  (Inl EFSCORRUPTED, SBI (\<lambda>i. i\<lparr>volume_name := name\<rparr>) s6)
                              | (Some n, name) \<Rightarrow>
                                  erofs_init_devices e dsb
                                    (SBI (\<lambda>i. i\<lparr>volume_name := name\<rparr>) s6)))))))"

section \<open>Mounting\<close>

subsection \<open>\<^verbatim>\<open>rafs_v6_fill_super\<close>\<close>

definition rafs_v6_fill_super :: "env \<Rightarrow> kstate \<Rightarrow> unit result \<times> kstate" where
  "rafs_v6_fill_super e s =
     (case (case bootstrap_path (EROFS_SB s) of
              None \<Rightarrow> (Inr (), s)
            | Some p \<Rightarrow>
               (case filp_open e (Some p) of
                  Inl err \<Rightarrow> (Inl err, io (IO_filp_open (Some p)) s)
                | Inr f \<Rightarrow>
                    (Inr (), SBI (\<lambda>i. i\<lparr>bootstrap := Some f\<rparr>) (io (IO_filp_open (Some p)) s)))) of
        (Inl err, s1) \<Rightarrow> (Inl err, s1)
      | (Inr u, s1) \<Rightarrow>
         (case blob_dir_path (EROFS_SB s1) of
            None \<Rightarrow> (Inr (), s1)
          | Some p \<Rightarrow>
             (case kern_path e p of
                Inl err \<Rightarrow>
                  (Inl err, SBI (\<lambda>i. i\<lparr>blob_dir_path := None\<rparr>) (io (IO_kern_path p) s1))
              | Inr d \<Rightarrow>
                  (Inr (), SBI (\<lambda>i. i\<lparr>blob_dir := Some d\<rparr>) (io (IO_kern_path p) s1)))))"

subsection \<open>\<^verbatim>\<open>erofs_init_managed_cache\<close>\<close>

definition erofs_init_managed_cache :: "kconfig \<Rightarrow> env \<Rightarrow> kstate \<Rightarrow> unit result \<times> kstate" where
  "erofs_init_managed_cache k e s =
     (if CONFIG_EROFS_FS_ZIP k then
        (case new_inode e of
           None \<Rightarrow> (Inl ENOMEM, s)
         | Some inode \<Rightarrow> (Inr (), SBI (\<lambda>i. i\<lparr>managed_cache := Some inode\<rparr>) s))
      else (Inr (), s))"

subsection \<open>\<^verbatim>\<open>erofs_fill_super\<close>\<close>

text \<open>
  \<open>data\<close> is the option string of the mount. The state on entry is that of a fresh
  superblock; \<^verbatim>\<open>s_fs_info\<close> is overwritten by the zeroed \<^verbatim>\<open>sbi\<close> as soon as that
  is allocated.
\<close>

definition erofs_fill_super ::
  "kconfig \<Rightarrow> env \<Rightarrow> string option \<Rightarrow> kstate \<Rightarrow> unit result \<times> kstate" where
  "erofs_fill_super k e data s =
     (let s1 = s\<lparr>sb := (sb s)\<lparr>s_magic := ucast EROFS_SUPER_MAGIC_V1\<rparr>\<rparr> in
      if s_bdev (sb s1) \<noteq> None \<and> \<not> sb_set_blocksize e EROFS_BLKSIZ then (Inl EINVAL, s1)
      else
        (let s2 = s1\<lparr>sb := (sb s1)\<lparr>s_blocksize := EROFS_BLKSIZ,
                                    s_blocksize_bits := LOG_BLOCK_SIZE\<rparr>\<rparr> in
         case kmalloc e s2 of
           (False, s3) \<Rightarrow> (Inl ENOMEM, s3)
         | (True, s3) \<Rightarrow>
            (let s4 = s3\<lparr>sb := (sb s3)\<lparr>s_fs_info := kzalloc_sbi\<rparr>\<rparr> in
             case kmalloc e s4 of
               (False, s5) \<Rightarrow> (Inl ENOMEM, s5)
             | (True, s5) \<Rightarrow>
                (let s6 = SBI (\<lambda>i. i\<lparr>devs := kzalloc_devs\<rparr>) s5;
                     s7 = s6\<lparr>sb := (sb s6)\<lparr>s_flags :=
                                 s_flags (sb s6) OR (SB_RDONLY OR SB_NOATIME)\<rparr>\<rparr>;
                     s8 = SBI (erofs_default_options k) s7
                 in case erofs_parse_options k e data s8 of
                      (Inl err, s9) \<Rightarrow> (Inl err, s9)
                    | (Inr u, s9) \<Rightarrow>
                       (case rafs_v6_fill_super e s9 of
                          (Inl err, s10) \<Rightarrow> (Inl err, s10)
                        | (Inr u, s10) \<Rightarrow>
                           (case erofs_read_superblock k e s10 of
                              (Inl err, s11) \<Rightarrow> (Inl err, s11)
                            | (Inr u, s11) \<Rightarrow>
                               (let s12 =
                                  (if test_opt EROFS_MOUNT_POSIX_ACL (EROFS_SB s11)
                                   then s11\<lparr>sb := (sb s11)\<lparr>s_flags :=
                                          s_flags (sb s11) OR SB_POSIXACL\<rparr>\<rparr>
                                   else s11\<lparr>sb := (sb s11)\<lparr>s_flags :=
                                          s_flags (sb s11) AND NOT SB_POSIXACL\<rparr>\<rparr>)
                                in case erofs_iget e (root_nid (EROFS_SB s12)) of
                                     Inl err \<Rightarrow> (Inl err, s12)
                                   | Inr (inode, isdir) \<Rightarrow>
                                      (if \<not> isdir then (Inl EINVAL, s12)
                                       else
                                         (case d_make_root e inode of
                                            None \<Rightarrow> (Inl ENOMEM, s12)
                                          | Some root \<Rightarrow>
                                             erofs_init_managed_cache k e
                                               (s12\<lparr>sb := (sb s12)\<lparr>s_root :=
                                                  Some root\<rparr>\<rparr>))))))))))"

subsection \<open>\<^verbatim>\<open>erofs_mount_is_rafs_v6\<close>\<close>

text \<open>
  The scan of the option string that \<^verbatim>\<open>erofs_mount\<close> makes before it chooses between
  \<^verbatim>\<open>mount_nodev\<close> and \<^verbatim>\<open>mount_bdev\<close>: true at the first non-empty piece that is a
  \<^verbatim>\<open>bootstrap_path=\<close> or a \<^verbatim>\<open>blob_dir_path=\<close> option. The scan works on a copy of the
  string (\<^verbatim>\<open>kstrdup\<close>), and answers false when the copy cannot be allocated.
\<close>

fun rafs_v6_pieces :: "string list \<Rightarrow> bool" where
  "rafs_v6_pieces [] = False"
| "rafs_v6_pieces (p # ps) =
     (if p = [] then rafs_v6_pieces ps
      else (case fst (match_token p erofs_tokens) of
              Opt_bootstrap_path \<Rightarrow> True
            | Opt_blob_dir_path \<Rightarrow> True
            | _ \<Rightarrow> rafs_v6_pieces ps))"

definition erofs_mount_is_rafs_v6 :: "env \<Rightarrow> string option \<Rightarrow> kstate \<Rightarrow> bool \<times> kstate" where
  "erofs_mount_is_rafs_v6 e options s =
     (case options of
        None \<Rightarrow> (False, s)
      | Some str \<Rightarrow>
         (case kmalloc e s of
            (False, s1) \<Rightarrow> (False, s1)
          | (True, s1) \<Rightarrow> (rafs_v6_pieces (strsep_comma str), s1)))"

section \<open>The managed cache\<close>

text \<open>
  A page of the managed cache, as far as the two address-space operations look at it.
  \<^verbatim>\<open>erofs_try_to_free_cached_page\<close> (zdata.c) and what the other tasks do to the page
  during the \<open>n\<close>-th \<^verbatim>\<open>cond_resched()\<close> are parameters. The \<^verbatim>\<open>DBG_BUGON\<close> assertions
  are compiled out unless the debug option is set.
\<close>

record page =
  PageLocked :: bool
  PagePrivate :: bool
  page_private :: nat

record cache_env =
  erofs_try_to_free_cached_page :: "page \<Rightarrow> int \<times> page"
  cond_resched :: "nat \<Rightarrow> page \<Rightarrow> page"

definition erofs_managed_cache_releasepage :: "cache_env \<Rightarrow> page \<Rightarrow> int \<times> page" where
  "erofs_managed_cache_releasepage c pg =
     (if PagePrivate pg then erofs_try_to_free_cached_page c pg else (1, pg))"

text \<open>
  \<^verbatim>\<open>while (!erofs_managed_cache_releasepage(page, GFP_NOFS)) cond_resched();\<close> from
  the \<open>n\<close>-th attempt on. The loop has no bound: where it never ends the value is \<open>None\<close>.
\<close>

partial_function (option) release_loop :: "cache_env \<Rightarrow> nat \<Rightarrow> page \<Rightarrow> page option" where
  "release_loop c n pg =
     (case erofs_managed_cache_releasepage c pg of
        (ret, pg1) \<Rightarrow>
          if ret = 0 then release_loop c (Suc n) (cond_resched c n pg1) else Some pg1)"

definition erofs_managed_cache_invalidatepage ::
  "cache_env \<Rightarrow> page \<Rightarrow> u32 \<Rightarrow> u32 \<Rightarrow> page option" where
  "erofs_managed_cache_invalidatepage c pg offset len =
     (let stop = len + offset in
      if offset = 0 \<and> stop = PAGE_SIZE then release_loop c 0 pg else Some pg)"

text \<open>The page before the \<open>n\<close>-th attempt of the loop that starts at attempt \<open>k\<close> with \<open>pg\<close>.\<close>

primrec attempt_page :: "cache_env \<Rightarrow> nat \<Rightarrow> page \<Rightarrow> nat \<Rightarrow> page" where
  "attempt_page c k pg 0 = pg"
| "attempt_page c k pg (Suc n) =
     attempt_page c (Suc k) (cond_resched c k (snd (erofs_managed_cache_releasepage c pg))) n"

section \<open>What a superblock block declares\<close>

text \<open>
  Readings of block zero used to state properties. \<open>dsb\<close> is the on-disk superblock,
  \<open>sbdata\<close> the whole of block zero. \<open>sb_csum\<close> is the CRC-32C, seeded with \<^verbatim>\<open>~0\<close>, of
  the bytes from \<^verbatim>\<open>EROFS_SUPER_OFFSET\<close> to the end of the block with the four bytes of the
  checksum field set to zero.
\<close>

definition sb_csum :: "env \<Rightarrow> bytes \<Rightarrow> u32" where
  "sb_csum e sbdata =
     crc32c e (NOT 0)
       (store 4 (replicate 4 0)
          (take (EROFS_BLKSIZ - EROFS_SUPER_OFFSET) (drop EROFS_SUPER_OFFSET sbdata)))"

definition sb_has_chksum_bit :: "bytes \<Rightarrow> bool" where
  "sb_has_chksum_bit dsb =
     (le32_to_cpu (dsb_feature_compat dsb) AND EROFS_FEATURE_COMPAT_SB_CHKSUM \<noteq> 0)"

text \<open>The bits of \<^verbatim>\<open>feature_incompat\<close> that the build does not know.\<close>

definition sb_unknown_incompat :: "kconfig \<Rightarrow> bytes \<Rightarrow> u32" where
  "sb_unknown_incompat k dsb =
     le32_to_cpu (dsb_feature_incompat dsb) AND NOT (EROFS_ALL_FEATURE_INCOMPAT k)"

text \<open>
  The number of extra devices the superblock declares: none without the device-table
  feature, else the field \<^verbatim>\<open>extra_devices\<close>.
\<close>

definition sb_declared_extra_devices :: "bytes \<Rightarrow> nat" where
  "sb_declared_extra_devices dsb =
     (if le32_to_cpu (dsb_feature_incompat dsb) AND EROFS_FEATURE_INCOMPAT_DEVICE_TABLE = 0
      then 0
      else unat (le16_to_cpu (dsb_extra_devices dsb)))"

text \<open>The byte address of the \<open>j\<close>-th slot of the device table.\<close>

definition slot_pos :: "bytes \<Rightarrow> nat \<Rightarrow> nat" where
  "slot_pos dsb j =
     unat (le16_to_cpu (dsb_devt_slotoff dsb)) * EROFS_DEVT_SLOT_SIZE + j * EROFS_DEVT_SLOT_SIZE"

text \<open>
  The descriptor of the blob that the slot at \<open>pos\<close> names, when the slot can be read and
  the file of that name opens in the directory \<open>dir\<close>.
\<close>

definition blob_device :: "env \<Rightarrow> handle option \<Rightarrow> nat \<Rightarrow> erofs_device_info option" where
  "blob_device e dir pos =
     (case read_metabuf e (erofs_blknr pos) of
        Inl err \<Rightarrow> None
      | Inr ptr \<Rightarrow>
         (let dis = drop (erofs_blkoff pos) ptr in
          case file_open_root e dir (blob_id_of dis) of
            Inl err \<Rightarrow> None
          | Inr f \<Rightarrow>
              Some (kzalloc_dif\<lparr>blobfile := Some f,
                      blocks := le32_to_cpu (dis_blocks dis),
                      mapped_blkaddr := le32_to_cpu (dis_mapped_blkaddr dis)\<rparr>)))"

text \<open>
  The block count and the mapped block address that the slot at \<open>pos\<close> holds, when its
  block can be read; the same two fields of a descriptor; and the sum of the block
  counts of a list of descriptors, as a 64-bit number.
\<close>

definition slot_fields :: "env \<Rightarrow> nat \<Rightarrow> (u32 \<times> u32) option" where
  "slot_fields e pos =
     (case read_metabuf e (erofs_blknr pos) of
        Inl err \<Rightarrow> None
      | Inr ptr \<Rightarrow>
          Some (le32_to_cpu (dis_blocks (drop (erofs_blkoff pos) ptr)),
                le32_to_cpu (dis_mapped_blkaddr (drop (erofs_blkoff pos) ptr))))"

definition dif_fields :: "erofs_device_info \<Rightarrow> (u32 \<times> u32) option" where
  "dif_fields dif = Some (blocks dif, mapped_blkaddr dif)"

definition sum_blocks :: "erofs_device_info list \<Rightarrow> u64" where
  "sum_blocks difs = sum_list (map (\<lambda>dif. ucast (blocks dif)) difs)"

text \<open>Whether the parsed options name a bootstrap file or a blob directory.\<close>

definition rafs_v6_paths :: "kstate \<Rightarrow> bool" where
  "rafs_v6_paths s =
     (bootstrap_path (EROFS_SB s) \<noteq> None \<or> blob_dir_path (EROFS_SB s) \<noteq> None)"

section \<open>Sequences of remounts\<close>

text \<open>
  Remounts one after the other, each with its own \<^verbatim>\<open>*flags\<close> and option string, whatever
  each of them returns.
\<close>

fun remounts :: "kconfig \<Rightarrow> env \<Rightarrow> (u32 \<times> string option) list \<Rightarrow> kstate \<Rightarrow> kstate" where
  "remounts k e [] s = s"
| "remounts k e ((flags, data) # rs) s =
     remounts k e rs (snd (snd (erofs_remount k e flags data s)))"

section \<open>Concrete configurations, environments and states\<close>

text \<open>A build with every option of the file system, which knows five incompatible features.\<close>

definition example_kconfig :: kconfig where
  "example_kconfig = \<lparr>CONFIG_EROFS_FS_ZIP = True, CONFIG_EROFS_FS_XATTR = True,
     CONFIG_EROFS_FS_POSIX_ACL = True, EROFS_ALL_FEATURE_INCOMPAT = 31\<rparr>"

text \<open>The same build without the compressed-data support.\<close>

definition nozip_kconfig :: kconfig where
  "nozip_kconfig = example_kconfig\<lparr>CONFIG_EROFS_FS_ZIP := False\<rparr>"

text \<open>An environment where memory is always granted and every I/O request fails.\<close>

definition failing_env :: env where
  "failing_env = \<lparr>kmalloc_ok = (\<lambda>n. True), read_metabuf = (\<lambda>n. Inl EIO),
     blkdev_get_by_path = (\<lambda>p. Inl ENOENT), filp_open = (\<lambda>p. Inl ENOENT),
     file_open_root = (\<lambda>d n. Inl ENOENT), kern_path = (\<lambda>p. Inl ENOENT),
     crc32c = (\<lambda>c b. 0), sb_set_blocksize = (\<lambda>n. True), erofs_iget = (\<lambda>n. Inl EIO),
     d_make_root = (\<lambda>h. None), new_inode = None\<rparr>"

text \<open>
  A mounted single-device volume: the state that the mount of the image of 100 blocks
  below leaves, on the block device 1, without options and in the environment \<open>disk_env\<close>
  below. The superblock is read-only, without access times and with POSIX ACLs
  (\<^verbatim>\<open>SB_RDONLY | SB_NOATIME | SB_POSIXACL\<close>); the options are the default ones
  (\<^verbatim>\<open>user_xattr\<close>, \<^verbatim>\<open>acl\<close>, \<^verbatim>\<open>cache_strategy=readaround\<close>); there is no extra device, no
  bootstrap file and no blob directory; the mount has made two allocation requests and
  has read block zero.
\<close>

definition mounted_state :: kstate where
  "mounted_state = \<lparr>sb = \<lparr>s_magic = 0xE0F5E1E2, s_bdev = Some 1, s_blocksize = 4096,
      s_blocksize_bits = 12, s_flags = 0x10401, s_uuid = replicate 16 0, s_root = Some 6,
      s_fs_info = (erofs_default_options example_kconfig kzalloc_sbi)
        \<lparr>total_blocks := 100, primarydevice_blocks := 100, islotbits := 5, root_nid := 36,
         volume_name := [118, 111, 108], managed_cache := Some 8\<rparr>\<rparr>,
      nalloc = 2, io_log = [IO_read_metabuf 0]\<rparr>"

text \<open>
  An on-disk superblock of 128 bytes: the magic number, a zero checksum, the compatible
  features \<open>fc\<close>, 4096-byte blocks, root nid 36, 100 blocks, the volume name \<^verbatim>\<open>vol\<close>,
  the incompatible features \<open>fi\<close>, \<open>nd\<close> extra devices and the device table at slot
  \<open>so\<close>. Block zero holds it at \<^verbatim>\<open>EROFS_SUPER_OFFSET\<close>, between zero bytes.
\<close>

definition example_dsb :: "u8 \<Rightarrow> u8 \<Rightarrow> u8 \<Rightarrow> u8 \<Rightarrow> bytes" where
  "example_dsb fc fi nd so =
     [0xE2, 0xE1, 0xF5, 0xE0] @ [0, 0, 0, 0] @ [fc, 0, 0, 0] @ [12, 0] @ [36, 0]
     @ replicate 20 0 @ [100, 0, 0, 0] @ replicate 24 0
     @ [118, 111, 108] @ replicate 13 0 @ [fi, 0, 0, 0] @ [0, 0] @ [nd, 0] @ [so, 0]
     @ replicate 38 0"

definition example_block0 :: "u8 \<Rightarrow> u8 \<Rightarrow> u8 \<Rightarrow> u8 \<Rightarrow> bytes" where
  "example_block0 fc fi nd so =
     replicate 1024 0 @ example_dsb fc fi nd so @ replicate 2944 0"

text \<open>
  A device slot of 128 bytes: the identifier \<open>ident\<close> padded with NULs to the 64 bytes
  of \<^verbatim>\<open>userdata\<close>, \<open>blks\<close> blocks, mapped at block address \<open>addr\<close>. A block of the device
  table holds the given slots from its start, then zero bytes.
\<close>

definition example_slot :: "bytes \<Rightarrow> u8 \<Rightarrow> u8 \<Rightarrow> bytes" where
  "example_slot ident blks addr =
     ident @ replicate (64 - length ident) 0 @ [blks, 0, 0, 0] @ [addr, 0, 0, 0]
     @ replicate 56 0"

definition example_table :: "bytes list \<Rightarrow> bytes" where
  "example_table slots = concat slots @ replicate (4096 - length (concat slots)) 0"

text \<open>
  A fresh superblock on the block device 1, as \<^verbatim>\<open>mount_bdev\<close> hands it to
  \<^verbatim>\<open>erofs_fill_super\<close>, and one without block device, as \<^verbatim>\<open>mount_nodev\<close> does.
\<close>

definition fresh_state :: kstate where
  "fresh_state = \<lparr>sb = \<lparr>s_magic = 0, s_bdev = Some 1, s_blocksize = 0,
      s_blocksize_bits = 0, s_flags = 0, s_uuid = [], s_root = None,
      s_fs_info = kzalloc_sbi\<rparr>, nalloc = 0, io_log = []\<rparr>"

definition fresh_nodev_state :: kstate where
  "fresh_nodev_state = fresh_state\<lparr>sb := (sb fresh_state)\<lparr>s_bdev := None\<rparr>\<rparr>"

text \<open>
  An environment with a disk: memory is always granted; block zero of the volume is
  \<open>b0\<close> and block one is \<open>b1\<close> (a block or the error of reading it); the block device
  \<^verbatim>\<open>/dev/vdb\<close> opens as handle 10, the files \<^verbatim>\<open>/img\<close> and \<^verbatim>\<open>/blob0\<close> as 11 and 12, the
  directory \<^verbatim>\<open>/blobs\<close> is found as 7 and any name opens in it as handle 20; the root
  inode is a directory; the checksum routine gives \<open>c\<close> for every input.
\<close>

definition disk_env :: "bytes \<Rightarrow> bytes result \<Rightarrow> u32 \<Rightarrow> env" where
  "disk_env b0 b1 c =
     \<lparr>kmalloc_ok = (\<lambda>n. True),
      read_metabuf = (\<lambda>n. if n = 0 then Inr b0 else if n = 1 then b1 else Inl EIO),
      blkdev_get_by_path = (\<lambda>p. if p = Some ''/dev/vdb'' then Inr 10 else Inl ENOENT),
      filp_open = (\<lambda>p. if p = Some ''/img'' then Inr 11
                        else if p = Some ''/blob0'' then Inr 12 else Inl ENOENT),
      file_open_root = (\<lambda>d n. if d = Some 7 then Inr 20 else Inl ENOENT),
      kern_path = (\<lambda>p. if p = ''/blobs'' then Inr 7 else Inl ENOENT),
      crc32c = (\<lambda>seed b. c),
      sb_set_blocksize = (\<lambda>n. True),
      erofs_iget = (\<lambda>n. Inr (5, True)),
      d_make_root = (\<lambda>h. Some 6),
      new_inode = Some 8\<rparr>"

text \<open>
  States within a mount in the environment \<open>disk_env\<close>. \<open>parsed_state\<close> is the state in
  which \<open>erofs_read_superblock\<close> runs when the volume on the block device 1 is mounted
  without options: the default options are set, two allocation requests have been made,
  nothing has been read. \<open>table_state\<close> is the state in which \<open>erofs_init_devices\<close> runs
  in that mount when the image is the one above with the device-table feature: the
  superblock has been decoded from block zero.
\<close>

definition parsed_state :: kstate where
  "parsed_state = \<lparr>sb = \<lparr>s_magic = 0xE0F5E1E2, s_bdev = Some 1, s_blocksize = 4096,
      s_blocksize_bits = 12, s_flags = 0x401, s_uuid = [], s_root = None,
      s_fs_info = erofs_default_options example_kconfig kzalloc_sbi\<rparr>,
      nalloc = 2, io_log = []\<rparr>"

definition table_state :: kstate where
  "table_state = \<lparr>sb = \<lparr>s_magic = 0xE0F5E1E2, s_bdev = Some 1, s_blocksize = 4096,
      s_blocksize_bits = 12, s_flags = 0x401, s_uuid = replicate 16 0, s_root = None,
      s_fs_info = (erofs_default_options example_kconfig kzalloc_sbi)
        \<lparr>feature_incompat := 8, primarydevice_blocks := 100, islotbits := 5, root_nid := 36,
         volume_name := [118, 111, 108]\<rparr>\<rparr>,
      nalloc = 2, io_log = [IO_read_metabuf 0]\<rparr>"

text \<open>
  The states in which \<open>erofs_init_devices\<close> runs in blob-directory mode, for the same
  image mounted without block device: \<open>blob_state\<close> with the options
  \<^verbatim>\<open>bootstrap_path=/img,blob_dir_path=/blobs,device=/blob0\<close>, \<open>blobdir_state\<close> with the
  options \<^verbatim>\<open>bootstrap_path=/img,blob_dir_path=/blobs\<close>. The bootstrap file has been opened
  and the blob directory looked up before block zero was read; each path option has made
  one allocation request and the device option three.
\<close>

definition blob_state :: kstate where
  "blob_state = \<lparr>sb = \<lparr>s_magic = 0xE0F5E1E2, s_bdev = None, s_blocksize = 4096,
      s_blocksize_bits = 12, s_flags = 0x401, s_uuid = replicate 16 0, s_root = None,
      s_fs_info = (erofs_default_options example_kconfig kzalloc_sbi)
        \<lparr>devs := \<lparr>tree = [kzalloc_dif\<lparr>path := Some ''/blob0''\<rparr>], extra_devices = 1\<rparr>,
         bootstrap_path := Some ''/img'', blob_dir_path := Some ''/blobs'',
         bootstrap := Some 11, blob_dir := Some 7,
         feature_incompat := 8, primarydevice_blocks := 100, islotbits := 5, root_nid := 36,
         volume_name := [118, 111, 108]\<rparr>\<rparr>,
      nalloc = 7,
      io_log = [IO_filp_open (Some ''/img''), IO_kern_path ''/blobs'', IO_read_metabuf 0]\<rparr>"

definition blobdir_state :: kstate where
  "blobdir_state = \<lparr>sb = \<lparr>s_magic = 0xE0F5E1E2, s_bdev = None, s_blocksize = 4096,
      s_blocksize_bits = 12, s_flags = 0x401, s_uuid = replicate 16 0, s_root = None,
      s_fs_info = (erofs_default_options example_kconfig kzalloc_sbi)
        \<lparr>bootstrap_path := Some ''/img'', blob_dir_path := Some ''/blobs'',
         bootstrap := Some 11, blob_dir := Some 7,
         feature_incompat := 8, primarydevice_blocks := 100, islotbits := 5, root_nid := 36,
         volume_name := [118, 111, 108]\<rparr>\<rparr>,
      nalloc = 4,
      io_log = [IO_filp_open (Some ''/img''), IO_kern_path ''/blobs'', IO_read_metabuf 0]\<rparr>"

text \<open>
  A cache environment and a page for it: the page can be freed once its private count
  is zero, which clears \<^verbatim>\<open>PagePrivate\<close>, and every \<^verbatim>\<open>cond_resched()\<close> lets another
  task drop one count. The page starts locked, with backing state and a count of two.
\<close>

definition busy_env :: cache_env where
  "busy_env =
     \<lparr>erofs_try_to_free_cached_page =
        (\<lambda>pg. if page_private pg = 0 then (1, pg\<lparr>PagePrivate := False\<rparr>) else (0, pg)),
      cond_resched = (\<lambda>n pg. pg\<lparr>page_private := page_private pg - 1\<rparr>)\<rparr>"

definition busy_page :: page where
  "busy_page = \<lparr>PageLocked = True, PagePrivate = True, page_private = 2\<rparr>"

section \<open>Properties of option parsing and remount\<close>

lemmas parse_defs =
  erofs_remount_def erofs_parse_options_def parse_option_def match_one_def erofs_tokens_def
  erofs_build_cache_strategy_def kmalloc_def SBI_def match_strdup_def
  erofs_default_options_def kzalloc_sbi_def set_opt_def parse_device_def kzalloc_devs_def
  kzalloc_dif_def test_opt_def clear_opt_def

lemmas example_defs = example_kconfig_def nozip_kconfig_def failing_env_def mounted_state_def

lemma parse_option_s_flags: "s_flags (sb (snd (parse_option k e p s))) = s_flags (sb s)"
  by (simp add: parse_option_def erofs_build_cache_strategy_def parse_device_def kmalloc_def
      SBI_def Let_def split: prod.splits opt.splits bool.splits)

lemma parse_pieces_s_flags: "s_flags (sb (snd (parse_pieces k e ps s))) = s_flags (sb s)"
proof (induction ps arbitrary: s)
  case Nil
  show ?case by simp
next
  case (Cons p ps)
  show ?case
    using Cons.IH parse_option_s_flags [of k e p s]
    by (auto split: prod.splits sum.splits)
qed

lemma erofs_parse_options_s_flags:
  "s_flags (sb (snd (erofs_parse_options k e data s))) = s_flags (sb s)"
  by (cases data) (simp_all add: erofs_parse_options_def parse_pieces_s_flags)

lemma erofs_remount_s_flags:
  "s_flags (sb (snd (snd (erofs_remount k e flags data s)))) AND SB_RDONLY
     = s_flags (sb s) AND SB_RDONLY"
proof -
  have a: "(x AND NOT SB_POSIXACL) AND SB_RDONLY = x AND SB_RDONLY" for x :: u64
    by (simp add: SB_POSIXACL_def SB_RDONLY_def word_bw_assocs)
  have b: "(x OR SB_POSIXACL) AND SB_RDONLY = x AND SB_RDONLY" for x :: u64
    by (simp add: SB_POSIXACL_def SB_RDONLY_def bit.conj_disj_distrib2)
  show ?thesis
    using erofs_parse_options_s_flags [of k e data s] a b
    by (auto simp: erofs_remount_def SBI_def Let_def split: prod.splits sum.splits)
qed

lemma remounts_s_flags:
  "s_flags (sb (remounts k e rs s)) AND SB_RDONLY = s_flags (sb s) AND SB_RDONLY"
proof (induction rs arbitrary: s)
  case Nil
  show ?case by simp
next
  case (Cons a rs)
  obtain flags data where a: "a = (flags, data)" by (cases a)
  show ?case unfolding a using Cons.IH erofs_remount_s_flags by simp
qed

text \<open>
  C1. A remount whose option string fails to parse should leave every element of the
  configuration as it was. The code saves and restores \<^verbatim>\<open>mount_opt\<close> only. On the
  mounted volume above, the remount with
  \<^verbatim>\<open>cache_strategy=disabled,device=/dev/vdb,bootstrap_path=/b,blob_dir_path=/d,bogus\<close>
  fails with \<^verbatim>\<open>-EINVAL\<close> at \<^verbatim>\<open>bogus\<close>; the option flags are the old ones, but the cache
  strategy, the device list and its counter, the bootstrap path and the blob-directory
  path are those of the failed option string.
\<close>

theorem erofs_remount_failed_keeps_parsed:
  "let r = erofs_remount example_kconfig failing_env 0
             (Some ''cache_strategy=disabled,device=/dev/vdb,bootstrap_path=/b,blob_dir_path=/d,bogus'')
             mounted_state;
       before = EROFS_SB mounted_state;
       after = EROFS_SB (snd (snd r))
   in fst r = Inl EINVAL
      \<and> mount_opt after = mount_opt before
      \<and> cache_strategy before = EROFS_ZIP_CACHE_READAROUND
      \<and> cache_strategy after = EROFS_ZIP_CACHE_DISABLED
      \<and> tree (devs before) = []
      \<and> tree (devs after) = [kzalloc_dif\<lparr>path := Some ''/dev/vdb''\<rparr>]
      \<and> extra_devices (devs before) = 0
      \<and> extra_devices (devs after) = 1
      \<and> bootstrap_path before = None
      \<and> bootstrap_path after = Some ''/b''
      \<and> blob_dir_path before = None
      \<and> blob_dir_path after = Some ''/d''"
  by (simp add: parse_defs example_defs)

text \<open>
  C9, as stated: every remount forces the read-only flag into \<^verbatim>\<open>*flags\<close>. It fails for
  a remount whose option string does not parse: \<^verbatim>\<open>*flags\<close> comes back as it was given,
  here without the read-only flag.
\<close>

theorem erofs_remount_rdonly_counterexample:
  "fst (erofs_remount example_kconfig failing_env 0 (Some ''bogus'') mounted_state) = Inl EINVAL
   \<and> fst (snd (erofs_remount example_kconfig failing_env 0 (Some ''bogus'') mounted_state))
        AND SB_RDONLY = 0"
  by (simp add: parse_defs example_defs)

text \<open>
  C9, amended. A remount that succeeds returns \<^verbatim>\<open>*flags\<close> with the read-only flag set; a
  remount that fails returns \<^verbatim>\<open>*flags\<close> untouched; and no remount, nor any sequence of
  remounts, changes the read-only bit of the superblock's own \<^verbatim>\<open>s_flags\<close>.
\<close>

theorem erofs_remount_rdonly:
  "(fst (erofs_remount k e flags data s) = Inr ()
      \<longrightarrow> fst (snd (erofs_remount k e flags data s)) AND SB_RDONLY = SB_RDONLY)
   \<and> (fst (erofs_remount k e flags data s) \<noteq> Inr ()
      \<longrightarrow> fst (snd (erofs_remount k e flags data s)) = flags)
   \<and> s_flags (sb (snd (snd (erofs_remount k e flags data s)))) AND SB_RDONLY
       = s_flags (sb s) AND SB_RDONLY
   \<and> s_flags (sb (remounts k e rs s)) AND SB_RDONLY = s_flags (sb s) AND SB_RDONLY"
proof -
  have c: "(x OR SB_RDONLY) AND SB_RDONLY = SB_RDONLY" for x :: u32
    by (simp add: SB_RDONLY_def)
  have 1: "fst (erofs_remount k e flags data s) = Inr ()
      \<longrightarrow> fst (snd (erofs_remount k e flags data s)) AND SB_RDONLY = SB_RDONLY"
    using c by (auto simp: erofs_remount_def Let_def split: prod.splits sum.splits)
  have 2: "fst (erofs_remount k e flags data s) \<noteq> Inr ()
      \<longrightarrow> fst (snd (erofs_remount k e flags data s)) = flags"
    by (auto simp: erofs_remount_def Let_def split: prod.splits sum.splits)
  show ?thesis using 1 2 erofs_remount_s_flags remounts_s_flags by blast
qed

theorem erofs_remount_rdonly_witness:
  "fst (erofs_remount example_kconfig failing_env 0 (Some ''noacl'') mounted_state) = Inr ()
   \<and> fst (snd (erofs_remount example_kconfig failing_env 0 (Some ''noacl'') mounted_state)) = 1
   \<and> fst (erofs_remount example_kconfig failing_env 0 (Some ''bogus'') mounted_state) \<noteq> Inr ()
   \<and> fst (snd (erofs_remount example_kconfig failing_env 0 (Some ''bogus'') mounted_state)) = 0
   \<and> s_flags (sb (remounts example_kconfig failing_env
          [(0, Some ''noacl''), (0, Some ''bogus'')] mounted_state)) AND SB_RDONLY = 1"
  using
    erofs_remount_rdonly [of example_kconfig failing_env 0 "Some ''noacl''" mounted_state
      "[(0, Some ''noacl''), (0, Some ''bogus'')]"]
    erofs_remount_rdonly [of example_kconfig failing_env 0 "Some ''bogus''" mounted_state "[]"]
  by (simp add: parse_defs example_defs SB_RDONLY_def)

lemma strsep_comma_single: "CHR '','' \<notin> set str \<Longrightarrow> strsep_comma str = [str]"
  by (induction str) auto

lemma match_token_cache_strategy:
  "v \<noteq> [] \<Longrightarrow>
     match_token (''cache_strategy='' @ v) erofs_tokens = (Opt_cache_strategy, Some v)"
  by (simp add: erofs_tokens_def match_one_def)

lemma match_token_cache_strategy_empty:
  "match_token ''cache_strategy='' erofs_tokens = (Opt_err, None)"
  by (simp add: erofs_tokens_def match_one_def)

text \<open>
  C7. The option \<^verbatim>\<open>cache_strategy=v\<close>, for a value \<open>v\<close> without comma (a comma ends the
  option). With the compressed-data support compiled in, the value is copied first, and
  the parse fails with \<^verbatim>\<open>-ENOMEM\<close> when the copy cannot be allocated; otherwise each of
  \<^verbatim>\<open>disabled\<close>, \<^verbatim>\<open>readahead\<close>, \<^verbatim>\<open>readaround\<close> succeeds and stores exactly that strategy,
  and every other value fails with \<^verbatim>\<open>-EINVAL\<close> and stores nothing. Without the support
  every value is accepted and the state is left as it is. An empty value is a missing
  value: \<^verbatim>\<open>-EINVAL\<close> in either build.
\<close>

theorem cache_strategy_option:
  assumes "CHR '','' \<notin> set v"
  shows "erofs_parse_options k e (Some (''cache_strategy='' @ v)) s =
     (if v = [] then (Inl EINVAL, s)
      else if \<not> CONFIG_EROFS_FS_ZIP k then (Inr (), s)
      else if \<not> kmalloc_ok e (nalloc s) then (Inl ENOMEM, s\<lparr>nalloc := Suc (nalloc s)\<rparr>)
      else if v = ''disabled'' then
        (Inr (), SBI (\<lambda>i. i\<lparr>cache_strategy := EROFS_ZIP_CACHE_DISABLED\<rparr>)
                   (s\<lparr>nalloc := Suc (nalloc s)\<rparr>))
      else if v = ''readahead'' then
        (Inr (), SBI (\<lambda>i. i\<lparr>cache_strategy := EROFS_ZIP_CACHE_READAHEAD\<rparr>)
                   (s\<lparr>nalloc := Suc (nalloc s)\<rparr>))
      else if v = ''readaround'' then
        (Inr (), SBI (\<lambda>i. i\<lparr>cache_strategy := EROFS_ZIP_CACHE_READAROUND\<rparr>)
                   (s\<lparr>nalloc := Suc (nalloc s)\<rparr>))
      else (Inl EINVAL, s\<lparr>nalloc := Suc (nalloc s)\<rparr>))"
proof (cases "v = []")
  case True
  then show ?thesis
    using match_token_cache_strategy_empty
    by (simp add: erofs_parse_options_def parse_option_def)
next
  case False
  have sep: "strsep_comma (''cache_strategy='' @ v) = [''cache_strategy='' @ v]"
    using assms by (intro strsep_comma_single) simp
  have tok: "parse_option k e (''cache_strategy='' @ v) s
               = erofs_build_cache_strategy k e (Some v) s"
    using match_token_cache_strategy [OF False] by (simp add: parse_option_def)
  have "erofs_parse_options k e (Some (''cache_strategy='' @ v)) s
          = erofs_build_cache_strategy k e (Some v) s"
    unfolding erofs_parse_options_def option.case sep
    by (simp add: tok del: append.simps split: prod.splits sum.splits)
  with False show ?thesis
    by (simp add: erofs_build_cache_strategy_def kmalloc_def match_strdup_def)
qed

theorem cache_strategy_option_witness:
  "CHR '','' \<notin> set ''bogus''
   \<and> erofs_parse_options example_kconfig failing_env (Some ''cache_strategy=bogus'')
         mounted_state = (Inl EINVAL, mounted_state\<lparr>nalloc := 3\<rparr>)
   \<and> CHR '','' \<notin> set ''readahead''
   \<and> erofs_parse_options example_kconfig failing_env (Some ''cache_strategy=readahead'')
         mounted_state =
       (Inr (), SBI (\<lambda>i. i\<lparr>cache_strategy := EROFS_ZIP_CACHE_READAHEAD\<rparr>)
                  (mounted_state\<lparr>nalloc := 3\<rparr>))
   \<and> erofs_parse_options nozip_kconfig failing_env (Some ''cache_strategy=bogus'')
         mounted_state = (Inr (), mounted_state)"
  using cache_strategy_option [of "''bogus''" example_kconfig failing_env mounted_state]
    cache_strategy_option [of "''readahead''" example_kconfig failing_env mounted_state]
    cache_strategy_option [of "''bogus''" nozip_kconfig failing_env mounted_state]
  by (simp add: example_defs)

section \<open>Properties of the superblock decoder\<close>

lemmas dsb_fields =
  dsb_magic_def dsb_checksum_def dsb_feature_compat_def dsb_blkszbits_def dsb_root_nid_def
  dsb_inos_def dsb_build_time_def dsb_build_time_nsec_def dsb_blocks_def dsb_meta_blkaddr_def
  dsb_xattr_blkaddr_def dsb_uuid_def dsb_volume_name_def dsb_feature_incompat_def
  dsb_extra_devices_def dsb_devt_slotoff_def field_def le16_to_cpu_def le32_to_cpu_def
  le64_to_cpu_def

lemma drop_example_block0:
  "drop EROFS_SUPER_OFFSET (example_block0 fc fi nd so)
     = example_dsb fc fi nd so @ replicate 2944 0"
  by (simp add: example_block0_def EROFS_SUPER_OFFSET_def)

lemma example_dsb_magic:
  "le32_to_cpu (dsb_magic (example_dsb fc fi nd so @ r)) = EROFS_SUPER_MAGIC_V1"
  by (simp add: dsb_fields example_dsb_def EROFS_SUPER_MAGIC_V1_def)

lemma example_dsb_checksum:
  "le32_to_cpu (dsb_checksum (example_dsb fc fi nd so @ r)) = 0"
  by (simp add: dsb_fields example_dsb_def)

lemma example_dsb_feature_compat:
  "le32_to_cpu (dsb_feature_compat (example_dsb fc fi nd so @ r)) = ucast fc"
  by (simp add: dsb_fields example_dsb_def)

lemma example_dsb_feature_incompat:
  "le32_to_cpu (dsb_feature_incompat (example_dsb fc fi nd so @ r)) = ucast fi"
  by (simp add: dsb_fields example_dsb_def)

lemma example_dsb_extra_devices:
  "le16_to_cpu (dsb_extra_devices (example_dsb fc fi nd so @ r)) = ucast nd"
  by (simp add: dsb_fields example_dsb_def)

lemma example_dsb_devt_slotoff:
  "le16_to_cpu (dsb_devt_slotoff (example_dsb fc fi nd so @ r)) = ucast so"
  by (simp add: dsb_fields example_dsb_def)

lemma example_dsb_blkszbits:
  "(le_word (dsb_blkszbits (example_dsb fc fi nd so @ r)) :: u8) = 12"
  by (simp add: dsb_fields example_dsb_def)

lemma example_dsb_blocks:
  "le32_to_cpu (dsb_blocks (example_dsb fc fi nd so @ r)) = 100"
  by (simp add: dsb_fields example_dsb_def)

lemma example_dsb_root_nid:
  "le16_to_cpu (dsb_root_nid (example_dsb fc fi nd so @ r)) = 36"
  by (simp add: dsb_fields example_dsb_def)

lemma example_dsb_volume_name:
  "strscpy (dsb_volume_name (example_dsb fc fi nd so @ r)) 16 = (Some 3, [118, 111, 108])"
  by (simp add: dsb_fields example_dsb_def strscpy_def cstring_def)

lemmas example_dsb_simps =
  drop_example_block0 example_dsb_magic example_dsb_checksum example_dsb_feature_compat
  example_dsb_feature_incompat example_dsb_extra_devices example_dsb_devt_slotoff
  example_dsb_blkszbits example_dsb_blocks example_dsb_root_nid example_dsb_volume_name

lemmas example_dsb_simps0 =
  example_dsb_magic [where r = "[]", simplified]
  example_dsb_checksum [where r = "[]", simplified]
  example_dsb_feature_compat [where r = "[]", simplified]
  example_dsb_feature_incompat [where r = "[]", simplified]
  example_dsb_extra_devices [where r = "[]", simplified]
  example_dsb_devt_slotoff [where r = "[]", simplified]

lemma disk_env_simps:
  "read_metabuf (disk_env b0 b1 c) 0 = Inr b0"
  "read_metabuf (disk_env b0 b1 c) 1 = b1"
  "read_metabuf (disk_env b0 b1 c) (Suc 0) = b1"
  "kmalloc_ok (disk_env b0 b1 c) n"
  "crc32c (disk_env b0 b1 c) seed b = c"
  by (simp_all add: disk_env_def)

lemma example_kconfig_simps:
  "EROFS_ALL_FEATURE_INCOMPAT example_kconfig = 31"
  "CONFIG_EROFS_FS_ZIP example_kconfig"
  "CONFIG_EROFS_FS_XATTR example_kconfig"
  "CONFIG_EROFS_FS_POSIX_ACL example_kconfig"
  by (simp_all add: example_kconfig_def)

lemmas sb_defs =
  erofs_read_superblock_def erofs_read_metabuf_def check_layout_compatibility_def
  erofs_sb_has_sb_chksum_def erofs_superblock_csum_verify_def io_def
  erofs_sb_has_device_table_def ondisk_extradevs_of_def erofs_init_devices_def
  EROFS_FEATURE_COMPAT_SB_CHKSUM_def EROFS_FEATURE_INCOMPAT_DEVICE_TABLE_def
  LOG_BLOCK_SIZE_def

lemmas fill_defs =
  erofs_fill_super_def rafs_v6_fill_super_def erofs_init_managed_cache_def
  SB_RDONLY_def SB_NOATIME_def SB_POSIXACL_def EROFS_MOUNT_POSIX_ACL_def 
  EROFS_MOUNT_XATTR_USER_def

lemma checksum_of_region:
  "le32_to_cpu (dsb_checksum (take (EROFS_BLKSIZ - EROFS_SUPER_OFFSET) dsb))
     = le32_to_cpu (dsb_checksum dsb)"
  by (simp add: dsb_checksum_def field_def le32_to_cpu_def EROFS_BLKSIZ_def
      EROFS_SUPER_OFFSET_def LOG_BLOCK_SIZE_def take_drop min_def)

lemma csum_verify_eq:
  "erofs_superblock_csum_verify e sbdata s =
     (if \<not> kmalloc_ok e (nalloc s) then (Inl ENOMEM, s\<lparr>nalloc := Suc (nalloc s)\<rparr>)
      else if sb_csum e sbdata \<noteq> le32_to_cpu (dsb_checksum (drop EROFS_SUPER_OFFSET sbdata))
      then (Inl EBADMSG, s\<lparr>nalloc := Suc (nalloc s)\<rparr>)
      else (Inr (), s\<lparr>nalloc := Suc (nalloc s)\<rparr>))"
  by (simp add: erofs_superblock_csum_verify_def kmalloc_def sb_csum_def Let_def
      checksum_of_region)

lemma read_superblock_unknown:
  assumes rd: "read_metabuf e 0 = Inr data"
    and unk: "sb_unknown_incompat k (drop EROFS_SUPER_OFFSET data) \<noteq> 0"
  shows "fst (erofs_read_superblock k e s) =
     (if le32_to_cpu (dsb_magic (drop EROFS_SUPER_OFFSET data)) \<noteq> EROFS_SUPER_MAGIC_V1
      then Inl EINVAL
      else if sb_has_chksum_bit (drop EROFS_SUPER_OFFSET data) \<and> \<not> kmalloc_ok e (nalloc s)
      then Inl ENOMEM
      else if sb_has_chksum_bit (drop EROFS_SUPER_OFFSET data)
              \<and> sb_csum e data \<noteq> le32_to_cpu (dsb_checksum (drop EROFS_SUPER_OFFSET data))
      then Inl EBADMSG
      else Inl EINVAL)"
  using unk
  by (simp add: erofs_read_superblock_def erofs_read_metabuf_def rd Let_def csum_verify_eq
      check_layout_compatibility_def erofs_sb_has_sb_chksum_def sb_has_chksum_bit_def
      sb_unknown_incompat_def SBI_def io_def)

lemma read_superblock_csum_mismatch:
  assumes rd: "read_metabuf e 0 = Inr data"
    and magic: "le32_to_cpu (dsb_magic (drop EROFS_SUPER_OFFSET data)) = EROFS_SUPER_MAGIC_V1"
    and bit: "sb_has_chksum_bit (drop EROFS_SUPER_OFFSET data)"
    and mis: "sb_csum e data \<noteq> le32_to_cpu (dsb_checksum (drop EROFS_SUPER_OFFSET data))"
  shows "fst (erofs_read_superblock k e s)
           = (if kmalloc_ok e (nalloc s) then Inl EBADMSG else Inl ENOMEM)"
  using magic bit mis
  by (simp add: erofs_read_superblock_def erofs_read_metabuf_def rd Let_def csum_verify_eq
      erofs_sb_has_sb_chksum_def sb_has_chksum_bit_def SBI_def io_def)

text \<open>A mount succeeds only if reading the superblock does.\<close>

lemma fill_super_needs_superblock:
  assumes "\<And>s1. fst (erofs_read_superblock k e s1) \<noteq> Inr ()"
  shows "fst (erofs_fill_super k e opts s) \<noteq> Inr ()"
proof -
  have b: "erofs_read_superblock k e s1 \<noteq> (Inr (), s2)" for s1 s2
    using assms [of s1] by auto
  show ?thesis
    by (auto simp: erofs_fill_super_def Let_def b split: prod.splits sum.splits bool.splits)
qed

text \<open>Nothing but the checksum verification calls the checksum routine.\<close>

lemma init_device_crc32c: "init_device (e\<lparr>crc32c := f\<rparr>) dif pos s = init_device e dif pos s"
  by (auto simp: init_device_def erofs_read_metabuf_def Let_def split: sum.splits)

lemma init_devices_loop_crc32c:
  "init_devices_loop (e\<lparr>crc32c := f\<rparr>) difs pos s = init_devices_loop e difs pos s"
  by (induction difs arbitrary: pos s)
     (simp_all add: init_device_crc32c split: prod.splits loop_exit.splits)

lemma add_blob_crc32c: "add_blob (e\<lparr>crc32c := f\<rparr>) pos s = add_blob e pos s"
  by (simp add: add_blob_def erofs_read_metabuf_def kmalloc_def Let_def
      split: sum.splits bool.splits)

lemma blob_loop_crc32c: "blob_loop (e\<lparr>crc32c := f\<rparr>) n pos s = blob_loop e n pos s"
proof (induction e n pos s rule: blob_loop.induct)
  case (1 e n pos s)
  show ?case
    using "1.IH"
    by (subst blob_loop.simps, subst (2) blob_loop.simps)
       (auto simp: add_blob_crc32c split: prod.splits sum.splits)
qed

lemma erofs_init_devices_crc32c:
  "erofs_init_devices (e\<lparr>crc32c := f\<rparr>) dsb s = erofs_init_devices e dsb s"
  by (simp add: erofs_init_devices_def init_devices_loop_crc32c blob_loop_crc32c Let_def
      split: prod.splits loop_exit.splits)

lemma read_superblock_no_chksum:
  assumes rd: "read_metabuf e 0 = Inr data"
    and bit: "\<not> sb_has_chksum_bit (drop EROFS_SUPER_OFFSET data)"
  shows "erofs_read_superblock k (e\<lparr>crc32c := f\<rparr>) s = erofs_read_superblock k e s"
  using bit
  by (simp add: erofs_read_superblock_def erofs_read_metabuf_def rd Let_def
      erofs_sb_has_sb_chksum_def sb_has_chksum_bit_def SBI_def io_def erofs_init_devices_crc32c
      split: prod.splits bool.splits option.splits)

text \<open>
  C3. The feature gate \<open>check_layout_compatibility\<close> passes exactly when
  \<^verbatim>\<open>feature_incompat\<close> has no bit outside \<^verbatim>\<open>EROFS_ALL_FEATURE_INCOMPAT\<close>, so it passes
  for \<^verbatim>\<open>feature_incompat = 0\<close>. When block zero can be read and its superblock has an
  unknown bit, reading the superblock fails whatever else the block holds, and so does the
  mount: with \<^verbatim>\<open>-EINVAL\<close> (the errno of an unsupported block size or feature), unless
  the checksum verification, which comes first, has failed with its own error.
\<close>

theorem unknown_incompat_feature_refused:
  "fst (check_layout_compatibility k dsb s) = (sb_unknown_incompat k dsb = 0)
   \<and> (le32_to_cpu (dsb_feature_incompat dsb) = 0
        \<longrightarrow> fst (check_layout_compatibility k dsb s))
   \<and> (read_metabuf e 0 = Inr data
        \<and> sb_unknown_incompat k (drop EROFS_SUPER_OFFSET data) \<noteq> 0
      \<longrightarrow> fst (erofs_read_superblock k e s1) =
            (if le32_to_cpu (dsb_magic (drop EROFS_SUPER_OFFSET data)) \<noteq> EROFS_SUPER_MAGIC_V1
             then Inl EINVAL
             else if sb_has_chksum_bit (drop EROFS_SUPER_OFFSET data)
                     \<and> \<not> kmalloc_ok e (nalloc s1)
             then Inl ENOMEM
             else if sb_has_chksum_bit (drop EROFS_SUPER_OFFSET data)
                     \<and> sb_csum e data
                         \<noteq> le32_to_cpu (dsb_checksum (drop EROFS_SUPER_OFFSET data))
             then Inl EBADMSG
             else Inl EINVAL)
          \<and> fst (erofs_fill_super k e opts s0) \<noteq> Inr ())"
proof -
  have gate: "fst (check_layout_compatibility k dsb s) = (sb_unknown_incompat k dsb = 0)"
    by (simp add: check_layout_compatibility_def sb_unknown_incompat_def Let_def)
  have zero: "le32_to_cpu (dsb_feature_incompat dsb) = 0
                \<longrightarrow> fst (check_layout_compatibility k dsb s)"
    by (simp add: gate sb_unknown_incompat_def)
  have mount: "fst (erofs_fill_super k e opts s0) \<noteq> Inr ()"
    if rd: "read_metabuf e 0 = Inr data"
      and unk: "sb_unknown_incompat k (drop EROFS_SUPER_OFFSET data) \<noteq> 0"
  proof (rule fill_super_needs_superblock)
    fix s2
    show "fst (erofs_read_superblock k e s2) \<noteq> Inr ()"
      by (simp add: read_superblock_unknown [OF rd unk])
  qed
  show ?thesis
    using gate zero mount read_superblock_unknown [of e data k s1] by blast
qed

theorem unknown_incompat_feature_refused_witness:
  "fst (check_layout_compatibility example_kconfig (example_dsb 0 0 0 0) fresh_state)
   \<and> \<not> fst (check_layout_compatibility example_kconfig (example_dsb 0 32 0 0) fresh_state)
   \<and> read_metabuf (disk_env (example_block0 0 32 0 0) (Inl EIO) 0) 0
        = Inr (example_block0 0 32 0 0)
   \<and> sb_unknown_incompat example_kconfig
        (drop EROFS_SUPER_OFFSET (example_block0 0 32 0 0)) \<noteq> 0
   \<and> fst (erofs_read_superblock example_kconfig
            (disk_env (example_block0 0 32 0 0) (Inl EIO) 0) fresh_state) = Inl EINVAL
   \<and> fst (erofs_fill_super example_kconfig
            (disk_env (example_block0 0 32 0 0) (Inl EIO) 0) None fresh_state) \<noteq> Inr ()"
  using
    unknown_incompat_feature_refused [of example_kconfig "example_dsb 0 0 0 0"
      fresh_state "disk_env (example_block0 0 32 0 0) (Inl EIO) 0" "example_block0 0 32 0 0"
      fresh_state None fresh_state]
    unknown_incompat_feature_refused [of example_kconfig "example_dsb 0 32 0 0"
      fresh_state "disk_env (example_block0 0 32 0 0) (Inl EIO) 0" "example_block0 0 32 0 0"
      fresh_state None fresh_state]
  by (simp add: sb_unknown_incompat_def sb_has_chksum_bit_def example_dsb_simps
      example_dsb_simps0 example_kconfig_simps disk_env_simps
      EROFS_FEATURE_COMPAT_SB_CHKSUM_def)

text \<open>
  The specification's scenario for C3: the magic number, \<open>blkszbits = 12\<close> and
  \<^verbatim>\<open>feature_incompat = 0\<close>. The mount succeeds and the total is the block count of the
  primary device.
\<close>

lemma mount_scenario_succeeds:
  "case erofs_fill_super example_kconfig (disk_env (example_block0 0 0 0 0) (Inl EIO) 0)
          None fresh_state of
     (r, s) \<Rightarrow> r = Inr () \<and> total_blocks (EROFS_SB s) = 100
               \<and> io_log s = [IO_read_metabuf 0]
               \<and> s_flags (sb s) AND SB_RDONLY = SB_RDONLY"
  by (simp add: sb_defs fill_defs disk_env_def example_dsb_simps example_defs fresh_state_def
      Let_def parse_defs)

text \<open>
  C4. The verification fails with \<^verbatim>\<open>-EBADMSG\<close> exactly when the CRC-32C of the bytes from
  the superblock's offset to the end of block zero, checksum field zeroed, differs from the
  little-endian value stored in that field (and with \<^verbatim>\<open>-ENOMEM\<close> when the copy of those
  bytes cannot be allocated). When the checksum bit of \<^verbatim>\<open>feature_compat\<close> is set and the
  values differ, reading the superblock fails with that error and the mount is refused.
  When the bit is clear the checksum routine has no part in the result: no verification
  takes place.
\<close>

theorem superblock_checksum_verified:
  "erofs_superblock_csum_verify e data s =
     (if \<not> kmalloc_ok e (nalloc s) then (Inl ENOMEM, s\<lparr>nalloc := Suc (nalloc s)\<rparr>)
      else if sb_csum e data \<noteq> le32_to_cpu (dsb_checksum (drop EROFS_SUPER_OFFSET data))
      then (Inl EBADMSG, s\<lparr>nalloc := Suc (nalloc s)\<rparr>)
      else (Inr (), s\<lparr>nalloc := Suc (nalloc s)\<rparr>))
   \<and> (read_metabuf e 0 = Inr data
        \<and> le32_to_cpu (dsb_magic (drop EROFS_SUPER_OFFSET data)) = EROFS_SUPER_MAGIC_V1
        \<and> sb_has_chksum_bit (drop EROFS_SUPER_OFFSET data)
        \<and> sb_csum e data \<noteq> le32_to_cpu (dsb_checksum (drop EROFS_SUPER_OFFSET data))
      \<longrightarrow> fst (erofs_read_superblock k e s)
             = (if kmalloc_ok e (nalloc s) then Inl EBADMSG else Inl ENOMEM)
          \<and> fst (erofs_fill_super k e opts s0) \<noteq> Inr ())
   \<and> (read_metabuf e 0 = Inr data
        \<and> \<not> sb_has_chksum_bit (drop EROFS_SUPER_OFFSET data)
      \<longrightarrow> erofs_read_superblock k (e\<lparr>crc32c := f\<rparr>) s = erofs_read_superblock k e s)"
proof -
  have mount: "fst (erofs_fill_super k e opts s0) \<noteq> Inr ()"
    if rd: "read_metabuf e 0 = Inr data"
      and magic: "le32_to_cpu (dsb_magic (drop EROFS_SUPER_OFFSET data)) = EROFS_SUPER_MAGIC_V1"
      and bit: "sb_has_chksum_bit (drop EROFS_SUPER_OFFSET data)"
      and mis: "sb_csum e data \<noteq> le32_to_cpu (dsb_checksum (drop EROFS_SUPER_OFFSET data))"
  proof (rule fill_super_needs_superblock)
    fix s2
    show "fst (erofs_read_superblock k e s2) \<noteq> Inr ()"
      by (simp add: read_superblock_csum_mismatch [OF rd magic bit mis])
  qed
  show ?thesis
    using csum_verify_eq [of e data s] mount
      read_superblock_csum_mismatch [of e data k s]
      read_superblock_no_chksum [of e data k f s]
    by blast
qed

theorem superblock_checksum_verified_witness:
  "read_metabuf (disk_env (example_block0 1 0 0 0) (Inl EIO) 7) 0
        = Inr (example_block0 1 0 0 0)
   \<and> sb_has_chksum_bit (drop EROFS_SUPER_OFFSET (example_block0 1 0 0 0))
   \<and> sb_csum (disk_env (example_block0 1 0 0 0) (Inl EIO) 7) (example_block0 1 0 0 0)
        \<noteq> le32_to_cpu (dsb_checksum (drop EROFS_SUPER_OFFSET (example_block0 1 0 0 0)))
   \<and> fst (erofs_read_superblock example_kconfig
            (disk_env (example_block0 1 0 0 0) (Inl EIO) 7) fresh_state) = Inl EBADMSG
   \<and> fst (erofs_fill_super example_kconfig
            (disk_env (example_block0 1 0 0 0) (Inl EIO) 7) None fresh_state) \<noteq> Inr ()
   \<and> \<not> sb_has_chksum_bit (drop EROFS_SUPER_OFFSET (example_block0 0 0 0 0))
   \<and> erofs_read_superblock example_kconfig
        ((disk_env (example_block0 0 0 0 0) (Inl EIO) 7)\<lparr>crc32c := (\<lambda>seed b. 0)\<rparr>) fresh_state
      = erofs_read_superblock example_kconfig
          (disk_env (example_block0 0 0 0 0) (Inl EIO) 7) fresh_state"
  using
    superblock_checksum_verified [of "disk_env (example_block0 1 0 0 0) (Inl EIO) 7"
      "example_block0 1 0 0 0" fresh_state example_kconfig None fresh_state "\<lambda>seed b. 0"]
    superblock_checksum_verified [of "disk_env (example_block0 0 0 0 0) (Inl EIO) 7"
      "example_block0 0 0 0 0" fresh_state example_kconfig None fresh_state "\<lambda>seed b. 0"]
  by (simp add: sb_has_chksum_bit_def sb_csum_def example_dsb_simps
      disk_env_simps fresh_state_def EROFS_FEATURE_COMPAT_SB_CHKSUM_def)

section \<open>Properties of device resolution\<close>

lemma ondisk_extradevs_of_declared:
  "feature_incompat i = le32_to_cpu (dsb_feature_incompat dsb) \<Longrightarrow>
     ondisk_extradevs_of i dsb = sb_declared_extra_devices dsb"
  by (simp add: ondisk_extradevs_of_def sb_declared_extra_devices_def
      erofs_sb_has_device_table_def)

lemma init_devices_none:
  assumes "ondisk_extradevs_of (EROFS_SB s) dsb = 0"
  shows "erofs_init_devices e dsb s =
     (if extra_devices (devs (EROFS_SB s)) \<noteq> 0 \<and> blob_dir_path (EROFS_SB s) = None
      then Inl EINVAL else Inr (),
      SBI (\<lambda>i. i\<lparr>total_blocks := ucast (primarydevice_blocks i)\<rparr>) s)"
  using assms
  by (auto simp: erofs_init_devices_def Let_def SBI_def ondisk_extradevs_of_def
      erofs_sb_has_device_table_def)

lemma init_devices_none_io:
  assumes "feature_incompat (EROFS_SB s) = le32_to_cpu (dsb_feature_incompat dsb)"
    and "sb_declared_extra_devices dsb = 0"
  shows "io_log (snd (erofs_init_devices e dsb s)) = io_log s"
  using assms init_devices_none [of s dsb e]
  by (simp add: ondisk_extradevs_of_declared SBI_def)

lemma read_superblock_io_none:
  assumes rd: "read_metabuf e 0 = Inr data"
    and none: "sb_declared_extra_devices (drop EROFS_SUPER_OFFSET data) = 0"
  shows "io_log (snd (erofs_read_superblock k e s)) = io_log s @ [IO_read_metabuf 0]"
  by (simp add: erofs_read_superblock_def erofs_read_metabuf_def rd Let_def csum_verify_eq
      check_layout_compatibility_def SBI_def io_def init_devices_none_io none
      split: prod.splits option.splits)

lemma init_devices_mismatch:
  assumes "ondisk_extradevs_of (EROFS_SB s) dsb \<noteq> extra_devices (devs (EROFS_SB s))"
    and "blob_dir_path (EROFS_SB s) = None"
  shows "erofs_init_devices e dsb s =
     (Inl EINVAL, SBI (\<lambda>i. i\<lparr>total_blocks := ucast (primarydevice_blocks i)\<rparr>) s)"
  using assms
  by (auto simp: erofs_init_devices_def Let_def SBI_def ondisk_extradevs_of_def
      erofs_sb_has_device_table_def)

text \<open>
  C2, amended. When no extra device is on disk (\<^verbatim>\<open>ondisk_extradevs\<close> is zero: the
  device-table feature is absent or the field \<^verbatim>\<open>extra_devices\<close> is zero),
  \<open>erofs_init_devices\<close> returns at once: the total is the block count of the primary
  device, no I/O request is made and the device list is untouched. It returns success
  when the mount options name no device or a blob directory is configured, and
  \<^verbatim>\<open>-EINVAL\<close> when they name a device and no blob directory is configured. Reading such
  a superblock makes one I/O request, the read of block zero.
\<close>

theorem init_devices_no_extra_devices:
  "(ondisk_extradevs_of (EROFS_SB s) dsb = 0 \<longrightarrow>
      fst (erofs_init_devices e dsb s) =
        (if extra_devices (devs (EROFS_SB s)) \<noteq> 0 \<and> blob_dir_path (EROFS_SB s) = None
         then Inl EINVAL else Inr ())
      \<and> total_blocks (EROFS_SB (snd (erofs_init_devices e dsb s)))
          = ucast (primarydevice_blocks (EROFS_SB s))
      \<and> io_log (snd (erofs_init_devices e dsb s)) = io_log s
      \<and> devs (EROFS_SB (snd (erofs_init_devices e dsb s))) = devs (EROFS_SB s))
   \<and> (read_metabuf e 0 = Inr data
        \<and> sb_declared_extra_devices (drop EROFS_SUPER_OFFSET data) = 0
      \<longrightarrow> io_log (snd (erofs_read_superblock k e s1)) = io_log s1 @ [IO_read_metabuf 0])"
proof -
  have "fst (erofs_init_devices e dsb s) =
        (if extra_devices (devs (EROFS_SB s)) \<noteq> 0 \<and> blob_dir_path (EROFS_SB s) = None
         then Inl EINVAL else Inr ())
      \<and> total_blocks (EROFS_SB (snd (erofs_init_devices e dsb s)))
          = ucast (primarydevice_blocks (EROFS_SB s))
      \<and> io_log (snd (erofs_init_devices e dsb s)) = io_log s
      \<and> devs (EROFS_SB (snd (erofs_init_devices e dsb s))) = devs (EROFS_SB s)"
    if "ondisk_extradevs_of (EROFS_SB s) dsb = 0"
    by (simp add: init_devices_none [OF that] SBI_def)
  then show ?thesis
    using read_superblock_io_none [of e data k s1] by blast
qed

lemmas device_defs =
  init_device_def add_blob_def blob_id_of_def strncpy_def cstring_def blob_loop.simps
  dis_blocks_def dis_mapped_blkaddr_def erofs_blknr_def erofs_blkoff_def EROFS_BLKSIZ_def
  EROFS_DEVT_SLOT_SIZE_def sizeof_userdata_def roundup_pow_of_two_def

text \<open>
  C2, as stated: with zero extra devices on disk, device resolution succeeds. It does
  not when the mount options name a device: the mount of a single-device image with
  \<^verbatim>\<open>device=/dev/vdb\<close> fails with \<^verbatim>\<open>-EINVAL\<close>.
\<close>

theorem init_devices_no_extra_devices_counterexample:
  "sb_declared_extra_devices (drop EROFS_SUPER_OFFSET (example_block0 0 0 0 0)) = 0
   \<and> fst (erofs_fill_super example_kconfig (disk_env (example_block0 0 0 0 0) (Inl EIO) 0)
           (Some ''device=/dev/vdb'') fresh_state) = Inl EINVAL"
  by (simp add: sb_defs fill_defs disk_env_def example_dsb_simps example_defs fresh_state_def
      Let_def parse_defs sb_declared_extra_devices_def)

theorem init_devices_no_extra_devices_witness:
  "ondisk_extradevs_of (EROFS_SB table_state) (example_dsb 0 8 0 32) = 0
   \<and> fst (erofs_init_devices failing_env (example_dsb 0 8 0 32) table_state) = Inr ()
   \<and> total_blocks (EROFS_SB (snd (erofs_init_devices failing_env (example_dsb 0 8 0 32)
        table_state))) = 100
   \<and> io_log (snd (erofs_init_devices failing_env (example_dsb 0 8 0 32) table_state))
        = [IO_read_metabuf 0]
   \<and> read_metabuf (disk_env (example_block0 0 0 0 0) (Inl EIO) 0) 0
        = Inr (example_block0 0 0 0 0)
   \<and> sb_declared_extra_devices (drop EROFS_SUPER_OFFSET (example_block0 0 0 0 0)) = 0
   \<and> io_log (snd (erofs_read_superblock example_kconfig
        (disk_env (example_block0 0 0 0 0) (Inl EIO) 0) parsed_state)) = [IO_read_metabuf 0]"
  using
    init_devices_no_extra_devices [where s = table_state and dsb = "example_dsb 0 8 0 32"
      and e = failing_env]
    init_devices_no_extra_devices [where s = table_state and dsb = "example_dsb 0 8 0 32"
      and e = "disk_env (example_block0 0 0 0 0) (Inl EIO) 0"
      and data = "example_block0 0 0 0 0" and k = example_kconfig and ?s1.0 = parsed_state]
  by (simp add: ondisk_extradevs_of_def erofs_sb_has_device_table_def
      sb_declared_extra_devices_def example_dsb_simps example_dsb_simps0 disk_env_simps
      table_state_def parsed_state_def example_kconfig_def erofs_default_options_def
      kzalloc_sbi_def set_opt_def kzalloc_devs_def)

text \<open>
  C6. A successful device resolution should leave every descriptor with the block count
  and mapped address of its slot. In the first loop a failed read of the slot's block
  sets \<^verbatim>\<open>err\<close> and leaves by \<^verbatim>\<open>break\<close>; control then reaches the \<^verbatim>\<open>while\<close> loop, which
  has nothing to do when the counts match, and \<^verbatim>\<open>err = 0\<close> after it. Below, the image
  declares one extra device with its table in block one, the mount options name
  \<^verbatim>\<open>/dev/vdb\<close>, and block one cannot be read: the mount succeeds, with a descriptor that
  was never opened and carries no block count. The lemma after it is the same mount
  with block one readable.
\<close>

theorem init_devices_read_error_ignored:
  "case erofs_fill_super example_kconfig
          (disk_env (example_block0 0 8 1 32) (Inl EIO) 0)
          (Some ''device=/dev/vdb'') fresh_state of
     (r, s) \<Rightarrow>
       r = Inr ()
       \<and> tree (devs (EROFS_SB s)) = [kzalloc_dif\<lparr>path := Some ''/dev/vdb''\<rparr>]
       \<and> total_blocks (EROFS_SB s) = 100
       \<and> io_log s = [IO_read_metabuf 0, IO_read_metabuf 1]"
  by (simp add: sb_defs fill_defs disk_env_def example_dsb_simps example_defs fresh_state_def
      Let_def parse_defs device_defs)

lemma example_slot_blocks:
  "length ident \<le> 64 \<Longrightarrow>
     le32_to_cpu (dis_blocks (example_slot ident blks addr @ r)) = ucast blks"
  by (simp add: example_slot_def dis_blocks_def field_def le32_to_cpu_def)

lemma example_slot_mapped_blkaddr:
  "length ident \<le> 64 \<Longrightarrow>
     le32_to_cpu (dis_mapped_blkaddr (example_slot ident blks addr @ r)) = ucast addr"
  by (simp add: example_slot_def dis_mapped_blkaddr_def field_def le32_to_cpu_def)

lemma example_table_one: "example_table [sl] = sl @ replicate (4096 - length sl) 0"
  by (simp add: example_table_def)

lemma init_devices_healthy:
  "case erofs_fill_super example_kconfig
          (disk_env (example_block0 0 8 1 32) (Inr (example_table [example_slot [] 50 100])) 0)
          (Some ''device=/dev/vdb'') fresh_state of
     (r, s) \<Rightarrow>
       r = Inr ()
       \<and> tree (devs (EROFS_SB s)) =
           [\<lparr>path = Some ''/dev/vdb'', bdev = Some 10, blobfile = None, blocks = 50,
             mapped_blkaddr = 100\<rparr>]
       \<and> total_blocks (EROFS_SB s) = 150
       \<and> io_log s = [IO_read_metabuf 0, IO_read_metabuf 1,
            IO_blkdev_get_by_path (Some ''/dev/vdb'')]"
  by (simp add: sb_defs fill_defs disk_env_def example_dsb_simps example_defs fresh_state_def
      Let_def parse_defs init_device_def blob_loop.simps erofs_blknr_def erofs_blkoff_def
      EROFS_BLKSIZ_def EROFS_DEVT_SLOT_SIZE_def example_table_one example_slot_blocks
      example_slot_mapped_blkaddr)


lemma disk_env_opens:
  "file_open_root (disk_env b0 b1 c) d n = (if d = Some 7 then Inr 20 else Inl ENOENT)"
  "blkdev_get_by_path (disk_env b0 b1 c) p
     = (if p = Some ''/dev/vdb'' then Inr 10 else Inl ENOENT)"
  "filp_open (disk_env b0 b1 c) p
     = (if p = Some ''/img'' then Inr 11 else if p = Some ''/blob0'' then Inr 12
        else Inl ENOENT)"
  by (simp_all add: disk_env_def)

lemma blob_state_simps:
  "blob_dir (EROFS_SB blob_state) = Some 7"
  "blob_dir_path (EROFS_SB blob_state) = Some ''/blobs''"
  "bootstrap (EROFS_SB blob_state) = Some 11"
  "feature_incompat (EROFS_SB blob_state) = 8"
  "primarydevice_blocks (EROFS_SB blob_state) = 100"
  "devs (EROFS_SB blob_state)
     = \<lparr>tree = [kzalloc_dif\<lparr>path := Some ''/blob0''\<rparr>], extra_devices = 1\<rparr>"
  "nalloc blob_state = 7"
  "io_log blob_state
     = [IO_filp_open (Some ''/img''), IO_kern_path ''/blobs'', IO_read_metabuf 0]"
  by (simp_all add: blob_state_def)

lemma blobdir_state_simps:
  "blob_dir (EROFS_SB blobdir_state) = Some 7"
  "blob_dir_path (EROFS_SB blobdir_state) = Some ''/blobs''"
  "bootstrap (EROFS_SB blobdir_state) = Some 11"
  "feature_incompat (EROFS_SB blobdir_state) = 8"
  "primarydevice_blocks (EROFS_SB blobdir_state) = 100"
  "devs (EROFS_SB blobdir_state) = \<lparr>tree = [], extra_devices = 0\<rparr>"
  "nalloc blobdir_state = 4"
  "io_log blobdir_state
     = [IO_filp_open (Some ''/img''), IO_kern_path ''/blobs'', IO_read_metabuf 0]"
  by (simp_all add: blobdir_state_def erofs_default_options_def example_kconfig_def
      kzalloc_sbi_def set_opt_def kzalloc_devs_def)

lemma blob_id_of_full_width:
  assumes len: "length ud = sizeof_userdata" and nz: "0 \<notin> set ud"
  shows "blob_id_of (ud @ rest) = ud"
proof -
  have all: "\<forall>b\<in>set ud. b \<noteq> 0" using nz by auto
  define tw where "tw = takeWhile (\<lambda>b. b \<noteq> 0) (take 1 rest)"
  have tw_len: "length tw \<le> 1"
    unfolding tw_def by (rule order_trans [OF length_takeWhile_le]) simp
  have tk: "take (sizeof_userdata + 1) (ud @ rest) = ud @ take 1 rest"
    using len by simp
  have str: "takeWhile (\<lambda>b. b \<noteq> 0) (ud @ take 1 rest) = ud @ tw"
    using all by (simp add: tw_def takeWhile_append2)
  have buf: "strncpy (ud @ rest) (sizeof_userdata + 1) = ud @ (tw @ replicate (1 - length tw) 0)"
    unfolding strncpy_def Let_def tk str using len by simp
  have one: "length (tw @ replicate (1 - length tw) 0) = 1"
    using tw_len by simp
  then obtain b where b: "tw @ replicate (1 - length tw) 0 = [b]"
    by (auto simp: length_Suc_conv simp del: length_append length_replicate)
  have buf': "strncpy (ud @ rest) (Suc sizeof_userdata) = ud @ [b]"
    using buf b by simp
  have "(strncpy (ud @ rest) (Suc sizeof_userdata))[sizeof_userdata := 0] = ud @ [0]"
    using len by (simp add: buf' list_update_append)
  then show ?thesis
    using all by (simp add: blob_id_of_def Let_def cstring_def takeWhile_append2)
qed

lemma init_device_props:
  assumes "init_device e dif pos s = (x, dif1, pos1, s1)"
  shows "devs (EROFS_SB s1) = devs (EROFS_SB s)
    \<and> blob_dir (EROFS_SB s1) = blob_dir (EROFS_SB s)
    \<and> (x = Next \<longrightarrow> pos1 = pos + EROFS_DEVT_SLOT_SIZE)
    \<and> (\<forall>err. x = Break err \<longrightarrow> pos1 = pos \<and> read_metabuf e (erofs_blknr pos) = Inl err)"
  using assms
  by (auto simp: init_device_def erofs_read_metabuf_def io_def SBI_def Let_def
      split: sum.splits if_splits)

lemma init_devices_loop_props:
  "init_devices_loop e difs pos s = (x, difs1, pos1, s1) \<Longrightarrow>
     length difs1 = length difs
     \<and> devs (EROFS_SB s1) = devs (EROFS_SB s)
     \<and> blob_dir (EROFS_SB s1) = blob_dir (EROFS_SB s)
     \<and> (x = Next \<longrightarrow> pos1 = pos + length difs * EROFS_DEVT_SLOT_SIZE)
     \<and> (\<forall>err. x = Break err \<longrightarrow> read_metabuf e (erofs_blknr pos1) = Inl err)"
proof (induction difs arbitrary: pos s x difs1 pos1 s1)
  case Nil
  then show ?case by auto
next
  case (Cons dif difs)
  obtain x0 dif0 pos0 s0 where st: "init_device e dif pos s = (x0, dif0, pos0, s0)"
    by (cases "init_device e dif pos s") auto
  note p0 = init_device_props [OF st]
  show ?case
  proof (cases x0)
    case Next
    obtain x2 difs2 pos2 s2 where lp: "init_devices_loop e difs pos0 s0 = (x2, difs2, pos2, s2)"
      by (cases "init_devices_loop e difs pos0 s0") auto
    from Cons.prems st Next lp
    have eq: "x = x2" "difs1 = dif0 # difs2" "pos1 = pos2" "s1 = s2" by auto
    from Cons.IH [OF lp] p0 Next show ?thesis unfolding eq by auto
  next
    case (Break err)
    with Cons.prems st have "x = Break err" "difs1 = dif0 # difs" "pos1 = pos0" "s1 = s0"
      by auto
    with p0 Break show ?thesis by auto
  next
    case (Goto_err_out err)
    with Cons.prems st have "x = Goto_err_out err" "difs1 = dif0 # difs" "pos1 = pos0" "s1 = s0"
      by auto
    with p0 show ?thesis by auto
  qed
qed

lemma add_blob_success:
  assumes "add_blob e pos s = (Inr u, s1)"
  shows "\<exists>dif. blob_device e (blob_dir (EROFS_SB s)) pos = Some dif
           \<and> tree (devs (EROFS_SB s1)) = tree (devs (EROFS_SB s)) @ [dif]
           \<and> extra_devices (devs (EROFS_SB s1)) = Suc (extra_devices (devs (EROFS_SB s)))
           \<and> blob_dir (EROFS_SB s1) = blob_dir (EROFS_SB s)"
  using assms
  by (auto simp: add_blob_def blob_device_def erofs_read_metabuf_def kmalloc_def io_def
      SBI_def Let_def split: sum.splits bool.splits)

lemma blob_loop_read_fails:
  assumes "read_metabuf e (erofs_blknr pos) = Inl err"
    and "extra_devices (devs (EROFS_SB s)) < n"
  shows "fst (blob_loop e n pos s) = Inl err"
  using assms
  by (subst blob_loop.simps) (simp add: add_blob_def erofs_read_metabuf_def)

lemma blob_loop_result:
  "blob_loop e n pos s = (Inr u, s1) \<Longrightarrow> extra_devices (devs (EROFS_SB s)) \<le> n \<Longrightarrow>
     extra_devices (devs (EROFS_SB s1)) = n
     \<and> (\<exists>new. tree (devs (EROFS_SB s1)) = tree (devs (EROFS_SB s)) @ new
           \<and> map Some new =
               map (\<lambda>j. blob_device e (blob_dir (EROFS_SB s)) (pos + j * EROFS_DEVT_SLOT_SIZE))
                 [0..<n - extra_devices (devs (EROFS_SB s))])"
proof (induction e n pos s arbitrary: s1 rule: blob_loop.induct)
  case (1 e n pos s)
  show ?case
  proof (cases "extra_devices (devs (EROFS_SB s)) < n")
    case False
    with "1.prems" show ?thesis
      by (subst (asm) blob_loop.simps) auto
  next
    case True
    obtain r0 s0 where ab: "add_blob e pos s = (r0, s0)"
      by (cases "add_blob e pos s") auto
    from "1.prems"(1) True ab have r0: "r0 = Inr ()"
      by (subst (asm) blob_loop.simps) (auto split: sum.splits)
    from "1.prems"(1) True ab r0
    have rec: "blob_loop e n (pos + EROFS_DEVT_SLOT_SIZE) s0 = (Inr u, s1)"
      by (subst (asm) blob_loop.simps) auto
    from add_blob_success [of e pos s "()" s0] ab r0
    obtain dif where dif: "blob_device e (blob_dir (EROFS_SB s)) pos = Some dif"
      and tr: "tree (devs (EROFS_SB s0)) = tree (devs (EROFS_SB s)) @ [dif]"
      and ex: "extra_devices (devs (EROFS_SB s0)) = Suc (extra_devices (devs (EROFS_SB s)))"
      and bd: "blob_dir (EROFS_SB s0) = blob_dir (EROFS_SB s)"
      by auto
    from ex True have le: "extra_devices (devs (EROFS_SB s0)) \<le> n" by simp
    from "1.IH" [OF True ab [symmetric] r0 rec le]
    obtain new where n1: "extra_devices (devs (EROFS_SB s1)) = n"
      and t1: "tree (devs (EROFS_SB s1)) = tree (devs (EROFS_SB s0)) @ new"
      and m1: "map Some new =
               map (\<lambda>j. blob_device e (blob_dir (EROFS_SB s0))
                      (pos + EROFS_DEVT_SLOT_SIZE + j * EROFS_DEVT_SLOT_SIZE))
                 [0..<n - extra_devices (devs (EROFS_SB s0))]"
      by auto
    have cnt: "n - extra_devices (devs (EROFS_SB s)) = Suc (n - extra_devices (devs (EROFS_SB s0)))"
      using ex True by simp
    have "map Some (dif # new) =
            map (\<lambda>j. blob_device e (blob_dir (EROFS_SB s)) (pos + j * EROFS_DEVT_SLOT_SIZE))
              [0..<n - extra_devices (devs (EROFS_SB s))]"
      unfolding cnt
      by (simp add: upt_conv_Cons map_Suc_upt [symmetric] dif m1 bd ac_simps del: upt_Suc)
    with n1 t1 tr show ?thesis by auto
  qed
qed


lemma EROFS_SB_SBI: "EROFS_SB (SBI f s) = f (EROFS_SB s)"
  by (simp add: SBI_def)

lemma ondisk_extradevs_of_total_blocks:
  "ondisk_extradevs_of (i\<lparr>total_blocks := t\<rparr>) dsb = ondisk_extradevs_of i dsb"
  by (simp add: ondisk_extradevs_of_def erofs_sb_has_device_table_def)

lemma slot_pos_add:
  "slot_pos dsb (j + n) = slot_pos dsb n + j * EROFS_DEVT_SLOT_SIZE"
  by (simp add: slot_pos_def algebra_simps)

lemma init_devices_blob_success:
  assumes n: "extra_devices (devs (EROFS_SB s)) = length (tree (devs (EROFS_SB s)))"
    and lt: "extra_devices (devs (EROFS_SB s)) < ondisk_extradevs_of (EROFS_SB s) dsb"
    and bd: "blob_dir_path (EROFS_SB s) \<noteq> None"
    and ok: "erofs_init_devices e dsb s = (Inr (), s1)"
  shows "extra_devices (devs (EROFS_SB s1)) = ondisk_extradevs_of (EROFS_SB s) dsb
    \<and> length (tree (devs (EROFS_SB s1))) = ondisk_extradevs_of (EROFS_SB s) dsb
    \<and> map Some (drop (extra_devices (devs (EROFS_SB s))) (tree (devs (EROFS_SB s1))))
        = map (\<lambda>j. blob_device e (blob_dir (EROFS_SB s)) (slot_pos dsb j))
            [extra_devices (devs (EROFS_SB s))..<ondisk_extradevs_of (EROFS_SB s) dsb]"
proof -
  let ?N = "ondisk_extradevs_of (EROFS_SB s) dsb"
  let ?n = "extra_devices (devs (EROFS_SB s))"
  define s2 where "s2 =
    SBI (device_id_mask_update (\<lambda>_. of_nat (roundup_pow_of_two (Suc ?N) - Suc 0)))
      (SBI (\<lambda>i. i\<lparr>total_blocks := ucast (primarydevice_blocks i)\<rparr>) s)"
  define pos where "pos = unat (le16_to_cpu (dsb_devt_slotoff dsb)) * EROFS_DEVT_SLOT_SIZE"
  have s2_frame: "devs (EROFS_SB s2) = devs (EROFS_SB s)"
    "blob_dir (EROFS_SB s2) = blob_dir (EROFS_SB s)"
    by (simp_all add: s2_def SBI_def)
  have N1: "ondisk_extradevs_of
              (EROFS_SB (SBI (\<lambda>i. i\<lparr>total_blocks := ucast (primarydevice_blocks i)\<rparr>) s)) dsb
            = ?N"
    by (simp add: EROFS_SB_SBI ondisk_extradevs_of_total_blocks)
  obtain x difs pos1 s3
    where lp: "init_devices_loop e (tree (devs (EROFS_SB s))) pos s2 = (x, difs, pos1, s3)"
    by (cases "init_devices_loop e (tree (devs (EROFS_SB s))) pos s2") auto
  define s4 where "s4 = SBI (\<lambda>i. i\<lparr>devs := (devs i)\<lparr>tree := difs\<rparr>\<rparr>) s3"
  have run: "erofs_init_devices e dsb s =
      (case x of Goto_err_out err \<Rightarrow> (Inl err, s4)
               | Break err \<Rightarrow> blob_loop e ?N pos1 s4
               | Next \<Rightarrow> blob_loop e ?N pos1 s4)"
    using lt bd lp
    by (auto simp: erofs_init_devices_def Let_def EROFS_SB_SBI
        ondisk_extradevs_of_total_blocks s2_frame
        s2_def [symmetric] pos_def [symmetric] s4_def split: loop_exit.splits)
  note lprops = init_devices_loop_props [OF lp]
  have s4: "extra_devices (devs (EROFS_SB s4)) = ?n" "tree (devs (EROFS_SB s4)) = difs"
    "blob_dir (EROFS_SB s4) = blob_dir (EROFS_SB s)"
    using lprops s2_frame by (simp_all add: s4_def SBI_def)
  have len: "length difs = ?n" using lprops n by simp
  have next_exit: "x = Next"
  proof (cases x)
    case Next
    then show ?thesis .
  next
    case (Break err)
    with lprops have "read_metabuf e (erofs_blknr pos1) = Inl err" by simp
    from blob_loop_read_fails [OF this, of s4 ?N] lt s4
    have "fst (blob_loop e ?N pos1 s4) = Inl err" by simp
    with ok run Break show ?thesis by simp
  next
    case (Goto_err_out err)
    with ok run show ?thesis by simp
  qed
  with lprops len have pos1: "pos1 = slot_pos dsb ?n"
    by (simp add: slot_pos_def pos_def)
  from ok run next_exit have bl: "blob_loop e ?N pos1 s4 = (Inr (), s1)" by simp
  from blob_loop_result [OF bl] lt s4
  obtain new where ex: "extra_devices (devs (EROFS_SB s1)) = ?N"
    and tr: "tree (devs (EROFS_SB s1)) = difs @ new"
    and mp: "map Some new =
               map (\<lambda>j. blob_device e (blob_dir (EROFS_SB s)) (pos1 + j * EROFS_DEVT_SLOT_SIZE))
                 [0..<?N - ?n]"
    by auto
  have "length (map Some new) = ?N - ?n" unfolding mp by simp
  then have lnew: "length new = ?N - ?n" by simp
  have idx: "[?n..<?N] = map (\<lambda>j. j + ?n) [0..<?N - ?n]"
    using lt by (simp add: map_add_upt)
  have "map Some (drop ?n (tree (devs (EROFS_SB s1)))) = map Some new"
    using tr len by simp
  also have "\<dots> = map (\<lambda>j. blob_device e (blob_dir (EROFS_SB s)) (slot_pos dsb j)) [?n..<?N]"
    unfolding mp idx by (simp add: pos1 slot_pos_add o_def)
  finally have dr: "map Some (drop ?n (tree (devs (EROFS_SB s1))))
      = map (\<lambda>j. blob_device e (blob_dir (EROFS_SB s)) (slot_pos dsb j)) [?n..<?N]" .
  from tr len lnew lt have "length (tree (devs (EROFS_SB s1))) = ?N" by simp
  with ex dr show ?thesis by simp
qed


lemma takeWhile_take: "takeWhile P (take n xs) = take n (takeWhile P xs)"
  by (induction xs arbitrary: n) (auto simp: take_Cons split: nat.splits)

text \<open>The identifier is the string of the \<^verbatim>\<open>userdata\<close> field, cut at the field's width.\<close>

lemma blob_id_of_eq: "blob_id_of dis = cstring (take sizeof_userdata dis)"
proof -
  define w where "w = takeWhile (\<lambda>b. b \<noteq> 0) dis"
  have nz: "\<forall>b\<in>set w. b \<noteq> 0"
    unfolding w_def by (auto dest: set_takeWhileD)
  have nz_take: "\<forall>b\<in>set (take n w). b \<noteq> 0" for n
    using nz by (auto dest: in_set_takeD)
  have goal: "cstring (take sizeof_userdata dis) = take sizeof_userdata w"
    by (simp add: cstring_def takeWhile_take w_def)
  have buf: "strncpy dis (Suc sizeof_userdata)
      = take (Suc sizeof_userdata) w @ replicate (Suc sizeof_userdata - length (take (Suc sizeof_userdata) w)) 0"
    by (simp add: strncpy_def Let_def takeWhile_take w_def)
  have unf: "blob_id_of dis
      = takeWhile (\<lambda>b. b \<noteq> 0) ((strncpy dis (Suc sizeof_userdata))[sizeof_userdata := 0])"
    by (simp add: blob_id_of_def Let_def cstring_def)
  show ?thesis
  proof (cases "length w \<le> sizeof_userdata")
    case True
    then have b1: "strncpy dis (Suc sizeof_userdata)
        = w @ replicate (Suc sizeof_userdata - length w) 0"
      using buf by simp
    have b2: "(w @ replicate (Suc sizeof_userdata - length w) 0)[sizeof_userdata := 0]
            = w @ replicate (Suc sizeof_userdata - length w) 0"
      using True by (simp add: list_update_append list_update_same_conv)
    have b3: "takeWhile (\<lambda>b. b \<noteq> 0) (w @ replicate (Suc sizeof_userdata - length w) 0) = w"
      using nz by (simp add: takeWhile_append2)
    have "blob_id_of dis = w"
      unfolding unf b1 b2 b3 ..
    moreover have "cstring (take sizeof_userdata dis) = w"
      using True by (simp add: goal)
    ultimately show ?thesis by simp
  next
    case False
    then have lw: "sizeof_userdata < length w" by simp
    then have b1: "strncpy dis (Suc sizeof_userdata) = take (Suc sizeof_userdata) w"
      using buf by simp
    have tk: "take (Suc sizeof_userdata) w = take sizeof_userdata w @ [w ! sizeof_userdata]"
      using lw by (simp add: take_Suc_conv_app_nth)
    have b2: "(take (Suc sizeof_userdata) w)[sizeof_userdata := 0]
        = take sizeof_userdata w @ [0]"
      using lw by (simp add: tk list_update_append)
    have b3: "takeWhile (\<lambda>b. b \<noteq> 0) (take sizeof_userdata w @ [0]) = take sizeof_userdata w"
      using nz_take by (simp add: takeWhile_append2)
    have "blob_id_of dis = take sizeof_userdata w"
      unfolding unf b1 b2 b3 ..
    then show ?thesis by (simp add: goal)
  qed
qed

lemma length_example_slot:
  "length ident \<le> 64 \<Longrightarrow> length (example_slot ident blks addr) = 128"
  by (simp add: example_slot_def)

lemma blob_id_of_example_slot:
  "0 \<notin> set ident \<Longrightarrow> length ident \<le> 64 \<Longrightarrow>
     blob_id_of (example_slot ident blks addr @ r) = ident"
proof -
  assume "0 \<notin> set ident" and len: "length ident \<le> 64"
  then have nz: "\<forall>b\<in>set ident. b \<noteq> 0" by auto
  show ?thesis
    using nz len
    by (simp add: blob_id_of_eq example_slot_def sizeof_userdata_def cstring_def
        takeWhile_append2 takeWhile_replicate)
qed

lemma example_table_two: "example_table [sl0, sl1] = sl0 @ sl1 @ replicate (4096 - (length sl0 + length sl1)) 0"
  by (simp add: example_table_def)

text \<open>
  A resolution in blob-directory mode: two devices on disk, one in the mount options.
  The second is the blob \<^verbatim>\<open>blob1\<close>, named by its slot.
\<close>

lemma blob_resolution_example:
  "case erofs_init_devices
          (disk_env (example_block0 0 8 2 32)
             (Inr (example_table [example_slot [] 50 100,
                                  example_slot [98, 108, 111, 98, 49] 30 150])) 0)
          (example_dsb 0 8 2 32) blob_state of
     (r, s) \<Rightarrow>
       r = Inr ()
       \<and> extra_devices (devs (EROFS_SB s)) = 2
       \<and> tree (devs (EROFS_SB s)) =
           [\<lparr>path = Some ''/blob0'', bdev = None, blobfile = Some 12, blocks = 50,
             mapped_blkaddr = 100\<rparr>,
            \<lparr>path = None, bdev = None, blobfile = Some 20, blocks = 30,
             mapped_blkaddr = 150\<rparr>]
       \<and> total_blocks (EROFS_SB s) = 180
       \<and> io_log s = [IO_filp_open (Some ''/img''), IO_kern_path ''/blobs'', IO_read_metabuf 0,
            IO_read_metabuf 1, IO_filp_open (Some ''/blob0''), IO_read_metabuf 1,
            IO_file_open_root (Some 7) [98, 108, 111, 98, 49]]"
  by (simp add: erofs_init_devices_def ondisk_extradevs_of_def erofs_sb_has_device_table_def
      EROFS_FEATURE_INCOMPAT_DEVICE_TABLE_def example_dsb_simps0 EROFS_SB_SBI blob_state_simps
      Let_def init_device_def add_blob_def blob_loop.simps erofs_read_metabuf_def io_def
      kmalloc_def disk_env_simps disk_env_opens erofs_blknr_def erofs_blkoff_def
      EROFS_BLKSIZ_def LOG_BLOCK_SIZE_def EROFS_DEVT_SLOT_SIZE_def example_table_two
      length_example_slot example_slot_blocks example_slot_mapped_blkaddr
      blob_id_of_example_slot kzalloc_dif_def SBI_def)



lemma le_word_zeros: "le_word (replicate n 0) = 0"
  by (induction n) simp_all

lemma example_dsb_rest:
  "le32_to_cpu (dsb_meta_blkaddr (example_dsb fc fi nd so @ r)) = 0"
  "le32_to_cpu (dsb_xattr_blkaddr (example_dsb fc fi nd so @ r)) = 0"
  "le64_to_cpu (dsb_inos (example_dsb fc fi nd so @ r)) = 0"
  "le64_to_cpu (dsb_build_time (example_dsb fc fi nd so @ r)) = 0"
  "le32_to_cpu (dsb_build_time_nsec (example_dsb fc fi nd so @ r)) = 0"
  "dsb_uuid (example_dsb fc fi nd so @ r) = replicate 16 0"
  by (simp_all add: dsb_fields example_dsb_def le_word_zeros)

lemma disk_env_mount:
  "sb_set_blocksize (disk_env b0 b1 c) n"
  "erofs_iget (disk_env b0 b1 c) nid = Inr (5, True)"
  "d_make_root (disk_env b0 b1 c) h = Some 6"
  "new_inode (disk_env b0 b1 c) = Some 8"
  "kern_path (disk_env b0 b1 c) p = (if p = ''/blobs'' then Inr 7 else Inl ENOENT)"
  by (simp_all add: disk_env_def)

lemmas reach_env =
  numeral_2_eq_2 [symmetric] LOG_BLOCK_SIZE_def EROFS_SUPER_MAGIC_V1_def EROFS_BLKSIZ_def disk_env_simps disk_env_opens
  disk_env_mount example_kconfig_simps

lemmas reach_defs =
  erofs_read_superblock_def erofs_read_metabuf_def check_layout_compatibility_def
  erofs_sb_has_sb_chksum_def erofs_superblock_csum_verify_def io_def
  EROFS_FEATURE_COMPAT_SB_CHKSUM_def

text \<open>
  The example states are the states of the mounts that describe them. The mount of the
  plain image without options ends in \<open>mounted_state\<close>. A mount without options runs
  \<open>erofs_read_superblock\<close> in \<open>parsed_state\<close>: the result of the mount is the result of
  that run, and when the run fails the mount leaves the state that the run leaves. For an
  image with the device-table feature, that run of \<open>erofs_read_superblock\<close> ends with
  \<open>erofs_init_devices\<close> in \<open>table_state\<close>. In the same way the mounts with a bootstrap
  file and a blob directory run \<open>erofs_init_devices\<close> in \<open>blob_state\<close> and in
  \<open>blobdir_state\<close>.
\<close>

lemma mounted_state_reached:
  "erofs_fill_super example_kconfig (disk_env (example_block0 0 0 0 0) (Inl EIO) 0)
     None fresh_state = (Inr (), mounted_state)"
  by (simp add: sb_defs fill_defs disk_env_def example_dsb_simps example_dsb_rest
      example_defs fresh_state_def Let_def parse_defs EROFS_SUPER_MAGIC_V1_def
      EROFS_BLKSIZ_def)

lemma init_devices_dsb_tail:
  "erofs_init_devices e (example_dsb fc fi nd so @ r) s
     = erofs_init_devices e (example_dsb fc fi nd so) s"
  unfolding erofs_init_devices_def ondisk_extradevs_of_def example_dsb_extra_devices
    example_dsb_devt_slotoff example_dsb_extra_devices [where r = "[]", simplified]
    example_dsb_devt_slotoff [where r = "[]", simplified] ..

lemma parsed_state_reached:
  "fst (erofs_fill_super example_kconfig (disk_env b0 b1 c) None fresh_state)
     = fst (erofs_read_superblock example_kconfig (disk_env b0 b1 c) parsed_state)"
  "fst (erofs_read_superblock example_kconfig (disk_env b0 b1 c) parsed_state) \<noteq> Inr ()
     \<Longrightarrow> snd (erofs_fill_super example_kconfig (disk_env b0 b1 c) None fresh_state)
           = snd (erofs_read_superblock example_kconfig (disk_env b0 b1 c) parsed_state)"
  by (auto simp: fill_defs reach_env
      parsed_state_def fresh_state_def Let_def parse_defs example_kconfig_def
      split: prod.splits sum.splits)

lemma table_state_reached:
  "erofs_read_superblock example_kconfig (disk_env (example_block0 0 8 nd so) b1 c)
       parsed_state
     = erofs_init_devices (disk_env (example_block0 0 8 nd so) b1 c) (example_dsb 0 8 nd so)
         table_state"
  by (simp add: reach_defs reach_env example_dsb_simps example_dsb_rest
      init_devices_dsb_tail parsed_state_def table_state_def Let_def
      parse_defs example_kconfig_def)

lemma blob_state_reached:
  "fst (erofs_fill_super example_kconfig (disk_env (example_block0 0 8 nd so) b1 c)
          (Some ''bootstrap_path=/img,blob_dir_path=/blobs,device=/blob0'') fresh_nodev_state)
     = fst (erofs_init_devices (disk_env (example_block0 0 8 nd so) b1 c)
              (example_dsb 0 8 nd so) blob_state)"
  "fst (erofs_init_devices (disk_env (example_block0 0 8 nd so) b1 c)
          (example_dsb 0 8 nd so) blob_state) \<noteq> Inr ()
     \<Longrightarrow> snd (erofs_fill_super example_kconfig (disk_env (example_block0 0 8 nd so) b1 c)
          (Some ''bootstrap_path=/img,blob_dir_path=/blobs,device=/blob0'') fresh_nodev_state)
         = snd (erofs_init_devices (disk_env (example_block0 0 8 nd so) b1 c)
              (example_dsb 0 8 nd so) blob_state)"
  by (auto simp: fill_defs reach_defs reach_env example_dsb_simps
      example_dsb_rest init_devices_dsb_tail blob_state_def
      fresh_state_def fresh_nodev_state_def Let_def parse_defs example_kconfig_def
      split: prod.splits sum.splits)

lemma blobdir_state_reached:
  "fst (erofs_fill_super example_kconfig (disk_env (example_block0 0 8 nd so) b1 c)
          (Some ''bootstrap_path=/img,blob_dir_path=/blobs'') fresh_nodev_state)
     = fst (erofs_init_devices (disk_env (example_block0 0 8 nd so) b1 c)
              (example_dsb 0 8 nd so) blobdir_state)"
  "fst (erofs_init_devices (disk_env (example_block0 0 8 nd so) b1 c)
          (example_dsb 0 8 nd so) blobdir_state) \<noteq> Inr ()
     \<Longrightarrow> snd (erofs_fill_super example_kconfig (disk_env (example_block0 0 8 nd so) b1 c)
          (Some ''bootstrap_path=/img,blob_dir_path=/blobs'') fresh_nodev_state)
         = snd (erofs_init_devices (disk_env (example_block0 0 8 nd so) b1 c)
              (example_dsb 0 8 nd so) blobdir_state)"
  by (auto simp: fill_defs reach_defs reach_env example_dsb_simps
      example_dsb_rest init_devices_dsb_tail blobdir_state_def
      fresh_state_def fresh_nodev_state_def Let_def parse_defs example_kconfig_def
      split: prod.splits sum.splits)



lemma add_blob_io:
  assumes "add_blob e pos s = (Inr u, s1)" and "read_metabuf e (erofs_blknr pos) = Inr ptr"
  shows "io_log s1 = io_log s @ [IO_read_metabuf (erofs_blknr pos),
           IO_file_open_root (blob_dir (EROFS_SB s))
             (blob_id_of (drop (erofs_blkoff pos) ptr))]"
  using assms
  by (auto simp: add_blob_def erofs_read_metabuf_def kmalloc_def io_def SBI_def Let_def
      split: sum.splits bool.splits)

lemma add_blob_io_mono: "set (io_log s) \<subseteq> set (io_log (snd (add_blob e pos s)))"
  by (auto simp: add_blob_def erofs_read_metabuf_def kmalloc_def io_def SBI_def Let_def
      split: sum.splits bool.splits)

lemma blob_loop_io_mono: "set (io_log s) \<subseteq> set (io_log (snd (blob_loop e n pos s)))"
proof (induction e n pos s rule: blob_loop.induct)
  case (1 e n pos s)
  show ?case
  proof (cases "extra_devices (devs (EROFS_SB s)) < n")
    case False
    then show ?thesis by (subst blob_loop.simps) simp
  next
    case True
    obtain r0 s0 where ab: "add_blob e pos s = (r0, s0)"
      by (cases "add_blob e pos s") auto
    from add_blob_io_mono [of s e pos] ab have m0: "set (io_log s) \<subseteq> set (io_log s0)"
      by simp
    show ?thesis
    proof (cases r0)
      case (Inl err)
      with True ab m0 show ?thesis by (subst blob_loop.simps) simp
    next
      case (Inr u)
      from "1.IH" [OF True ab [symmetric] Inr]
      have "set (io_log s0) \<subseteq> set (io_log (snd (blob_loop e n (pos + EROFS_DEVT_SLOT_SIZE) s0)))" .
      with True ab Inr m0 show ?thesis by (subst blob_loop.simps) auto
    qed
  qed
qed

text \<open>
  A run of the \<^verbatim>\<open>while\<close> loop that succeeds has opened, for each of its rounds, the file
  named by the identifier of the round's slot.
\<close>

lemma blob_loop_opens:
  "blob_loop e n pos s = (Inr u, s1) \<Longrightarrow> i < n - extra_devices (devs (EROFS_SB s)) \<Longrightarrow>
   read_metabuf e (erofs_blknr (pos + i * EROFS_DEVT_SLOT_SIZE)) = Inr ptr \<Longrightarrow>
     IO_file_open_root (blob_dir (EROFS_SB s))
        (blob_id_of (drop (erofs_blkoff (pos + i * EROFS_DEVT_SLOT_SIZE)) ptr))
       \<in> set (io_log s1)"
proof (induction e n pos s arbitrary: s1 i rule: blob_loop.induct)
  case (1 e n pos s)
  from "1.prems"(2) have True: "extra_devices (devs (EROFS_SB s)) < n" by simp
  obtain r0 s0 where ab: "add_blob e pos s = (r0, s0)"
    by (cases "add_blob e pos s") auto
  from "1.prems"(1) True ab have r0: "r0 = Inr ()"
    by (subst (asm) blob_loop.simps) (auto split: sum.splits)
  from "1.prems"(1) True ab r0
  have rec: "blob_loop e n (pos + EROFS_DEVT_SLOT_SIZE) s0 = (Inr u, s1)"
    by (subst (asm) blob_loop.simps) auto
  from add_blob_success [of e pos s "()" s0] ab r0
  have ex: "extra_devices (devs (EROFS_SB s0)) = Suc (extra_devices (devs (EROFS_SB s)))"
    and bd: "blob_dir (EROFS_SB s0) = blob_dir (EROFS_SB s)"
    by auto
  show ?case
  proof (cases i)
    case 0
    with "1.prems"(3) have rd: "read_metabuf e (erofs_blknr pos) = Inr ptr" by simp
    from add_blob_io [OF ab [unfolded r0] rd]
    have "IO_file_open_root (blob_dir (EROFS_SB s)) (blob_id_of (drop (erofs_blkoff pos) ptr))
            \<in> set (io_log s0)" by simp
    moreover from blob_loop_io_mono [of s0 e n "pos + EROFS_DEVT_SLOT_SIZE"] rec
    have "set (io_log s0) \<subseteq> set (io_log s1)" by simp
    ultimately show ?thesis using 0 by auto
  next
    case (Suc i')
    from "1.prems"(2) ex Suc have lt: "i' < n - extra_devices (devs (EROFS_SB s0))" by simp
    from "1.prems"(3) Suc
    have rd: "read_metabuf e (erofs_blknr (pos + EROFS_DEVT_SLOT_SIZE + i' * EROFS_DEVT_SLOT_SIZE))
                = Inr ptr"
      by (simp add: ac_simps)
    from "1.IH" [OF True ab [symmetric] r0 rec lt rd]
    show ?thesis unfolding bd Suc by (simp add: ac_simps)
  qed
qed

text \<open>
  In blob-directory mode with slots missing from the mount options, a resolution that
  succeeds ends with a successful run of the \<^verbatim>\<open>while\<close> loop from the first missing slot.
\<close>

lemma init_devices_blob_run:
  assumes n: "extra_devices (devs (EROFS_SB s)) = length (tree (devs (EROFS_SB s)))"
    and lt: "extra_devices (devs (EROFS_SB s)) < ondisk_extradevs_of (EROFS_SB s) dsb"
    and bd: "blob_dir_path (EROFS_SB s) \<noteq> None"
    and ok: "erofs_init_devices e dsb s = (Inr (), s1)"
  shows "\<exists>s4. blob_loop e (ondisk_extradevs_of (EROFS_SB s) dsb)
                 (slot_pos dsb (extra_devices (devs (EROFS_SB s)))) s4 = (Inr (), s1)
              \<and> extra_devices (devs (EROFS_SB s4)) = extra_devices (devs (EROFS_SB s))
              \<and> blob_dir (EROFS_SB s4) = blob_dir (EROFS_SB s)"
proof -
  let ?N = "ondisk_extradevs_of (EROFS_SB s) dsb"
  let ?n = "extra_devices (devs (EROFS_SB s))"
  define s2 where "s2 =
    SBI (device_id_mask_update (\<lambda>_. of_nat (roundup_pow_of_two (Suc ?N) - Suc 0)))
      (SBI (\<lambda>i. i\<lparr>total_blocks := ucast (primarydevice_blocks i)\<rparr>) s)"
  define pos where "pos = unat (le16_to_cpu (dsb_devt_slotoff dsb)) * EROFS_DEVT_SLOT_SIZE"
  have s2_frame: "devs (EROFS_SB s2) = devs (EROFS_SB s)"
    "blob_dir (EROFS_SB s2) = blob_dir (EROFS_SB s)"
    by (simp_all add: s2_def SBI_def)
  obtain x difs pos1 s3
    where lp: "init_devices_loop e (tree (devs (EROFS_SB s))) pos s2 = (x, difs, pos1, s3)"
    by (cases "init_devices_loop e (tree (devs (EROFS_SB s))) pos s2") auto
  define s4 where "s4 = SBI (\<lambda>i. i\<lparr>devs := (devs i)\<lparr>tree := difs\<rparr>\<rparr>) s3"
  have run: "erofs_init_devices e dsb s =
      (case x of Goto_err_out err \<Rightarrow> (Inl err, s4)
               | Break err \<Rightarrow> blob_loop e ?N pos1 s4
               | Next \<Rightarrow> blob_loop e ?N pos1 s4)"
    using lt bd lp
    by (auto simp: erofs_init_devices_def Let_def EROFS_SB_SBI
        ondisk_extradevs_of_total_blocks s2_frame
        s2_def [symmetric] pos_def [symmetric] s4_def split: loop_exit.splits)
  note lprops = init_devices_loop_props [OF lp]
  have s4: "extra_devices (devs (EROFS_SB s4)) = ?n"
    "blob_dir (EROFS_SB s4) = blob_dir (EROFS_SB s)"
    using lprops s2_frame by (simp_all add: s4_def SBI_def)
  have next_exit: "x = Next"
  proof (cases x)
    case Next
    then show ?thesis .
  next
    case (Break err)
    with lprops have "read_metabuf e (erofs_blknr pos1) = Inl err" by simp
    from blob_loop_read_fails [OF this, of s4 ?N] lt s4
    have "fst (blob_loop e ?N pos1 s4) = Inl err" by simp
    with ok run Break show ?thesis by simp
  next
    case (Goto_err_out err)
    with ok run show ?thesis by simp
  qed
  with lprops n have pos1: "pos1 = slot_pos dsb ?n"
    by (simp add: slot_pos_def pos_def)
  from ok run next_exit have bl: "blob_loop e ?N (slot_pos dsb ?n) s4 = (Inr (), s1)"
    by (simp add: pos1)
  with s4 show ?thesis by blast
qed

text \<open>
  One round of the \<^verbatim>\<open>while\<close> loop at a slot whose identifier fills the \<^verbatim>\<open>userdata\<close>
  field: the two allocations, then the open of the file named by the whole field.
\<close>

lemma blob_loop_full_width:
  assumes len: "length ud = sizeof_userdata" and nz: "0 \<notin> set ud"
    and rd: "read_metabuf e (erofs_blknr pos) = Inr ptr"
    and dis: "drop (erofs_blkoff pos) ptr = ud @ rest"
    and lt: "extra_devices (devs (EROFS_SB s)) < n"
  shows "blob_loop e n pos s =
     (if \<not> kmalloc_ok e (nalloc s) then
        (Inl ENOMEM, s\<lparr>nalloc := Suc (nalloc s),
                        io_log := io_log s @ [IO_read_metabuf (erofs_blknr pos)]\<rparr>)
      else if \<not> kmalloc_ok e (Suc (nalloc s)) then
        (Inl ENOMEM, s\<lparr>nalloc := Suc (Suc (nalloc s)),
                        io_log := io_log s @ [IO_read_metabuf (erofs_blknr pos)]\<rparr>)
      else
        (let s1 = s\<lparr>nalloc := Suc (Suc (nalloc s)),
                     io_log := io_log s @ [IO_read_metabuf (erofs_blknr pos),
                       IO_file_open_root (blob_dir (EROFS_SB s)) ud]\<rparr>
         in case file_open_root e (blob_dir (EROFS_SB s)) ud of
              Inl err \<Rightarrow>
                (Inl err,
                 SBI (\<lambda>i. i\<lparr>devs := (devs i)\<lparr>tree := tree (devs i) @ [kzalloc_dif]\<rparr>\<rparr>) s1)
            | Inr f \<Rightarrow>
                blob_loop e n (pos + EROFS_DEVT_SLOT_SIZE)
                  (SBI (\<lambda>i. i\<lparr>devs := (devs i)\<lparr>tree := tree (devs i) @
                                  [kzalloc_dif\<lparr>blobfile := Some f,
                                     blocks := le32_to_cpu (dis_blocks (ud @ rest)),
                                     mapped_blkaddr :=
                                       le32_to_cpu (dis_mapped_blkaddr (ud @ rest))\<rparr>],
                                extra_devices := Suc (extra_devices (devs i))\<rparr>,
                              total_blocks := total_blocks i
                                + ucast (le32_to_cpu (dis_blocks (ud @ rest)))\<rparr>) s1)))"
proof -
  have id: "blob_id_of (ud @ rest) = ud"
    using len nz by (rule blob_id_of_full_width)
  show ?thesis
    using lt
    by (subst blob_loop.simps)
       (simp add: add_blob_def erofs_read_metabuf_def rd dis id kmalloc_def io_def SBI_def
          Let_def split: sum.splits)
qed

text \<open>
  The resolver in blob-directory mode when the mount options name no device and the
  table has one slot: the \<^verbatim>\<open>while\<close> loop runs once, from the first slot.
\<close>

lemma init_devices_single_blob:
  assumes bd: "blob_dir_path (EROFS_SB s) \<noteq> None"
    and tr: "tree (devs (EROFS_SB s)) = []"
    and ex: "extra_devices (devs (EROFS_SB s)) = 0"
    and one: "ondisk_extradevs_of (EROFS_SB s) dsb = 1"
  shows "erofs_init_devices e dsb s =
     blob_loop e 1 (slot_pos dsb 0)
       (SBI (\<lambda>i. i\<lparr>devs := (devs i)\<lparr>tree := []\<rparr>\<rparr>)
          (SBI (\<lambda>i. i\<lparr>device_id_mask := of_nat (roundup_pow_of_two (1 + 1) - 1)\<rparr>)
             (SBI (\<lambda>i. i\<lparr>total_blocks := ucast (primarydevice_blocks i)\<rparr>) s)))"
  using assms
  by (auto simp: erofs_init_devices_def Let_def EROFS_SB_SBI ondisk_extradevs_of_total_blocks
      slot_pos_def)

text \<open>
  C10. A slot whose identifier fills the \<^verbatim>\<open>userdata\<close> field without a NUL byte is not
  treated as corrupt. The identifier that the resolver uses is the whole field, whatever
  follows it in the slot. The round of the \<^verbatim>\<open>while\<close> loop for such a slot makes its two
  allocations and opens the file of exactly that name in the blob directory; it fails
  with \<^verbatim>\<open>-ENOMEM\<close> when an allocation fails and with the error of the open when the open
  fails, and in no other case: otherwise the loop goes on to the next slot, with a new
  descriptor that carries the opened file and the slot's block count and mapped address.
  For \<open>erofs_init_devices\<close> in blob-directory mode: when it succeeds, that file has been
  opened and the descriptor of the slot is the one of the opened file; and when the mount
  options name no device and the table has this one slot, it succeeds exactly when the
  allocations and the open do.
\<close>

theorem full_width_blob_id_opened:
  assumes len: "length ud = sizeof_userdata" and nz: "0 \<notin> set ud"
    and rd: "read_metabuf e (erofs_blknr (slot_pos dsb j)) = Inr ptr"
    and dis: "drop (erofs_blkoff (slot_pos dsb j)) ptr = ud @ rest"
  shows "blob_id_of (ud @ rest) = ud
    \<and> (extra_devices (devs (EROFS_SB sj)) < n \<longrightarrow>
        blob_loop e n (slot_pos dsb j) sj =
          (if \<not> kmalloc_ok e (nalloc sj) then
             (Inl ENOMEM,
              sj\<lparr>nalloc := Suc (nalloc sj),
                  io_log := io_log sj @ [IO_read_metabuf (erofs_blknr (slot_pos dsb j))]\<rparr>)
           else if \<not> kmalloc_ok e (Suc (nalloc sj)) then
             (Inl ENOMEM,
              sj\<lparr>nalloc := Suc (Suc (nalloc sj)),
                  io_log := io_log sj @ [IO_read_metabuf (erofs_blknr (slot_pos dsb j))]\<rparr>)
           else
             (let s1 = sj\<lparr>nalloc := Suc (Suc (nalloc sj)),
                           io_log := io_log sj @
                             [IO_read_metabuf (erofs_blknr (slot_pos dsb j)),
                              IO_file_open_root (blob_dir (EROFS_SB sj)) ud]\<rparr>
              in case file_open_root e (blob_dir (EROFS_SB sj)) ud of
                   Inl err \<Rightarrow>
                     (Inl err,
                      SBI (\<lambda>i. i\<lparr>devs := (devs i)\<lparr>tree := tree (devs i) @ [kzalloc_dif]\<rparr>\<rparr>)
                        s1)
                 | Inr f \<Rightarrow>
                     blob_loop e n (slot_pos dsb (Suc j))
                       (SBI (\<lambda>i. i\<lparr>devs := (devs i)\<lparr>tree := tree (devs i) @
                                       [kzalloc_dif\<lparr>blobfile := Some f,
                                          blocks := le32_to_cpu (dis_blocks (ud @ rest)),
                                          mapped_blkaddr :=
                                            le32_to_cpu (dis_mapped_blkaddr (ud @ rest))\<rparr>],
                                     extra_devices := Suc (extra_devices (devs i))\<rparr>,
                                   total_blocks := total_blocks i
                                     + ucast (le32_to_cpu (dis_blocks (ud @ rest)))\<rparr>)
                          s1))))
    \<and> (blob_dir_path (EROFS_SB s) \<noteq> None
        \<and> extra_devices (devs (EROFS_SB s)) = length (tree (devs (EROFS_SB s)))
        \<and> extra_devices (devs (EROFS_SB s)) \<le> j
        \<and> j < ondisk_extradevs_of (EROFS_SB s) dsb
        \<and> fst (erofs_init_devices e dsb s) = Inr ()
       \<longrightarrow> (case file_open_root e (blob_dir (EROFS_SB s)) ud of
              Inl err \<Rightarrow> False
            | Inr f \<Rightarrow>
                length (tree (devs (EROFS_SB (snd (erofs_init_devices e dsb s)))))
                  = ondisk_extradevs_of (EROFS_SB s) dsb
                \<and> tree (devs (EROFS_SB (snd (erofs_init_devices e dsb s)))) ! j
                  = kzalloc_dif\<lparr>blobfile := Some f,
                      blocks := le32_to_cpu (dis_blocks (ud @ rest)),
                      mapped_blkaddr := le32_to_cpu (dis_mapped_blkaddr (ud @ rest))\<rparr>)
           \<and> IO_file_open_root (blob_dir (EROFS_SB s)) ud
               \<in> set (io_log (snd (erofs_init_devices e dsb s))))
    \<and> (blob_dir_path (EROFS_SB s) \<noteq> None
        \<and> tree (devs (EROFS_SB s)) = [] \<and> extra_devices (devs (EROFS_SB s)) = 0
        \<and> ondisk_extradevs_of (EROFS_SB s) dsb = 1 \<and> j = 0
       \<longrightarrow> fst (erofs_init_devices e dsb s) =
             (if \<not> kmalloc_ok e (nalloc s) \<or> \<not> kmalloc_ok e (Suc (nalloc s)) then Inl ENOMEM
              else case file_open_root e (blob_dir (EROFS_SB s)) ud of
                     Inl err \<Rightarrow> Inl err
                   | Inr f \<Rightarrow> Inr ())
           \<and> (kmalloc_ok e (nalloc s) \<and> kmalloc_ok e (Suc (nalloc s))
              \<longrightarrow> io_log (snd (erofs_init_devices e dsb s)) =
                    io_log s @ [IO_read_metabuf (erofs_blknr (slot_pos dsb j)),
                                IO_file_open_root (blob_dir (EROFS_SB s)) ud]))"
proof -
  have id: "blob_id_of (ud @ rest) = ud"
    using len nz by (rule blob_id_of_full_width)
  have nxt: "slot_pos dsb (Suc j) = slot_pos dsb j + EROFS_DEVT_SLOT_SIZE"
    by (simp add: slot_pos_def)
  note round = blob_loop_full_width [OF len nz rd dis]
  have B: "extra_devices (devs (EROFS_SB sj)) < n \<Longrightarrow>
        blob_loop e n (slot_pos dsb j) sj =
          (if \<not> kmalloc_ok e (nalloc sj) then
             (Inl ENOMEM,
              sj\<lparr>nalloc := Suc (nalloc sj),
                  io_log := io_log sj @ [IO_read_metabuf (erofs_blknr (slot_pos dsb j))]\<rparr>)
           else if \<not> kmalloc_ok e (Suc (nalloc sj)) then
             (Inl ENOMEM,
              sj\<lparr>nalloc := Suc (Suc (nalloc sj)),
                  io_log := io_log sj @ [IO_read_metabuf (erofs_blknr (slot_pos dsb j))]\<rparr>)
           else
             (let s1 = sj\<lparr>nalloc := Suc (Suc (nalloc sj)),
                           io_log := io_log sj @
                             [IO_read_metabuf (erofs_blknr (slot_pos dsb j)),
                              IO_file_open_root (blob_dir (EROFS_SB sj)) ud]\<rparr>
              in case file_open_root e (blob_dir (EROFS_SB sj)) ud of
                   Inl err \<Rightarrow>
                     (Inl err,
                      SBI (\<lambda>i. i\<lparr>devs := (devs i)\<lparr>tree := tree (devs i) @ [kzalloc_dif]\<rparr>\<rparr>)
                        s1)
                 | Inr f \<Rightarrow>
                     blob_loop e n (slot_pos dsb (Suc j))
                       (SBI (\<lambda>i. i\<lparr>devs := (devs i)\<lparr>tree := tree (devs i) @
                                       [kzalloc_dif\<lparr>blobfile := Some f,
                                          blocks := le32_to_cpu (dis_blocks (ud @ rest)),
                                          mapped_blkaddr :=
                                            le32_to_cpu (dis_mapped_blkaddr (ud @ rest))\<rparr>],
                                     extra_devices := Suc (extra_devices (devs i))\<rparr>,
                                   total_blocks := total_blocks i
                                     + ucast (le32_to_cpu (dis_blocks (ud @ rest)))\<rparr>)
                          s1)))"
    unfolding nxt by (rule round)
  have C: "(case file_open_root e (blob_dir (EROFS_SB s)) ud of
              Inl err \<Rightarrow> False
            | Inr f \<Rightarrow>
                length (tree (devs (EROFS_SB (snd (erofs_init_devices e dsb s)))))
                  = ondisk_extradevs_of (EROFS_SB s) dsb
                \<and> tree (devs (EROFS_SB (snd (erofs_init_devices e dsb s)))) ! j
                  = kzalloc_dif\<lparr>blobfile := Some f,
                      blocks := le32_to_cpu (dis_blocks (ud @ rest)),
                      mapped_blkaddr := le32_to_cpu (dis_mapped_blkaddr (ud @ rest))\<rparr>)
           \<and> IO_file_open_root (blob_dir (EROFS_SB s)) ud
               \<in> set (io_log (snd (erofs_init_devices e dsb s)))"
    if bd: "blob_dir_path (EROFS_SB s) \<noteq> None"
      and n: "extra_devices (devs (EROFS_SB s)) = length (tree (devs (EROFS_SB s)))"
      and le: "extra_devices (devs (EROFS_SB s)) \<le> j"
      and jN: "j < ondisk_extradevs_of (EROFS_SB s) dsb"
      and ok: "fst (erofs_init_devices e dsb s) = Inr ()"
  proof -
    let ?N = "ondisk_extradevs_of (EROFS_SB s) dsb"
    let ?n = "extra_devices (devs (EROFS_SB s))"
    let ?s1 = "snd (erofs_init_devices e dsb s)"
    from le jN have lt: "?n < ?N" by simp
    from ok have ok': "erofs_init_devices e dsb s = (Inr (), ?s1)"
      by (cases "erofs_init_devices e dsb s") simp
    from init_devices_blob_success [OF n lt bd ok']
    have length: "length (tree (devs (EROFS_SB ?s1))) = ?N"
      and mp: "map Some (drop ?n (tree (devs (EROFS_SB ?s1))))
        = map (\<lambda>j. blob_device e (blob_dir (EROFS_SB s)) (slot_pos dsb j)) [?n..<?N]"
      by simp_all
    have "map Some (drop ?n (tree (devs (EROFS_SB ?s1)))) ! (j - ?n)
        = map (\<lambda>j. blob_device e (blob_dir (EROFS_SB s)) (slot_pos dsb j)) [?n..<?N] ! (j - ?n)"
      unfolding mp ..
    with le jN length
    have dev: "Some (tree (devs (EROFS_SB ?s1)) ! j)
        = blob_device e (blob_dir (EROFS_SB s)) (slot_pos dsb j)"
      by simp
    have desc: "(case file_open_root e (blob_dir (EROFS_SB s)) ud of
              Inl err \<Rightarrow> False
            | Inr f \<Rightarrow>
                length (tree (devs (EROFS_SB ?s1))) = ?N
                \<and> tree (devs (EROFS_SB ?s1)) ! j
                  = kzalloc_dif\<lparr>blobfile := Some f,
                      blocks := le32_to_cpu (dis_blocks (ud @ rest)),
                      mapped_blkaddr := le32_to_cpu (dis_mapped_blkaddr (ud @ rest))\<rparr>)"
      using dev length
      by (auto simp: blob_device_def rd dis id Let_def split: sum.splits)
    from init_devices_blob_run [OF n lt bd ok'] obtain s4
      where bl: "blob_loop e ?N (slot_pos dsb ?n) s4 = (Inr (), ?s1)"
        and e4: "extra_devices (devs (EROFS_SB s4)) = ?n"
        and b4: "blob_dir (EROFS_SB s4) = blob_dir (EROFS_SB s)"
      by blast
    have pj: "slot_pos dsb ?n + (j - ?n) * EROFS_DEVT_SLOT_SIZE = slot_pos dsb j"
      using le by (simp add: slot_pos_def algebra_simps)
    from le jN e4 have i: "j - ?n < ?N - extra_devices (devs (EROFS_SB s4))" by simp
    from blob_loop_opens [OF bl i, unfolded pj, OF rd]
    have "IO_file_open_root (blob_dir (EROFS_SB s)) ud \<in> set (io_log ?s1)"
      by (simp add: dis id b4)
    with desc show ?thesis by simp
  qed
  have D: "fst (erofs_init_devices e dsb s) =
             (if \<not> kmalloc_ok e (nalloc s) \<or> \<not> kmalloc_ok e (Suc (nalloc s)) then Inl ENOMEM
              else case file_open_root e (blob_dir (EROFS_SB s)) ud of
                     Inl err \<Rightarrow> Inl err
                   | Inr f \<Rightarrow> Inr ())
           \<and> (kmalloc_ok e (nalloc s) \<and> kmalloc_ok e (Suc (nalloc s))
              \<longrightarrow> io_log (snd (erofs_init_devices e dsb s)) =
                    io_log s @ [IO_read_metabuf (erofs_blknr (slot_pos dsb j)),
                                IO_file_open_root (blob_dir (EROFS_SB s)) ud])"
    if bd: "blob_dir_path (EROFS_SB s) \<noteq> None"
      and tr: "tree (devs (EROFS_SB s)) = []"
      and ex: "extra_devices (devs (EROFS_SB s)) = 0"
      and one: "ondisk_extradevs_of (EROFS_SB s) dsb = 1"
      and j0: "j = 0"
  proof -
    define s2 where "s2 =
      SBI (\<lambda>i. i\<lparr>devs := (devs i)\<lparr>tree := []\<rparr>\<rparr>)
        (SBI (\<lambda>i. i\<lparr>device_id_mask := of_nat (roundup_pow_of_two (1 + 1) - 1)\<rparr>)
           (SBI (\<lambda>i. i\<lparr>total_blocks := ucast (primarydevice_blocks i)\<rparr>) s))"
    have run: "erofs_init_devices e dsb s = blob_loop e 1 (slot_pos dsb 0) s2"
      unfolding s2_def by (rule init_devices_single_blob [OF bd tr ex one])
    have e2: "extra_devices (devs (EROFS_SB s2)) = 0"
      and b2: "blob_dir (EROFS_SB s2) = blob_dir (EROFS_SB s)"
      and n2: "nalloc s2 = nalloc s" and l2: "io_log s2 = io_log s"
      using ex by (simp_all add: s2_def SBI_def)
    from e2 have lt: "extra_devices (devs (EROFS_SB s2)) < 1" by simp
    show ?thesis
      unfolding run j0
      by (subst blob_loop_full_width [OF len nz rd [unfolded j0] dis [unfolded j0] lt],
          subst blob_loop_full_width [OF len nz rd [unfolded j0] dis [unfolded j0] lt])
         (simp add: e2 b2 n2 l2 Let_def SBI_def blob_loop.simps split: sum.splits)
  qed
  show ?thesis using id B C D by blast
qed

lemma example_full_width_slot:
  "example_table [example_slot (replicate 64 97) 5 9]
     = replicate 64 97 @ [5, 0, 0, 0] @ [9, 0, 0, 0] @ replicate 56 0 @ replicate 3968 0"
  "drop 128 (example_table [example_slot [] 50 100, example_slot (replicate 64 97) 5 9])
     = replicate 64 97 @ [5, 0, 0, 0] @ [9, 0, 0, 0] @ replicate 56 0 @ replicate 3840 0"
  by (simp_all add: example_table_def example_slot_def)

lemma full_width_slot_fields:
  "le32_to_cpu (dis_blocks (replicate 64 97 @ 5 # 0 # 0 # 0 # 9 # 0 # 0 # 0 # r)) = 5"
  "le32_to_cpu (dis_mapped_blkaddr (replicate 64 97 @ 5 # 0 # 0 # 0 # 9 # 0 # 0 # 0 # r)) = 9"
  by (simp_all add: dis_blocks_def dis_mapped_blkaddr_def field_def le32_to_cpu_def)

lemma example_slot_pos:
  "slot_pos (example_dsb fc fi nd 32) 0 = 4096"
  "slot_pos (example_dsb fc fi nd 32) 1 = 4224"
  "slot_pos (example_dsb fc fi nd 32) (Suc 0) = 4224"
  "erofs_blknr 4096 = 1" "erofs_blkoff 4096 = 0"
  "erofs_blknr 4224 = 1" "erofs_blkoff 4224 = 128"
  by (simp_all add: slot_pos_def example_dsb_simps0 EROFS_DEVT_SLOT_SIZE_def erofs_blknr_def
      erofs_blkoff_def EROFS_BLKSIZ_def LOG_BLOCK_SIZE_def)

lemma example_ondisk:
  "ondisk_extradevs_of (EROFS_SB blobdir_state) (example_dsb 0 8 1 32) = 1"
  "ondisk_extradevs_of (EROFS_SB blob_state) (example_dsb 0 8 2 32) = 2"
  by (simp_all add: ondisk_extradevs_of_def erofs_sb_has_device_table_def
      EROFS_FEATURE_INCOMPAT_DEVICE_TABLE_def example_dsb_simps0 blobdir_state_simps
      blob_state_simps)

text \<open>
  A resolution in blob-directory mode whose second slot has a full-width identifier:
  the first device is the one of the mount options.
\<close>

lemma full_width_resolution_example:
  "fst (erofs_init_devices
          (disk_env (example_block0 0 8 2 32)
             (Inr (example_table [example_slot [] 50 100,
                                  example_slot (replicate 64 97) 5 9])) 0)
          (example_dsb 0 8 2 32) blob_state) = Inr ()"
  by (simp add: erofs_init_devices_def ondisk_extradevs_of_def erofs_sb_has_device_table_def
      EROFS_FEATURE_INCOMPAT_DEVICE_TABLE_def example_dsb_simps0 EROFS_SB_SBI blob_state_simps
      Let_def init_device_def add_blob_def blob_loop.simps erofs_read_metabuf_def io_def
      kmalloc_def disk_env_simps disk_env_opens erofs_blknr_def erofs_blkoff_def
      EROFS_BLKSIZ_def LOG_BLOCK_SIZE_def EROFS_DEVT_SLOT_SIZE_def example_table_two
      length_example_slot example_slot_blocks example_slot_mapped_blkaddr
      blob_id_of_example_slot kzalloc_dif_def SBI_def)

theorem full_width_blob_id_opened_witness:
  "length (replicate 64 (97 :: u8)) = sizeof_userdata
   \<and> (0 :: u8) \<notin> set (replicate 64 97)
   \<and> read_metabuf
        (disk_env (example_block0 0 8 1 32)
           (Inr (example_table [example_slot (replicate 64 97) 5 9])) 0)
        (erofs_blknr (slot_pos (example_dsb 0 8 1 32) 0))
      = Inr (example_table [example_slot (replicate 64 97) 5 9])
   \<and> drop (erofs_blkoff (slot_pos (example_dsb 0 8 1 32) 0))
        (example_table [example_slot (replicate 64 97) 5 9])
      = replicate 64 97 @ [5, 0, 0, 0] @ [9, 0, 0, 0] @ replicate 56 0 @ replicate 3968 0
   \<and> blob_id_of
        (replicate 64 97 @ [5, 0, 0, 0] @ [9, 0, 0, 0] @ replicate 56 0 @ replicate 3968 0)
      = replicate 64 97
   \<and> blob_dir_path (EROFS_SB blobdir_state) \<noteq> None
   \<and> tree (devs (EROFS_SB blobdir_state)) = []
   \<and> extra_devices (devs (EROFS_SB blobdir_state)) = 0
   \<and> ondisk_extradevs_of (EROFS_SB blobdir_state) (example_dsb 0 8 1 32) = 1
   \<and> fst (blob_loop
        (disk_env (example_block0 0 8 1 32)
           (Inr (example_table [example_slot (replicate 64 97) 5 9])) 0)
        1 (slot_pos (example_dsb 0 8 1 32) 0) blobdir_state) = Inr ()
   \<and> fst (erofs_init_devices
        (disk_env (example_block0 0 8 1 32)
           (Inr (example_table [example_slot (replicate 64 97) 5 9])) 0)
        (example_dsb 0 8 1 32) blobdir_state) = Inr ()
   \<and> tree (devs (EROFS_SB (snd (erofs_init_devices
        (disk_env (example_block0 0 8 1 32)
           (Inr (example_table [example_slot (replicate 64 97) 5 9])) 0)
        (example_dsb 0 8 1 32) blobdir_state)))) ! 0
      = \<lparr>path = None, bdev = None, blobfile = Some 20, blocks = 5, mapped_blkaddr = 9\<rparr>
   \<and> io_log (snd (erofs_init_devices
        (disk_env (example_block0 0 8 1 32)
           (Inr (example_table [example_slot (replicate 64 97) 5 9])) 0)
        (example_dsb 0 8 1 32) blobdir_state))
      = [IO_filp_open (Some ''/img''), IO_kern_path ''/blobs'', IO_read_metabuf 0,
         IO_read_metabuf 1, IO_file_open_root (Some 7) (replicate 64 97)]
   \<and> fst (erofs_init_devices
        ((disk_env (example_block0 0 8 1 32)
           (Inr (example_table [example_slot (replicate 64 97) 5 9])) 0)
           \<lparr>file_open_root := \<lambda>d n. Inl ENOENT\<rparr>)
        (example_dsb 0 8 1 32) blobdir_state) = Inl ENOENT
   \<and> extra_devices (devs (EROFS_SB blob_state)) \<le> 1
   \<and> 1 < ondisk_extradevs_of (EROFS_SB blob_state) (example_dsb 0 8 2 32)
   \<and> fst (erofs_init_devices
        (disk_env (example_block0 0 8 2 32)
           (Inr (example_table [example_slot [] 50 100,
                                example_slot (replicate 64 97) 5 9])) 0)
        (example_dsb 0 8 2 32) blob_state) = Inr ()
   \<and> tree (devs (EROFS_SB (snd (erofs_init_devices
        (disk_env (example_block0 0 8 2 32)
           (Inr (example_table [example_slot [] 50 100,
                                example_slot (replicate 64 97) 5 9])) 0)
        (example_dsb 0 8 2 32) blob_state)))) ! 1
      = \<lparr>path = None, bdev = None, blobfile = Some 20, blocks = 5, mapped_blkaddr = 9\<rparr>
   \<and> IO_file_open_root (Some 7) (replicate 64 97)
        \<in> set (io_log (snd (erofs_init_devices
        (disk_env (example_block0 0 8 2 32)
           (Inr (example_table [example_slot [] 50 100,
                                example_slot (replicate 64 97) 5 9])) 0)
        (example_dsb 0 8 2 32) blob_state)))"
proof -
  let ?ud = "replicate 64 (97 :: u8)"
  let ?t1 = "example_table [example_slot ?ud 5 9]"
  let ?t2 = "example_table [example_slot [] 50 100, example_slot ?ud 5 9]"
  let ?e1 = "disk_env (example_block0 0 8 1 32) (Inr ?t1) 0"
  let ?e2 = "?e1\<lparr>file_open_root := \<lambda>d n. Inl ENOENT\<rparr>"
  let ?e3 = "disk_env (example_block0 0 8 2 32) (Inr ?t2) 0"
  let ?r1 = "[5, 0, 0, 0] @ [9, 0, 0, 0] @ replicate 56 0 @ replicate 3968 (0 :: u8)"
  let ?r3 = "[5, 0, 0, 0] @ [9, 0, 0, 0] @ replicate 56 0 @ replicate 3840 (0 :: u8)"
  have len: "length ?ud = sizeof_userdata" by (simp add: sizeof_userdata_def)
  have nz: "0 \<notin> set ?ud" by simp
  have rd1: "read_metabuf ?e1 (erofs_blknr (slot_pos (example_dsb 0 8 1 32) 0)) = Inr ?t1"
    by (simp add: example_slot_pos disk_env_simps)
  have rd2: "read_metabuf ?e2 (erofs_blknr (slot_pos (example_dsb 0 8 1 32) 0)) = Inr ?t1"
    by (simp add: example_slot_pos disk_env_simps)
  have dis1: "drop (erofs_blkoff (slot_pos (example_dsb 0 8 1 32) 0)) ?t1 = ?ud @ ?r1"
    by (simp add: example_slot_pos example_full_width_slot)
  have rd3: "read_metabuf ?e3 (erofs_blknr (slot_pos (example_dsb 0 8 2 32) 1)) = Inr ?t2"
    by (simp add: example_slot_pos disk_env_simps)
  have dis3: "drop (erofs_blkoff (slot_pos (example_dsb 0 8 2 32) 1)) ?t2 = ?ud @ ?r3"
    by (simp add: example_slot_pos example_full_width_slot)
  note m1 = full_width_blob_id_opened [OF len nz rd1 dis1,
      where s = blobdir_state and sj = blobdir_state and n = 1]
  note m2 = full_width_blob_id_opened [OF len nz rd2 dis1,
      where s = blobdir_state and sj = blobdir_state and n = 1]
  note m3 = full_width_blob_id_opened [OF len nz rd3 dis3,
      where s = blob_state and sj = blob_state and n = 2]
  have open1: "file_open_root ?e1 (Some 7) ?ud = Inr 20"
    "file_open_root ?e3 (Some 7) ?ud = Inr 20"
    "file_open_root ?e2 (Some 7) ?ud = Inl ENOENT"
    by (simp_all add: disk_env_opens)
  have alloc: "kmalloc_ok ?e1 m" "kmalloc_ok ?e2 m" for m
    by (simp_all add: disk_env_def)
  have c1: "fst (blob_loop ?e1 1 (slot_pos (example_dsb 0 8 1 32) 0) blobdir_state) = Inr ()"
    using m1
    by (simp add: blobdir_state_simps open1 alloc Let_def SBI_def blob_loop.simps)
  have c2: "fst (erofs_init_devices ?e1 (example_dsb 0 8 1 32) blobdir_state) = Inr ()"
    "io_log (snd (erofs_init_devices ?e1 (example_dsb 0 8 1 32) blobdir_state))
      = [IO_filp_open (Some ''/img''), IO_kern_path ''/blobs'', IO_read_metabuf 0,
         IO_read_metabuf 1, IO_file_open_root (Some 7) ?ud]"
    using m1
    by (simp_all add: blobdir_state_simps example_ondisk example_slot_pos open1 alloc)
  have c3: "tree (devs (EROFS_SB (snd (erofs_init_devices ?e1 (example_dsb 0 8 1 32)
        blobdir_state)))) ! 0
      = \<lparr>path = None, bdev = None, blobfile = Some 20, blocks = 5, mapped_blkaddr = 9\<rparr>"
    using m1 c2(1)
    by (simp add: blobdir_state_simps example_ondisk open1 full_width_slot_fields
        kzalloc_dif_def)
  have c4: "fst (erofs_init_devices ?e2 (example_dsb 0 8 1 32) blobdir_state) = Inl ENOENT"
    using m2
    by (simp add: blobdir_state_simps example_ondisk open1 alloc)
  have c5: "tree (devs (EROFS_SB (snd (erofs_init_devices ?e3 (example_dsb 0 8 2 32)
        blob_state)))) ! 1
      = \<lparr>path = None, bdev = None, blobfile = Some 20, blocks = 5, mapped_blkaddr = 9\<rparr>"
    "IO_file_open_root (Some 7) ?ud
        \<in> set (io_log (snd (erofs_init_devices ?e3 (example_dsb 0 8 2 32) blob_state)))"
    using m3 full_width_resolution_example
    by (simp_all add: blob_state_simps example_ondisk open1 full_width_slot_fields
        kzalloc_dif_def)
  show ?thesis
    using len nz rd1 dis1 m1 c1 c2 c3 c4 c5 full_width_resolution_example
    by (simp add: blobdir_state_simps blob_state_simps example_ondisk)
qed

section \<open>Properties of the managed cache\<close>

lemma attempt_page_Suc:
  "attempt_page c k pg (Suc n) =
     attempt_page c (Suc k) (cond_resched c k (snd (erofs_managed_cache_releasepage c pg))) n"
  by simp

lemma release_loop_first_success:
  "(\<forall>m<n. fst (erofs_managed_cache_releasepage c (attempt_page c k pg m)) = 0) \<Longrightarrow>
   fst (erofs_managed_cache_releasepage c (attempt_page c k pg n)) \<noteq> 0 \<Longrightarrow>
   release_loop c k pg = Some (snd (erofs_managed_cache_releasepage c (attempt_page c k pg n)))"
proof (induction n arbitrary: k pg)
  case 0
  then show ?case
    by (subst release_loop.simps) (auto split: prod.splits)
next
  case (Suc n)
  from Suc.prems(1) have first: "fst (erofs_managed_cache_releasepage c pg) = 0"
    by (auto dest: spec [of _ 0])
  let ?pg = "cond_resched c k (snd (erofs_managed_cache_releasepage c pg))"
  have fails: "\<forall>m<n. fst (erofs_managed_cache_releasepage c (attempt_page c (Suc k) ?pg m)) = 0"
  proof (intro allI impI)
    fix m assume "m < n"
    then have "Suc m < Suc n" by simp
    with Suc.prems(1) show "fst (erofs_managed_cache_releasepage c (attempt_page c (Suc k) ?pg m)) = 0"
      by (metis attempt_page_Suc)
  qed
  have succ: "fst (erofs_managed_cache_releasepage c (attempt_page c (Suc k) ?pg n)) \<noteq> 0"
    using Suc.prems(2) by simp
  have "release_loop c k pg = release_loop c (Suc k) ?pg"
    using first by (subst release_loop.simps) (auto split: prod.splits)
  also have "\<dots> = Some (snd (erofs_managed_cache_releasepage c (attempt_page c (Suc k) ?pg n)))"
    by (rule Suc.IH [OF fails succ])
  finally show ?case by simp
qed

lemma release_loop_returns:
  "release_loop c k pg = Some q \<Longrightarrow>
     \<exists>n. (\<forall>m<n. fst (erofs_managed_cache_releasepage c (attempt_page c k pg m)) = 0)
        \<and> fst (erofs_managed_cache_releasepage c (attempt_page c k pg n)) \<noteq> 0
        \<and> q = snd (erofs_managed_cache_releasepage c (attempt_page c k pg n))"
proof (induction rule: release_loop.raw_induct [rotated 1, consumes 1])
  case (1 loop c k pg q)
  obtain ret pg1 where r: "erofs_managed_cache_releasepage c pg = (ret, pg1)"
    by (cases "erofs_managed_cache_releasepage c pg")
  show ?case
  proof (cases "ret = 0")
    case False
    with 1(2) r have "q = pg1" by simp
    with r False show ?thesis
      by (intro exI [of _ 0]) simp
  next
    case True
    with 1(2) r have "loop c (Suc k) (cond_resched c k pg1) = Some q" by simp
    from 1(1) [OF this] obtain n
      where f: "\<forall>m<n. fst (erofs_managed_cache_releasepage c
                  (attempt_page c (Suc k) (cond_resched c k pg1) m)) = 0"
        and s: "fst (erofs_managed_cache_releasepage c
                  (attempt_page c (Suc k) (cond_resched c k pg1) n)) \<noteq> 0"
        and q: "q = snd (erofs_managed_cache_releasepage c
                  (attempt_page c (Suc k) (cond_resched c k pg1) n))"
      by auto
    have "\<forall>m<Suc n. fst (erofs_managed_cache_releasepage c (attempt_page c k pg m)) = 0"
    proof (intro allI impI)
      fix m assume m: "m < Suc n"
      show "fst (erofs_managed_cache_releasepage c (attempt_page c k pg m)) = 0"
      proof (cases m)
        case 0
        with r True show ?thesis by simp
      next
        case (Suc m')
        with m f r show ?thesis by simp
      qed
    qed
    with s q r show ?thesis
      by (intro exI [of _ "Suc n"]) simp
  qed
qed


text \<open>
  C8. Invalidating the whole page (offset 0, length \<^verbatim>\<open>PAGE_SIZE\<close>) returns exactly when
  some release attempt succeeds, all earlier attempts having failed with a
  \<^verbatim>\<open>cond_resched()\<close> after each; the page it returns with is the one the successful
  attempt left, and when no attempt ever succeeds it does not return. Provided a
  successful \<^verbatim>\<open>erofs_try_to_free_cached_page\<close> clears \<^verbatim>\<open>PagePrivate\<close>, the page has no
  backing state attached on return and a further release attempt succeeds. An
  invalidation that does not cover the whole page returns at once and leaves the page
  alone.
\<close>

theorem invalidatepage_full_cover:
  "(erofs_managed_cache_invalidatepage c pg 0 PAGE_SIZE = Some q
      \<longleftrightarrow> (\<exists>n. (\<forall>m<n. fst (erofs_managed_cache_releasepage c (attempt_page c 0 pg m)) = 0)
               \<and> fst (erofs_managed_cache_releasepage c (attempt_page c 0 pg n)) \<noteq> 0
               \<and> q = snd (erofs_managed_cache_releasepage c (attempt_page c 0 pg n))))
   \<and> ((\<forall>p. fst (erofs_try_to_free_cached_page c p) \<noteq> 0
              \<longrightarrow> \<not> PagePrivate (snd (erofs_try_to_free_cached_page c p)))
        \<and> erofs_managed_cache_invalidatepage c pg 0 PAGE_SIZE = Some q
      \<longrightarrow> \<not> PagePrivate q \<and> erofs_managed_cache_releasepage c q = (1, q))
   \<and> (\<not> (offset = 0 \<and> len + offset = PAGE_SIZE)
      \<longrightarrow> erofs_managed_cache_invalidatepage c pg offset len = Some pg)"
proof -
  have full: "erofs_managed_cache_invalidatepage c pg 0 PAGE_SIZE = release_loop c 0 pg"
    by (simp add: erofs_managed_cache_invalidatepage_def)
  have iff: "erofs_managed_cache_invalidatepage c pg 0 PAGE_SIZE = Some q
      \<longleftrightarrow> (\<exists>n. (\<forall>m<n. fst (erofs_managed_cache_releasepage c (attempt_page c 0 pg m)) = 0)
               \<and> fst (erofs_managed_cache_releasepage c (attempt_page c 0 pg n)) \<noteq> 0
               \<and> q = snd (erofs_managed_cache_releasepage c (attempt_page c 0 pg n)))"
    unfolding full
    using release_loop_returns [of c 0 pg q] release_loop_first_success [of _ c 0 pg]
    by blast
  have clean: "\<not> PagePrivate q \<and> erofs_managed_cache_releasepage c q = (1, q)"
    if contract: "\<forall>p. fst (erofs_try_to_free_cached_page c p) \<noteq> 0
              \<longrightarrow> \<not> PagePrivate (snd (erofs_try_to_free_cached_page c p))"
      and ret: "erofs_managed_cache_invalidatepage c pg 0 PAGE_SIZE = Some q"
  proof -
    from ret iff obtain p where p: "fst (erofs_managed_cache_releasepage c p) \<noteq> 0"
      "q = snd (erofs_managed_cache_releasepage c p)" by blast
    have "\<not> PagePrivate q"
    proof (cases "PagePrivate p")
      case True
      with p contract show ?thesis by (simp add: erofs_managed_cache_releasepage_def)
    next
      case False
      with p show ?thesis by (simp add: erofs_managed_cache_releasepage_def)
    qed
    then show ?thesis by (simp add: erofs_managed_cache_releasepage_def)
  qed
  have part: "erofs_managed_cache_invalidatepage c pg offset len = Some pg"
    if "\<not> (offset = 0 \<and> len + offset = PAGE_SIZE)"
    using that by (auto simp: erofs_managed_cache_invalidatepage_def Let_def)
  show ?thesis using iff clean part by blast
qed

lemma busy_page_invalidated:
  "erofs_managed_cache_invalidatepage busy_env busy_page 0 PAGE_SIZE
     = Some \<lparr>PageLocked = True, PagePrivate = False, page_private = 0\<rparr>"
  unfolding erofs_managed_cache_invalidatepage_def
  apply (simp add: Let_def)
  apply (subst release_loop.simps)
  apply (simp add: erofs_managed_cache_releasepage_def busy_env_def busy_page_def)
  apply (subst release_loop.simps)
  apply (simp add: erofs_managed_cache_releasepage_def busy_env_def busy_page_def)
  apply (subst release_loop.simps)
  apply (simp add: erofs_managed_cache_releasepage_def busy_env_def busy_page_def)
  done

theorem invalidatepage_full_cover_witness:
  "erofs_managed_cache_invalidatepage busy_env busy_page 0 PAGE_SIZE
     = Some \<lparr>PageLocked = True, PagePrivate = False, page_private = 0\<rparr>
   \<and> \<not> PagePrivate \<lparr>PageLocked = True, PagePrivate = False, page_private = 0\<rparr>
   \<and> erofs_managed_cache_releasepage busy_env
        \<lparr>PageLocked = True, PagePrivate = False, page_private = 0\<rparr>
      = (1, \<lparr>PageLocked = True, PagePrivate = False, page_private = 0\<rparr>)
   \<and> \<not> ((8 :: u32) = 0 \<and> 16 + 8 = PAGE_SIZE)
   \<and> erofs_managed_cache_invalidatepage busy_env busy_page 8 16 = Some busy_page"
proof -
  have contract: "\<forall>p. fst (erofs_try_to_free_cached_page busy_env p) \<noteq> 0
              \<longrightarrow> \<not> PagePrivate (snd (erofs_try_to_free_cached_page busy_env p))"
    by (simp add: busy_env_def)
  show ?thesis
    using invalidatepage_full_cover [of busy_env busy_page
        "\<lparr>PageLocked = True, PagePrivate = False, page_private = 0\<rparr>" 8 16]
      contract busy_page_invalidated
    by (simp add: PAGE_SIZE_def)
qed

lemma init_device_next:
  assumes "init_device e dif pos s = (Next, dif1, pos1, s1)"
  shows "dif_fields dif1 = slot_fields e pos
    \<and> total_blocks (EROFS_SB s1) = total_blocks (EROFS_SB s) + ucast (blocks dif1)"
  using assms
  by (auto simp: init_device_def erofs_read_metabuf_def io_def SBI_def Let_def
      dif_fields_def slot_fields_def split: sum.splits if_splits)

lemma init_devices_loop_next:
  "init_devices_loop e difs pos s = (Next, difs1, pos1, s1) \<Longrightarrow>
     map dif_fields difs1
       = map (\<lambda>j. slot_fields e (pos + j * EROFS_DEVT_SLOT_SIZE)) [0..<length difs]
     \<and> total_blocks (EROFS_SB s1) = total_blocks (EROFS_SB s) + sum_blocks difs1"
proof (induction difs arbitrary: pos s difs1 pos1 s1)
  case Nil
  then show ?case by (auto simp: sum_blocks_def)
next
  case (Cons dif difs)
  obtain x0 dif0 pos0 s0 where st: "init_device e dif pos s = (x0, dif0, pos0, s0)"
    by (cases "init_device e dif pos s") auto
  have x0: "x0 = Next"
    using Cons.prems st by (cases x0) (auto split: prod.splits)
  obtain x2 difs2 pos2 s2 where lp: "init_devices_loop e difs pos0 s0 = (x2, difs2, pos2, s2)"
    by (cases "init_devices_loop e difs pos0 s0") auto
  from Cons.prems st x0 lp
  have eq: "x2 = Next" "difs1 = dif0 # difs2" "pos1 = pos2" "s1 = s2" by auto
  from init_device_props [OF st] x0 have p0: "pos0 = pos + EROFS_DEVT_SLOT_SIZE" by simp
  note h = init_device_next [OF st [unfolded x0]]
  note ih = Cons.IH [OF lp [unfolded eq(1)]]
  have "map dif_fields (dif0 # difs2)
       = map (\<lambda>j. slot_fields e (pos + j * EROFS_DEVT_SLOT_SIZE)) [0..<length (dif # difs)]"
    using h ih
    by (simp add: upt_conv_Cons map_Suc_upt [symmetric] p0 ac_simps del: upt_Suc)
  moreover have "total_blocks (EROFS_SB s2) = total_blocks (EROFS_SB s) + sum_blocks (dif0 # difs2)"
    using h ih by (simp add: sum_blocks_def ac_simps)
  ultimately show ?case unfolding eq by simp
qed

lemma add_blob_success_fields:
  assumes "add_blob e pos s = (Inr u, s1)"
  shows "\<exists>dif. tree (devs (EROFS_SB s1)) = tree (devs (EROFS_SB s)) @ [dif]
           \<and> dif_fields dif = slot_fields e pos
           \<and> total_blocks (EROFS_SB s1) = total_blocks (EROFS_SB s) + ucast (blocks dif)"
  using assms
  by (auto simp: add_blob_def erofs_read_metabuf_def kmalloc_def io_def dif_fields_def
      slot_fields_def SBI_def Let_def split: sum.splits bool.splits)

lemma blob_loop_fields:
  "blob_loop e n pos s = (Inr u, s1) \<Longrightarrow> extra_devices (devs (EROFS_SB s)) \<le> n \<Longrightarrow>
     (\<exists>new. tree (devs (EROFS_SB s1)) = tree (devs (EROFS_SB s)) @ new
           \<and> map dif_fields new =
               map (\<lambda>j. slot_fields e (pos + j * EROFS_DEVT_SLOT_SIZE))
                 [0..<n - extra_devices (devs (EROFS_SB s))]
           \<and> total_blocks (EROFS_SB s1) = total_blocks (EROFS_SB s) + sum_blocks new)"
proof (induction e n pos s arbitrary: s1 rule: blob_loop.induct)
  case (1 e n pos s)
  show ?case
  proof (cases "extra_devices (devs (EROFS_SB s)) < n")
    case False
    with "1.prems" show ?thesis
      by (subst (asm) blob_loop.simps) (auto simp: sum_blocks_def)
  next
    case True
    obtain r0 s0 where ab: "add_blob e pos s = (r0, s0)"
      by (cases "add_blob e pos s") auto
    from "1.prems"(1) True ab have r0: "r0 = Inr ()"
      by (subst (asm) blob_loop.simps) (auto split: sum.splits)
    from "1.prems"(1) True ab r0
    have rec: "blob_loop e n (pos + EROFS_DEVT_SLOT_SIZE) s0 = (Inr u, s1)"
      by (subst (asm) blob_loop.simps) auto
    from add_blob_success_fields [of e pos s "()" s0] ab r0
    obtain dif where tr: "tree (devs (EROFS_SB s0)) = tree (devs (EROFS_SB s)) @ [dif]"
      and fl: "dif_fields dif = slot_fields e pos"
      and tb: "total_blocks (EROFS_SB s0) = total_blocks (EROFS_SB s) + ucast (blocks dif)"
      by auto
    from add_blob_extra_devices [of e pos s "()" s0] ab r0
    have ex: "extra_devices (devs (EROFS_SB s0)) = Suc (extra_devices (devs (EROFS_SB s)))"
      by simp
    from ex True have le: "extra_devices (devs (EROFS_SB s0)) \<le> n" by simp
    from "1.IH" [OF True ab [symmetric] r0 rec le]
    obtain new where t1: "tree (devs (EROFS_SB s1)) = tree (devs (EROFS_SB s0)) @ new"
      and m1: "map dif_fields new =
               map (\<lambda>j. slot_fields e (pos + EROFS_DEVT_SLOT_SIZE + j * EROFS_DEVT_SLOT_SIZE))
                 [0..<n - extra_devices (devs (EROFS_SB s0))]"
      and b1: "total_blocks (EROFS_SB s1) = total_blocks (EROFS_SB s0) + sum_blocks new"
      by auto
    have cnt: "n - extra_devices (devs (EROFS_SB s)) = Suc (n - extra_devices (devs (EROFS_SB s0)))"
      using ex True by simp
    have "map dif_fields (dif # new) =
            map (\<lambda>j. slot_fields e (pos + j * EROFS_DEVT_SLOT_SIZE))
              [0..<n - extra_devices (devs (EROFS_SB s))]"
      unfolding cnt
      by (simp add: upt_conv_Cons map_Suc_upt [symmetric] fl m1 ac_simps del: upt_Suc)
    moreover have "total_blocks (EROFS_SB s1) = total_blocks (EROFS_SB s) + sum_blocks (dif # new)"
      using tb b1 by (simp add: sum_blocks_def ac_simps)
    ultimately show ?thesis using t1 tr by auto
  qed
qed


lemma init_devices_loop_break:
  "init_devices_loop e difs pos s = (Break err, difs1, pos1, s1) \<Longrightarrow>
     \<exists>i<length difs. pos1 = pos + i * EROFS_DEVT_SLOT_SIZE"
proof (induction difs arbitrary: pos s difs1 pos1 s1)
  case Nil
  then show ?case by simp
next
  case (Cons dif difs)
  obtain x0 dif0 pos0 s0 where st: "init_device e dif pos s = (x0, dif0, pos0, s0)"
    by (cases "init_device e dif pos s") auto
  note p0 = init_device_props [OF st]
  show ?case
  proof (cases x0)
    case Next
    obtain x2 difs2 pos2 s2 where lp: "init_devices_loop e difs pos0 s0 = (x2, difs2, pos2, s2)"
      by (cases "init_devices_loop e difs pos0 s0") auto
    from Cons.prems st Next lp have eq: "x2 = Break err" "pos1 = pos2" by auto
    from Cons.IH [OF lp [unfolded eq(1)]] obtain i
      where "i < length difs" "pos2 = pos0 + i * EROFS_DEVT_SLOT_SIZE" by auto
    with p0 Next eq show ?thesis
      by (intro exI [of _ "Suc i"]) (simp add: ac_simps)
  next
    case (Break err0)
    with Cons.prems st have "pos1 = pos0" by auto
    with p0 Break show ?thesis by (intro exI [of _ 0]) simp
  next
    case (Goto_err_out err0)
    with Cons.prems st show ?thesis by auto
  qed
qed

text \<open>
  What a successful resolution gives when every slot of the device table can be read
  and the options name no more devices than the disk has: one descriptor per slot, in slot
  order, each with the block count and the mapped address of its slot, and a total of the
  primary device's blocks plus the descriptors' block counts.
\<close>

theorem init_devices_descriptors:
  assumes slots: "\<forall>j<ondisk_extradevs_of (EROFS_SB s) dsb. slot_fields e (slot_pos dsb j) \<noteq> None"
    and n: "extra_devices (devs (EROFS_SB s)) = length (tree (devs (EROFS_SB s)))"
    and le: "extra_devices (devs (EROFS_SB s)) \<le> ondisk_extradevs_of (EROFS_SB s) dsb"
    and ok: "erofs_init_devices e dsb s = (Inr (), s1)"
  shows "length (tree (devs (EROFS_SB s1))) = ondisk_extradevs_of (EROFS_SB s) dsb
    \<and> map dif_fields (tree (devs (EROFS_SB s1)))
        = map (\<lambda>j. slot_fields e (slot_pos dsb j)) [0..<ondisk_extradevs_of (EROFS_SB s) dsb]
    \<and> total_blocks (EROFS_SB s1)
        = ucast (primarydevice_blocks (EROFS_SB s)) + sum_blocks (tree (devs (EROFS_SB s1)))"
proof (cases "ondisk_extradevs_of (EROFS_SB s) dsb = 0")
  case True
  with n le ok init_devices_none [OF True, of e] show ?thesis
    by (auto simp: SBI_def sum_blocks_def split: if_splits)
next
  case False
  let ?N = "ondisk_extradevs_of (EROFS_SB s) dsb"
  let ?n = "extra_devices (devs (EROFS_SB s))"
  have nomis: "\<not> (?N \<noteq> ?n \<and> blob_dir_path (EROFS_SB s) = None)"
    using ok init_devices_mismatch [of s dsb e] by auto
  define s2 where "s2 =
    SBI (device_id_mask_update (\<lambda>_. of_nat (roundup_pow_of_two (Suc ?N) - Suc 0)))
      (SBI (\<lambda>i. i\<lparr>total_blocks := ucast (primarydevice_blocks i)\<rparr>) s)"
  define pos where "pos = unat (le16_to_cpu (dsb_devt_slotoff dsb)) * EROFS_DEVT_SLOT_SIZE"
  have s2_frame: "devs (EROFS_SB s2) = devs (EROFS_SB s)"
    "total_blocks (EROFS_SB s2) = ucast (primarydevice_blocks (EROFS_SB s))"
    by (simp_all add: s2_def SBI_def)
  obtain x difs pos1 s3
    where lp: "init_devices_loop e (tree (devs (EROFS_SB s))) pos s2 = (x, difs, pos1, s3)"
    by (cases "init_devices_loop e (tree (devs (EROFS_SB s))) pos s2") auto
  define s4 where "s4 = SBI (\<lambda>i. i\<lparr>devs := (devs i)\<lparr>tree := difs\<rparr>\<rparr>) s3"
  have run: "erofs_init_devices e dsb s =
      (case x of Goto_err_out err \<Rightarrow> (Inl err, s4)
               | Break err \<Rightarrow> blob_loop e ?N pos1 s4
               | Next \<Rightarrow> blob_loop e ?N pos1 s4)"
    using False nomis lp
    by (auto simp: erofs_init_devices_def Let_def EROFS_SB_SBI
        ondisk_extradevs_of_total_blocks s2_frame
        s2_def [symmetric] pos_def [symmetric] s4_def split: loop_exit.splits)
  note lprops = init_devices_loop_props [OF lp]
  have pos_slot: "pos + i * EROFS_DEVT_SLOT_SIZE = slot_pos dsb i" for i
    by (simp add: slot_pos_def pos_def)
  have next_exit: "x = Next"
  proof (cases x)
    case Next
    then show ?thesis .
  next
    case (Break err)
    from init_devices_loop_break [OF lp [unfolded Break]] obtain i
      where i: "i < ?n" "pos1 = slot_pos dsb i" using n pos_slot by auto
    from lprops Break have "read_metabuf e (erofs_blknr pos1) = Inl err" by simp
    then have none: "slot_fields e (slot_pos dsb i) = None"
      using i by (simp add: slot_fields_def)
    from i le have "i < ?N" by simp
    with slots have "slot_fields e (slot_pos dsb i) \<noteq> None" by blast
    with none show ?thesis by contradiction
  next
    case (Goto_err_out err)
    with ok run show ?thesis by simp
  qed
  note lnext = init_devices_loop_next [OF lp [unfolded next_exit]]
  have len: "length difs = ?n" using lprops n by simp
  have pos1: "pos1 = slot_pos dsb ?n"
    using lprops next_exit n by (simp add: slot_pos_def pos_def)
  have s4: "extra_devices (devs (EROFS_SB s4)) = ?n" "tree (devs (EROFS_SB s4)) = difs"
    "total_blocks (EROFS_SB s4) = total_blocks (EROFS_SB s3)"
    using lprops s2_frame by (simp_all add: s4_def SBI_def)
  from ok run next_exit have bl: "blob_loop e ?N pos1 s4 = (Inr (), s1)" by simp
  from blob_loop_fields [OF bl] le s4
  obtain new where tr: "tree (devs (EROFS_SB s1)) = difs @ new"
    and mp: "map dif_fields new =
               map (\<lambda>j. slot_fields e (pos1 + j * EROFS_DEVT_SLOT_SIZE)) [0..<?N - ?n]"
    and tb: "total_blocks (EROFS_SB s1) = total_blocks (EROFS_SB s3) + sum_blocks new"
    by auto
  have "length (map dif_fields new) = ?N - ?n" unfolding mp by simp
  then have lnew: "length new = ?N - ?n" by simp
  have idx0: "[0..<?N] = [0..<?n] @ [?n..<?N]"
    using le upt_add_eq_append [of 0 ?n "?N - ?n"] by simp
  have idx: "[0..<?N] = [0..<?n] @ map (\<lambda>j. j + ?n) [0..<?N - ?n]"
    using le idx0 by (simp add: map_add_upt)
  have m_new: "map dif_fields new
      = map (\<lambda>j. slot_fields e (slot_pos dsb j)) (map (\<lambda>j. j + ?n) [0..<?N - ?n])"
    unfolding mp by (simp add: pos1 slot_pos_add o_def)
  have m_old: "map dif_fields difs = map (\<lambda>j. slot_fields e (slot_pos dsb j)) [0..<?n]"
    using lnext n by (simp add: pos_slot)
  have fields: "map dif_fields (tree (devs (EROFS_SB s1)))
        = map (\<lambda>j. slot_fields e (slot_pos dsb j)) [0..<?N]"
    unfolding tr idx using m_old m_new by simp
  have total: "total_blocks (EROFS_SB s1)
        = ucast (primarydevice_blocks (EROFS_SB s)) + sum_blocks (tree (devs (EROFS_SB s1)))"
    using lnext tb s2_frame by (simp add: tr sum_blocks_def ac_simps)
  from tr len lnew le have "length (tree (devs (EROFS_SB s1))) = ?N" by simp
  with fields total show ?thesis by simp
qed

section \<open>Further properties\<close>

text \<open>
  What a failed remount does restore: the option flags (\<^verbatim>\<open>mount_opt\<close>) are those from
  before the remount, whatever toggles the option string applied before it failed.
\<close>

theorem remount_failure_restores_mount_opt:
  "fst (erofs_remount k e flags data s) \<noteq> Inr ()
     \<longrightarrow> mount_opt (EROFS_SB (snd (snd (erofs_remount k e flags data s))))
           = mount_opt (EROFS_SB s)"
  by (auto simp: erofs_remount_def Let_def SBI_def split: prod.splits sum.splits)

theorem remount_failure_restores_mount_opt_witness:
  "fst (erofs_remount example_kconfig failing_env 0 (Some ''noacl,nouser_xattr,bogus'')
          mounted_state) \<noteq> Inr ()
   \<and> mount_opt (EROFS_SB (snd (snd (erofs_remount example_kconfig failing_env 0
          (Some ''noacl,nouser_xattr,bogus'') mounted_state)))) = 48
   \<and> mount_opt (EROFS_SB mounted_state) = 48"
  using remount_failure_restores_mount_opt [of example_kconfig failing_env 0
      "Some ''noacl,nouser_xattr,bogus''" mounted_state]
  by (simp add: parse_defs example_defs EROFS_MOUNT_XATTR_USER_def EROFS_MOUNT_POSIX_ACL_def)

lemma all_less_2: "(\<forall>j<(2::nat). P j) = (P 0 \<and> P 1)"
  by (auto simp: less_Suc_eq numeral_2_eq_2)

lemma blob_state_ondisk:
  "ondisk_extradevs_of (EROFS_SB blob_state) (example_dsb 0 8 2 32) = 2"
  by (simp add: ondisk_extradevs_of_def erofs_sb_has_device_table_def
      EROFS_FEATURE_INCOMPAT_DEVICE_TABLE_def example_dsb_simps0 blob_state_simps)

theorem init_devices_descriptors_witness:
  "extra_devices (devs (EROFS_SB blob_state)) = length (tree (devs (EROFS_SB blob_state)))
   \<and> extra_devices (devs (EROFS_SB blob_state))
        \<le> ondisk_extradevs_of (EROFS_SB blob_state) (example_dsb 0 8 2 32)
   \<and> fst (erofs_init_devices
        (disk_env (example_block0 0 8 2 32)
           (Inr (example_table [example_slot [] 50 100,
                                example_slot [98, 108, 111, 98, 49] 30 150])) 0)
        (example_dsb 0 8 2 32) blob_state) = Inr ()
   \<and> map dif_fields (tree (devs (EROFS_SB (snd (erofs_init_devices
        (disk_env (example_block0 0 8 2 32)
           (Inr (example_table [example_slot [] 50 100,
                                example_slot [98, 108, 111, 98, 49] 30 150])) 0)
        (example_dsb 0 8 2 32) blob_state)))))
       = [Some (50, 100), Some (30, 150)]
   \<and> total_blocks (EROFS_SB (snd (erofs_init_devices
        (disk_env (example_block0 0 8 2 32)
           (Inr (example_table [example_slot [] 50 100,
                                example_slot [98, 108, 111, 98, 49] 30 150])) 0)
        (example_dsb 0 8 2 32) blob_state))) = 180"
proof -
  let ?e = "disk_env (example_block0 0 8 2 32)
           (Inr (example_table [example_slot [] 50 100,
                                example_slot [98, 108, 111, 98, 49] 30 150])) 0"
  let ?dsb = "example_dsb 0 8 2 32"
  have slots: "\<forall>j<ondisk_extradevs_of (EROFS_SB blob_state) ?dsb.
                 slot_fields ?e (slot_pos ?dsb j) \<noteq> None"
    unfolding blob_state_ondisk all_less_2
    by (simp add: slot_fields_def slot_pos_def example_dsb_simps0
        erofs_blknr_def EROFS_BLKSIZ_def LOG_BLOCK_SIZE_def EROFS_DEVT_SLOT_SIZE_def
        disk_env_simps)
  obtain s1 where ok: "erofs_init_devices ?e ?dsb blob_state = (Inr (), s1)"
    using blob_resolution_example by (auto split: prod.splits)
  have ex: "tree (devs (EROFS_SB s1)) =
           [\<lparr>path = Some ''/blob0'', bdev = None, blobfile = Some 12, blocks = 50,
             mapped_blkaddr = 100\<rparr>,
            \<lparr>path = None, bdev = None, blobfile = Some 20, blocks = 30,
             mapped_blkaddr = 150\<rparr>]"
    "total_blocks (EROFS_SB s1) = 180"
    using blob_resolution_example unfolding ok by simp_all
  have n: "extra_devices (devs (EROFS_SB blob_state)) = length (tree (devs (EROFS_SB blob_state)))"
    by (simp add: blob_state_simps)
  have le: "extra_devices (devs (EROFS_SB blob_state))
        \<le> ondisk_extradevs_of (EROFS_SB blob_state) ?dsb"
    by (simp add: blob_state_ondisk blob_state_simps)
  from init_devices_descriptors [OF slots n le ok]
  have "length (tree (devs (EROFS_SB s1))) = 2" by (simp add: blob_state_ondisk)
  with n le ex show ?thesis
    unfolding ok by (simp add: dif_fields_def)
qed

lemma init_device_s_flags:
  "init_device e dif pos s = (x, dif1, pos1, s1) \<Longrightarrow> s_flags (sb s1) = s_flags (sb s)"
  by (auto simp: init_device_def erofs_read_metabuf_def io_def SBI_def Let_def
      split: sum.splits if_splits)

lemma init_devices_loop_s_flags:
  "init_devices_loop e difs pos s = (x, difs1, pos1, s1) \<Longrightarrow> s_flags (sb s1) = s_flags (sb s)"
proof (induction difs arbitrary: pos s x difs1 pos1 s1)
  case Nil
  then show ?case by simp
next
  case (Cons dif difs)
  obtain x0 dif0 pos0 s0 where st: "init_device e dif pos s = (x0, dif0, pos0, s0)"
    by (cases "init_device e dif pos s") auto
  note f0 = init_device_s_flags [OF st]
  show ?case
  proof (cases x0)
    case Next
    obtain x2 difs2 pos2 s2 where lp: "init_devices_loop e difs pos0 s0 = (x2, difs2, pos2, s2)"
      by (cases "init_devices_loop e difs pos0 s0") auto
    from Cons.prems st Next lp have "s1 = s2" by auto
    with Cons.IH [OF lp] f0 show ?thesis by simp
  next
    case (Break err)
    with Cons.prems st f0 show ?thesis by auto
  next
    case (Goto_err_out err)
    with Cons.prems st f0 show ?thesis by auto
  qed
qed

lemma add_blob_s_flags:
  "add_blob e pos s = (r, s1) \<Longrightarrow> s_flags (sb s1) = s_flags (sb s)"
  by (auto simp: add_blob_def erofs_read_metabuf_def kmalloc_def io_def SBI_def Let_def
      split: sum.splits bool.splits)

lemma blob_loop_s_flags:
  "blob_loop e n pos s = (r, s1) \<Longrightarrow> s_flags (sb s1) = s_flags (sb s)"
proof (induction e n pos s arbitrary: r s1 rule: blob_loop.induct)
  case (1 e n pos s)
  show ?case
  proof (cases "extra_devices (devs (EROFS_SB s)) < n")
    case False
    with "1.prems" show ?thesis
      by (subst (asm) blob_loop.simps) auto
  next
    case True
    obtain r0 s0 where ab: "add_blob e pos s = (r0, s0)"
      by (cases "add_blob e pos s") auto
    note f0 = add_blob_s_flags [OF ab]
    show ?thesis
    proof (cases r0)
      case (Inl err)
      with "1.prems" True ab have "s1 = s0"
        by (subst (asm) blob_loop.simps) auto
      with f0 show ?thesis by simp
    next
      case (Inr u)
      with "1.prems" True ab
      have rec: "blob_loop e n (pos + EROFS_DEVT_SLOT_SIZE) s0 = (r, s1)"
        by (subst (asm) blob_loop.simps) auto
      from "1.IH" [OF True ab [symmetric] Inr rec] f0 show ?thesis by simp
    qed
  qed
qed

lemma erofs_init_devices_s_flags:
  "erofs_init_devices e dsb s = (r, s1) \<Longrightarrow> s_flags (sb s1) = s_flags (sb s)"
  by (auto simp: erofs_init_devices_def Let_def SBI_def
      split: if_splits prod.splits loop_exit.splits
      dest!: init_devices_loop_s_flags blob_loop_s_flags)

lemma erofs_read_superblock_s_flags:
  "erofs_read_superblock k e s = (r, s1) \<Longrightarrow> s_flags (sb s1) = s_flags (sb s)"
  by (auto simp: erofs_read_superblock_def erofs_read_metabuf_def Let_def csum_verify_eq
      check_layout_compatibility_def SBI_def io_def
      split: if_splits prod.splits sum.splits option.splits
      dest!: erofs_init_devices_s_flags)

lemma rafs_v6_fill_super_s_flags:
  "rafs_v6_fill_super e s = (r, s1) \<Longrightarrow> s_flags (sb s1) = s_flags (sb s)"
  by (auto simp: rafs_v6_fill_super_def SBI_def io_def
      split: option.splits sum.splits prod.splits)

lemma erofs_init_managed_cache_s_flags:
  "erofs_init_managed_cache k e s = (r, s1) \<Longrightarrow> s_flags (sb s1) = s_flags (sb s)"
  by (auto simp: erofs_init_managed_cache_def SBI_def split: if_splits option.splits)

lemma erofs_parse_options_s_flags':
  "erofs_parse_options k e data s = (r, s1) \<Longrightarrow> s_flags (sb s1) = s_flags (sb s)"
  using erofs_parse_options_s_flags [of k e data s] by simp

lemma erofs_init_managed_cache_snd_s_flags:
  "s_flags (sb (snd (erofs_init_managed_cache k e s))) = s_flags (sb s)"
  by (cases "erofs_init_managed_cache k e s") (auto dest: erofs_init_managed_cache_s_flags)

text \<open>
  A mount that succeeds leaves the superblock read-only: \<open>erofs_fill_super\<close> sets the
  flag before it parses the options, and nothing after that changes it.
\<close>

theorem mount_is_read_only:
  "fst (erofs_fill_super k e data s) = Inr ()
     \<longrightarrow> s_flags (sb (snd (erofs_fill_super k e data s))) AND SB_RDONLY = SB_RDONLY"
proof -
  have c: "(x OR SB_RDONLY OR SB_NOATIME) AND SB_RDONLY = SB_RDONLY" for x :: u64
    by (simp add: SB_NOATIME_def SB_RDONLY_def bit.conj_disj_distrib2)
  have a: "((x OR SB_RDONLY OR SB_NOATIME) AND NOT SB_POSIXACL) AND SB_RDONLY = SB_RDONLY"
    for x :: u64
    using c [of x] by (simp add: SB_POSIXACL_def SB_RDONLY_def word_bw_assocs)
  have b: "((x OR SB_RDONLY OR SB_NOATIME) OR SB_POSIXACL) AND SB_RDONLY = SB_RDONLY"
    for x :: u64
    using c [of x] by (simp add: SB_POSIXACL_def SB_RDONLY_def bit.conj_disj_distrib2)
  show ?thesis
    by (auto simp: erofs_fill_super_def Let_def kmalloc_def SBI_def a b c
        erofs_init_managed_cache_snd_s_flags
        split: if_splits prod.splits sum.splits option.splits bool.splits
        dest!: erofs_parse_options_s_flags' rafs_v6_fill_super_s_flags
          erofs_read_superblock_s_flags)
qed

theorem mount_is_read_only_witness:
  "fst (erofs_fill_super example_kconfig (disk_env (example_block0 0 0 0 0) (Inl EIO) 0)
          None fresh_state) = Inr ()
   \<and> s_flags (sb (snd (erofs_fill_super example_kconfig
          (disk_env (example_block0 0 0 0 0) (Inl EIO) 0) None fresh_state))) AND SB_RDONLY
       = SB_RDONLY"
  using mount_is_read_only [of example_kconfig "disk_env (example_block0 0 0 0 0) (Inl EIO) 0"
      None fresh_state] mount_scenario_succeeds
  by (auto split: prod.splits)

lemma parse_option_paths:
  assumes "parse_option k e p s = (Inr u, s1)"
  shows "rafs_v6_paths s1 =
     (rafs_v6_paths s \<or> fst (match_token p erofs_tokens) = Opt_bootstrap_path
        \<or> fst (match_token p erofs_tokens) = Opt_blob_dir_path)"
  using assms
  by (auto simp: parse_option_def rafs_v6_paths_def erofs_build_cache_strategy_def
      parse_device_def kmalloc_def SBI_def set_opt_def clear_opt_def Let_def
      split: prod.splits opt.splits bool.splits if_splits)

lemma parse_pieces_paths:
  "parse_pieces k e ps s = (Inr u, s1) \<Longrightarrow>
     rafs_v6_paths s1 = (rafs_v6_paths s \<or> rafs_v6_pieces ps)"
proof (induction ps arbitrary: s)
  case Nil
  then show ?case by simp
next
  case (Cons p ps)
  show ?case
  proof (cases "p = []")
    case True
    with Cons show ?thesis by simp
  next
    case False
    obtain r0 s0 where po: "parse_option k e p s = (r0, s0)"
      by (cases "parse_option k e p s")
    with Cons.prems False have r0: "r0 = Inr ()" and rec: "parse_pieces k e ps s0 = (Inr u, s1)"
      by (auto split: sum.splits)
    from parse_option_paths [OF po [unfolded r0]] Cons.IH [OF rec] False
    show ?thesis
      by (auto split: opt.splits)
  qed
qed

text \<open>
  The scan has no effect on the superblock and makes no I/O request, and it agrees with
  the parser: when its copy of the string is allocated and the options parse, from a state
  without bootstrap path and blob-directory path, it answers true exactly when the parsed
  configuration has one of the two.
\<close>

theorem mount_mode_prescan:
  "sb (snd (erofs_mount_is_rafs_v6 e options s0)) = sb s0
   \<and> io_log (snd (erofs_mount_is_rafs_v6 e options s0)) = io_log s0
   \<and> (kmalloc_ok e (nalloc s0) \<and> \<not> rafs_v6_paths s
        \<and> fst (erofs_parse_options k e options s) = Inr ()
      \<longrightarrow> fst (erofs_mount_is_rafs_v6 e options s0)
            = rafs_v6_paths (snd (erofs_parse_options k e options s)))"
proof -
  have frame: "sb (snd (erofs_mount_is_rafs_v6 e options s0)) = sb s0
      \<and> io_log (snd (erofs_mount_is_rafs_v6 e options s0)) = io_log s0"
    by (auto simp: erofs_mount_is_rafs_v6_def kmalloc_def split: option.splits bool.splits)
  have agree: "fst (erofs_mount_is_rafs_v6 e options s0)
            = rafs_v6_paths (snd (erofs_parse_options k e options s))"
    if m: "kmalloc_ok e (nalloc s0)" and np: "\<not> rafs_v6_paths s"
      and ok: "fst (erofs_parse_options k e options s) = Inr ()"
  proof (cases options)
    case None
    with np show ?thesis
      by (simp add: erofs_mount_is_rafs_v6_def erofs_parse_options_def)
  next
    case (Some str)
    obtain s1 where "parse_pieces k e (strsep_comma str) s = (Inr (), s1)"
      using ok Some by (cases "parse_pieces k e (strsep_comma str) s")
        (auto simp: erofs_parse_options_def)
    from parse_pieces_paths [OF this] this np m Some show ?thesis
      by (simp add: erofs_mount_is_rafs_v6_def erofs_parse_options_def kmalloc_def)
  qed
  show ?thesis using frame agree by blast
qed

theorem mount_mode_prescan_witness:
  "kmalloc_ok failing_env (nalloc fresh_state)
   \<and> \<not> rafs_v6_paths fresh_state
   \<and> fst (erofs_parse_options example_kconfig failing_env
            (Some ''noacl,blob_dir_path=/blobs'') fresh_state) = Inr ()
   \<and> fst (erofs_mount_is_rafs_v6 failing_env (Some ''noacl,blob_dir_path=/blobs'') fresh_state)
   \<and> \<not> fst (erofs_mount_is_rafs_v6 failing_env (Some ''noacl,device=/dev/vdb'') fresh_state)"
  using mount_mode_prescan [of failing_env "Some ''noacl,blob_dir_path=/blobs''" fresh_state
      fresh_state example_kconfig]
    mount_mode_prescan [of failing_env "Some ''noacl,device=/dev/vdb''" fresh_state
      fresh_state example_kconfig]
  by (simp add: parse_defs example_defs fresh_state_def rafs_v6_paths_def
      erofs_mount_is_rafs_v6_def)

end
